theory Spec2Isabelle
  imports Complex_Main "HOL-Library.AList"
begin

section \<open>Engine values used by the bot AI component\<close>

text \<open>
  The component is written against Unreal Engine types. The C++ \<open>float\<close> is modelled
  by \<open>real\<close> (exact arithmetic): the properties below are about the decision logic and
  the algebra of the aim solver, not about rounding. A division by zero, which yields an
  infinity or a NaN in the program, is \<open>0\<close> in HOL; no theorem below rests on such
  a quotient unless it says so.
\<close>

record FVector =
  X :: real
  Y :: real
  Z :: real

record FRotator =
  Pitch :: real
  Yaw :: real
  Roll :: real

definition ZeroVector :: FVector where
  "ZeroVector = \<lparr>X = 0, Y = 0, Z = 0\<rparr>"

definition ForwardVector :: FVector where
  "ForwardVector = \<lparr>X = 1, Y = 0, Z = 0\<rparr>"

definition FVector_add :: "FVector \<Rightarrow> FVector \<Rightarrow> FVector" where
  "FVector_add a b = \<lparr>X = X a + X b, Y = Y a + Y b, Z = Z a + Z b\<rparr>"

definition FVector_sub :: "FVector \<Rightarrow> FVector \<Rightarrow> FVector" where
  "FVector_sub a b = \<lparr>X = X a - X b, Y = Y a - Y b, Z = Z a - Z b\<rparr>"

definition FVector_neg :: "FVector \<Rightarrow> FVector" where
  "FVector_neg a = \<lparr>X = - X a, Y = - Y a, Z = - Z a\<rparr>"

definition FVector_scale :: "FVector \<Rightarrow> real \<Rightarrow> FVector" where
  "FVector_scale a k = \<lparr>X = X a * k, Y = Y a * k, Z = Z a * k\<rparr>"

definition FVector_div :: "FVector \<Rightarrow> real \<Rightarrow> FVector" where
  "FVector_div a k = \<lparr>X = X a / k, Y = Y a / k, Z = Z a / k\<rparr>"

definition DotProduct :: "FVector \<Rightarrow> FVector \<Rightarrow> real" where
  "DotProduct a b = X a * X b + Y a * Y b + Z a * Z b"

definition SizeSquared :: "FVector \<Rightarrow> real" where
  "SizeSquared a = X a * X a + Y a * Y a + Z a * Z a"

definition Size :: "FVector \<Rightarrow> real" where
  "Size a = sqrt (SizeSquared a)"

text \<open>The engine's tolerance \<open>SMALL_NUMBER\<close> is \<open>1.e-8f\<close>; it is the default tolerance
  of \<open>FMath::IsNearlyZero\<close>, \<open>FMath::IsNearlyEqual\<close>, \<open>FVector::Normalize\<close> and
  \<open>FVector::GetSafeNormal\<close>.\<close>

definition SMALL_NUMBER :: real where
  "SMALL_NUMBER = 1 / 10 ^ 8"

definition IsNearlyZero :: "real \<Rightarrow> bool" where
  "IsNearlyZero v = (\<bar>v\<bar> \<le> SMALL_NUMBER)"

definition IsNearlyEqual :: "real \<Rightarrow> real \<Rightarrow> bool" where
  "IsNearlyEqual a b = (\<bar>a - b\<bar> \<le> SMALL_NUMBER)"

definition Clamp :: "'a::linorder \<Rightarrow> 'a \<Rightarrow> 'a \<Rightarrow> 'a" where
  "Clamp x lo hi = (if x < lo then lo else if x < hi then x else hi)"

definition TruncToInt :: "real \<Rightarrow> int" where
  "TruncToInt x = (if 0 \<le> x then \<lfloor>x\<rfloor> else \<lceil>x\<rceil>)"

definition GetSafeNormal :: "FVector \<Rightarrow> FVector" where
  "GetSafeNormal a =
     (if SizeSquared a = 1 then a
      else if SizeSquared a < SMALL_NUMBER then ZeroVector
      else FVector_scale a (1 / sqrt (SizeSquared a)))"

definition Normalize :: "FVector \<Rightarrow> FVector" where
  "Normalize a =
     (if SizeSquared a > SMALL_NUMBER then FVector_scale a (1 / sqrt (SizeSquared a))
      else a)"

text \<open>\<open>FMath::RandRange\<close> draws from the process-wide generator. A draw is modelled by
  its outcome \<open>u\<close> in the unit interval (the value of \<open>FMath::FRand()\<close>); the functions
  below that draw take a sequence \<open>rnd\<close> of such outcomes, one position per call site.\<close>

definition RandRange_int :: "int \<Rightarrow> int \<Rightarrow> real \<Rightarrow> int" where
  "RandRange_int lo hi u =
     (let Range = (hi - lo) + 1
      in lo + (if Range > 0 then min (TruncToInt (u * real_of_int Range)) (Range - 1) else 0))"

definition RandRange_float :: "real \<Rightarrow> real \<Rightarrow> real \<Rightarrow> real" where
  "RandRange_float lo hi u = lo + (hi - lo) * u"

text \<open>\<open>TMap\<close>: keys are unique, \<open>Add\<close> replaces the value of a key that is present
  and appends a new pair otherwise; iteration follows that order.\<close>

type_synonym ('k, 'v) TMap = "('k \<times> 'v) list"

definition TMap_Add :: "'k \<Rightarrow> 'v \<Rightarrow> ('k, 'v) TMap \<Rightarrow> ('k, 'v) TMap" where
  "TMap_Add k v m = AList.update k v m"

section \<open>Actors and the world, as the component reads them\<close>

text \<open>An actor pointer is null or an address; the world maps the address of a character
  to what its accessors return at the time of the call.\<close>

datatype ptr = nullptr | Addr nat

datatype EMAWeaponActivity = WEAP_Idle | WEAP_Overheated | WEAP_OtherActivity

record AMAWeapon =
  NameContainsRingLauncher :: bool
  NameContainsChaingun :: bool
  Heat :: real
  CurrentState :: EMAWeaponActivity
  StateTimeElapsed :: real
  ReloadTime :: real

datatype AController = NoController | AAIPlayerController | OtherController

record AMACharacter =
  bIsValid :: bool
  bIsValidLowLevel :: bool
  DebugNameContainsLightCharacter :: bool
  ActorLocation :: FVector
  Velocity :: FVector
  Health :: real
  TimeOfDeath :: real
  TeamId :: nat
  CarriedObject :: ptr
  Mesh1P :: ptr
  Controller :: AController
  ControlRotation :: FRotator
  PlayerStateTeamId :: "nat option"
  Weapon :: "AMAWeapon option"

datatype CarriedObjectState = Held | NotHeld

record AMACTFFlag =
  FlagTeamId :: nat
  FlagLocation :: FVector
  IsHome :: bool
  StateName :: CarriedObjectState

record FMARouteTrail =
  MarkerLocations :: "FVector list"
  GrabTime :: real

record UMAPracticeComponent =
  CurrentMarkerIndex :: int
  RouteTrailToRun :: FMARouteTrail
  PathRecordMarkerInterval :: real
  ModulusForLowPrecisionRecordMarkers :: int
  SelectedRouteTrail :: FMARouteTrail
  RouteTrailMarkerIndex :: int
  bResumePathAfterDamage :: bool
  bStayAliveAfterRouteEnd :: bool
  bRestoreHealthOnTeleport :: bool

text \<open>The world: the clock, the actors, the two line traces the component issues (the
  downward trace against static geometry of \<open>GetHeightAboveGround\<close>, which yields the
  impact height or nothing, and the line-of-sight trace of \<open>AimAtTarget\<close>, which
  yields the hit location), the engine's rotator conversions, and the route-playback
  collaborator, whose code is outside the component.\<close>

record World =
  TimeSeconds :: real
  Characters :: "nat \<Rightarrow> AMACharacter"
  Flags :: "AMACTFFlag list"
  GroundTrace :: "real \<Rightarrow> real \<Rightarrow> real option"
  AimTrace :: "FVector \<Rightarrow> FVector \<Rightarrow> FVector"
  ToOrientationRotator :: "FVector \<Rightarrow> FRotator"
  RotatorVector :: "FRotator \<Rightarrow> FVector"
  GetRouteTrailByName :: "string \<Rightarrow> nat \<Rightarrow> FMARouteTrail"
  MovePawnOnRoutePath :: "UMAPracticeComponent \<Rightarrow> UMAPracticeComponent"
  EndRoutePathPlayback :: "UMAPracticeComponent \<Rightarrow> UMAPracticeComponent"

definition IsValid :: "World \<Rightarrow> ptr \<Rightarrow> bool" where
  "IsValid w p = (case p of nullptr \<Rightarrow> False | Addr a \<Rightarrow> bIsValid (Characters w a))"

definition IsValidLowLevel :: "World \<Rightarrow> ptr \<Rightarrow> bool" where
  "IsValidLowLevel w p = (case p of nullptr \<Rightarrow> False | Addr a \<Rightarrow> bIsValidLowLevel (Characters w a))"

section \<open>The component's state\<close>

datatype EBotTypes =
    EBotTypes_StayAtHome | EBotTypes_Chase | EBotTypes_Offense | EBotTypes_LO
  | EBotTypes_RouteRunner | EBotTypes_StationaryDefense

datatype EBotAccuracyLevels =
    EBotAccuracyLevels_Horrible | EBotAccuracyLevels_Decent
  | EBotAccuracyLevels_Good | EBotAccuracyLevels_Perfect

datatype EAIStates =
    EAIStates_ShootAtTarget | EAIStates_ChangeTarget | EAIStates_WaitForBetterShot
  | EAIStates_LookingForEnemy | EAIStates_MoveToTarget | EAIStates_RouteRunner
  | EAIStates_RunningRoute

datatype EAIRouteState =
    EAIRouteState_NoRouteSelected | EAIRouteState_MovingToRouteStart
  | EAIRouteState_RunningRoute | EAIRouteState_RouteFinished | EAIRouteState_AbandonedRoute

datatype EAIMoveTargetTypes =
    EAIMoveTargetTypes_RouteStart | EAIMoveTargetTypes_FriendlyStand
  | EAIMoveTargetTypes_EnemyStand | EAIMoveTargetTypes_FriendlyFlag
  | EAIMoveTargetTypes_EnemyFlag | EAIMoveTargetTypes_EnemyTarget

datatype EAIFlagStates =
    EAIFlagStates_BothFlagsHome | EAIFlagStates_EnemyFlagTakenFriendlySafe
  | EAIFlagStates_FriendlyTakenEnemyHome | EAIFlagStates_Standoff

record FBotConfig =
  BotType :: EBotTypes
  AccuracyLevel :: EBotAccuracyLevels
  bNoChaingun :: bool
  bNoDisc :: bool
  bBotShoots :: bool
  RouteTrailNames :: "string list"

record FAIState =
  CurrentTask :: EAIStates
  CurrentTarget :: ptr
  DesiredMoveLocation :: FVector
  MoveTargetType :: EAIMoveTargetTypes
  RouteState :: EAIRouteState
  RouteStartLocation :: FVector
  CurrentRoute :: FMARouteTrail
  bIsHoldingFlag :: bool
  bPendingWeaponFire :: bool
  IsTaskInitialized :: bool
  DistanceToEnemyFlag :: real
  DistanceToFriendlyFlag :: real

record FGameState =
  EnemyStandLocation :: FVector
  FriendlyStandLocation :: FVector
  EnemyFlagLocation :: FVector
  FriendlyFlagLocation :: FVector
  bEnemyFlagHome :: bool
  bEnemyFlagHeld :: bool
  bFriendlyFlagHome :: bool
  bFriendlyFlagHeld :: bool
  FlagState :: EAIFlagStates

text \<open>Calls the component makes on its character, its controller and the debug
  drawing interface are recorded in the order they are made.\<close>

datatype Call =
    SetTrigger nat bool
  | SetControlRotation FRotator
  | SetActorRotation FRotator
  | SwitchToWeaponAtIndex nat
  | Suicide
  | DrawDebugLine FVector FVector
  | ClientDrawDebugLine FVector FVector

record UMABotAIComponent =
  AIState :: FAIState
  GameState :: FGameState
  BotConfig :: FBotConfig
  ParentCharacter :: ptr
  PracticeComponent :: UMAPracticeComponent
  bIsDead :: bool
  bIsJetting :: bool
  bBotDebugMode :: bool
  BotAccuracyLevel :: EBotAccuracyLevels
  RecentlySeenTargets :: "(ptr, real) TMap"
  TimeOfTaskStart :: real
  TimeOfLastLookForEnemy :: real
  TimeOfLastMovementTargetChange :: real
  TimeOfLastSpawn :: real
  TimeOfLastWeaponChange :: real
  TimeOfLastShot :: real
  TimeOfLastAimpointChange :: real
  RandomPitchSkew :: real
  RandomYawSkew :: real
  RandomProjectilePropertiesSkew :: real
  Calls :: "Call list"

section \<open>Target memory\<close>

text \<open>\<open>PossibleTargetDied\<close> (source lines 1488 to 1505): the current target is
  dropped when it is the dead one, and the memory is rebuilt from its entries whose key
  is non-null, valid and not the dead target.\<close>

definition PossibleTargetDied :: "World \<Rightarrow> ptr \<Rightarrow> UMABotAIComponent \<Rightarrow> UMABotAIComponent" where
  "PossibleTargetDied w Target s =
     (let s1 = (if CurrentTarget (AIState s) = Target
                then s\<lparr>AIState := (AIState s)\<lparr>CurrentTarget := nullptr\<rparr>\<rparr>
                else s);
          ValidRecentlySeenTargets =
            fold (\<lambda>Element acc.
                    if fst Element \<noteq> nullptr \<and> IsValid w (fst Element) \<and> fst Element \<noteq> Target
                    then TMap_Add (fst Element) (snd Element) acc
                    else acc)
                 (RecentlySeenTargets s1) []
      in s1\<lparr>RecentlySeenTargets := ValidRecentlySeenTargets\<rparr>)"

section \<open>Geometry helpers\<close>

text \<open>\<open>DistanceBetweenTargets\<close> (lines 1515 to 1520) and \<open>DistanceToTarget\<close> (lines
  1506 to 1513). The latter reads the location of the bot's own character without a null
  check, so the model takes that character, already dereferenced, as \<open>parent\<close>; the
  same holds for every function below with a \<open>parent\<close> argument.\<close>

definition DistanceBetweenTargets :: "FVector \<Rightarrow> FVector \<Rightarrow> real" where
  "DistanceBetweenTargets MyLocation TargetLocation =
     (let LocationDifferenceVec = FVector_sub MyLocation TargetLocation;
          SeenDistance = \<bar>Size LocationDifferenceVec\<bar>
      in SeenDistance)"

definition DistanceToTarget :: "World \<Rightarrow> AMACharacter \<Rightarrow> ptr \<Rightarrow> real" where
  "DistanceToTarget w parent Target =
     (case Target of
        nullptr \<Rightarrow> 9999999
      | Addr a \<Rightarrow> DistanceBetweenTargets (ActorLocation parent) (ActorLocation (Characters w a)))"

text \<open>\<open>GetHeightAboveGround\<close> (lines 1675 to 1719): a trace straight down through the
  point; the height of the point above the impact when an actor is hit, \<open>0\<close>
  otherwise. The second component lists the debug lines drawn by the call.\<close>

definition GetHeightAboveGround ::
  "World \<Rightarrow> UMABotAIComponent \<Rightarrow> FVector \<Rightarrow> bool \<Rightarrow> real \<times> Call list" where
  "GetHeightAboveGround w s Point bDrawDebugLines =
     (let StartLocation = \<lparr>X = X Point, Y = Y Point, Z = 10000\<rparr>;
          EndLocation = \<lparr>X = X Point, Y = Y Point, Z = - 10000\<rparr>;
          HitResult = GroundTrace w (X Point) (Y Point);
          drawn = (if bDrawDebugLines \<and> bBotDebugMode s
                   then [DrawDebugLine StartLocation EndLocation] else [])
      in (case HitResult of
            Some ImpactPointZ \<Rightarrow> (Z Point - ImpactPointZ, drawn)
          | None \<Rightarrow> (0, drawn)))"

text \<open>\<open>GetTargetVelocity\<close> (lines 1206 to 1214): the target's speed in km/h.\<close>

definition GetTargetVelocity :: "World \<Rightarrow> ptr \<Rightarrow> real" where
  "GetTargetVelocity w Target =
     (case Target of
        nullptr \<Rightarrow> 0
      | Addr a \<Rightarrow>
          if \<not> IsValid w Target \<or> \<not> IsValidLowLevel w Target then 0
          else Size (Velocity (Characters w a)) * (36 / 1000))"

section \<open>Target evaluation\<close>

text \<open>\<open>GetTargetFocusScore\<close> (lines 1170 to 1204).\<close>

definition GetTargetFocusScore ::
  "World \<Rightarrow> UMABotAIComponent \<Rightarrow> AMACharacter \<Rightarrow> ptr \<Rightarrow> real" where
  "GetTargetFocusScore w s parent Target =
     (case Target of
        nullptr \<Rightarrow> 0
      | Addr a \<Rightarrow>
          if \<not> IsValidLowLevel w Target \<or> \<not> IsValid w Target
             \<or> Mesh1P (Characters w a) = nullptr
          then 0
          else
            let TargetFocusScore = 0;
                TargetFocusScore =
                  (if Target = CurrentTarget (AIState s) then TargetFocusScore + 30
                   else TargetFocusScore);
                TargetFocusScore = TargetFocusScore + (200 - Health (Characters w a)) / 10;
                TargetFocusScore = TargetFocusScore + (200 - GetTargetVelocity w Target) / 5;
                TargetHeightAboveGround =
                  fst (GetHeightAboveGround w s (ActorLocation (Characters w a)) False);
                TargetFocusScore =
                  (if TargetHeightAboveGround < 200 then TargetFocusScore + 30
                   else TargetFocusScore);
                TargetFocusScore =
                  TargetFocusScore
                    + Clamp ((10000 - DistanceToTarget w parent Target) / 100) (- 100) 40;
                TargetFocusScore =
                  (if CarriedObject (Characters w a) \<noteq> nullptr then TargetFocusScore + 50
                   else TargetFocusScore)
            in TargetFocusScore)"

text \<open>A character counts as dead when it has a time of death or no health left: the test
  by which \<open>TickComponent\<close> (lines 97 and 98) drops the current target.\<close>

definition IsDead :: "AMACharacter \<Rightarrow> bool" where
  "IsDead c = (\<not> IsNearlyZero (TimeOfDeath c) \<or> IsNearlyZero (Health c))"

section \<open>Predictive aim\<close>

text \<open>The value of the local \<open>targetPosition\<close> of \<open>PredictiveAim\<close> after lines 1559
  to 1564: the local named \<open>groundHeight\<close> holds what \<open>GetHeightAboveGround\<close>
  returns.\<close>

definition PredictiveAim_targetPosition ::
  "World \<Rightarrow> UMABotAIComponent \<Rightarrow> FVector \<Rightarrow> FVector" where
  "PredictiveAim_targetPosition w s targetPosition =
     (let groundHeight = fst (GetHeightAboveGround w s targetPosition False)
      in if Z targetPosition - groundHeight < 600
         then targetPosition\<lparr>Z := groundHeight\<rparr>
         else targetPosition)"

text \<open>The intercept time of \<open>PredictiveAim\<close> (lines 1574 to 1637): the flag
  \<open>validSolutionFound\<close> and the time \<open>t\<close>. \<open>wildGuess\<close> is the outcome of
  \<open>FMath::RandRange(1, 5)\<close>, which the source draws only where no solution is found.\<close>

definition PredictiveAim_time ::
  "real \<Rightarrow> real \<Rightarrow> real \<Rightarrow> real \<Rightarrow> real \<Rightarrow> real \<Rightarrow> real \<Rightarrow> bool \<times> real" where
  "PredictiveAim_time wildGuess projectileSpeedSq targetSpeedSq targetSpeed
       targetToMuzzleDistSq targetToMuzzleDist cosTheta =
     (if IsNearlyEqual projectileSpeedSq targetSpeedSq
      then
        (if cosTheta > 0
         then (True, (1 / 2) * targetToMuzzleDist / (targetSpeed * cosTheta))
         else (False, wildGuess))
      else
        let a = projectileSpeedSq - targetSpeedSq;
            b = 2 * targetToMuzzleDist * targetSpeed * cosTheta;
            c = - targetToMuzzleDistSq;
            discriminant = b * b - 4 * a * c
        in if discriminant < 0
           then (False, wildGuess)
           else
             let uglyNumber = sqrt discriminant;
                 t0 = (1 / 2) * (- b + uglyNumber) / a;
                 t1 = (1 / 2) * (- b - uglyNumber) / a;
                 t = min t0 t1;
                 t = (if t < SMALL_NUMBER then max t0 t1 else t)
             in if t < SMALL_NUMBER then (False, wildGuess) else (True, t))"

text \<open>\<open>PredictiveAim\<close> (lines 1544 to 1672). The result is the projectile velocity
  together with the debug lines drawn on the way; \<open>rnd 23\<close> is the outcome of the draw
  of the fallback time.\<close>

definition PredictiveAim ::
  "World \<Rightarrow> UMABotAIComponent \<Rightarrow> (nat \<Rightarrow> real) \<Rightarrow> FVector \<Rightarrow> real \<Rightarrow> FVector \<Rightarrow> FVector \<Rightarrow> real
     \<Rightarrow> FVector \<times> Call list" where
  "PredictiveAim w s rnd muzzlePosition projectileSpeed targetPosition targetVelocity gravity =
     (let projectileSpeedSq = projectileSpeed * projectileSpeed;
          targetSpeedSq = Size targetVelocity * Size targetVelocity;
          targetSpeed = Size targetVelocity;
          targetToMuzzle = FVector_sub muzzlePosition targetPosition;
          targetToMuzzleDistSq = Size targetToMuzzle * Size targetToMuzzle;
          targetToMuzzleDist = Size targetToMuzzle;
          targetToMuzzleDir = Normalize targetToMuzzle;
          drawn = snd (GetHeightAboveGround w s targetPosition False);
          targetPosition = PredictiveAim_targetPosition w s targetPosition;
          cosTheta = (if targetSpeedSq > 0
                      then DotProduct targetToMuzzleDir (GetSafeNormal targetVelocity)
                      else 1);
          wildGuess = real_of_int (RandRange_int 1 5 (rnd 23));
          solution = PredictiveAim_time wildGuess projectileSpeedSq targetSpeedSq targetSpeed
                       targetToMuzzleDistSq targetToMuzzleDist cosTheta;
          validSolutionFound = fst solution;
          t = snd solution;
          projectileVelocity =
            FVector_add targetVelocity (FVector_div (FVector_neg targetToMuzzle) t);
          projectileVelocity =
            (if \<not> validSolutionFound
             then FVector_scale (GetSafeNormal projectileVelocity) projectileSpeed
             else projectileVelocity)
      in (projectileVelocity, drawn))"

text \<open>\<open>GetWeaponAimLocation\<close> (lines 1527 to 1542).\<close>

definition GetWeaponAimLocation ::
  "World \<Rightarrow> UMABotAIComponent \<Rightarrow> (nat \<Rightarrow> real) \<Rightarrow> AMACharacter \<Rightarrow> ptr \<Rightarrow> real \<Rightarrow> real
     \<Rightarrow> FVector \<times> Call list" where
  "GetWeaponAimLocation w s rnd parent Target ProjectileSpeed Inheritance =
     (case Target of
        nullptr \<Rightarrow> (ForwardVector, [])
      | Addr a \<Rightarrow>
          let OriginatingLoc = ActorLocation parent;
              TargetLoc = ActorLocation (Characters w a);
              OriginatorVelocity = Velocity parent;
              DiscVelocity = FVector_scale OriginatorVelocity Inheritance;
              TargetVelocity = Velocity (Characters w a);
              AdjustedTargetVelocity = FVector_sub TargetVelocity DiscVelocity;
              discSpeed = ProjectileSpeed
          in PredictiveAim w s rnd OriginatingLoc discSpeed TargetLoc AdjustedTargetVelocity 0)"

section \<open>Destination resolution\<close>

text \<open>The two assignments to \<open>AIState.MoveTargetType\<close> and
  \<open>AIState.DesiredMoveLocation\<close>, which the source always makes together.\<close>

definition SetMoveTarget ::
  "EAIMoveTargetTypes \<Rightarrow> FVector \<Rightarrow> UMABotAIComponent \<Rightarrow> UMABotAIComponent" where
  "SetMoveTarget T L s = s\<lparr>AIState := (AIState s)\<lparr>MoveTargetType := T, DesiredMoveLocation := L\<rparr>\<rparr>"

text \<open>The body of the loop over the flag actors (lines 559 to 575).\<close>

definition DetermineMoveLocation_ScanFlag ::
  "AMACharacter \<Rightarrow> AMACTFFlag \<Rightarrow> UMABotAIComponent \<Rightarrow> UMABotAIComponent" where
  "DetermineMoveLocation_ScanFlag parent Flag s =
     (let BotTeamId = TeamId parent;
          FlagTeamId = FlagTeamId Flag;
          bEnemyFlag = (BotTeamId \<noteq> FlagTeamId)
      in if bEnemyFlag
         then s\<lparr>GameState := (GameState s)
                   \<lparr>EnemyFlagLocation := FlagLocation Flag,
                    bEnemyFlagHome := IsHome Flag,
                    bEnemyFlagHeld := (StateName Flag = Held)\<rparr>,
                AIState := (AIState s)
                   \<lparr>DistanceToEnemyFlag :=
                      DistanceBetweenTargets (ActorLocation parent) (FlagLocation Flag)\<rparr>\<rparr>
         else s\<lparr>GameState := (GameState s)
                   \<lparr>FriendlyFlagLocation := FlagLocation Flag,
                    bFriendlyFlagHome := IsHome Flag,
                    bFriendlyFlagHeld := (StateName Flag = Held)\<rparr>,
                AIState := (AIState s)
                   \<lparr>DistanceToFriendlyFlag :=
                      DistanceBetweenTargets (ActorLocation parent) (FlagLocation Flag)\<rparr>\<rparr>)"

text \<open>The derived flag state (lines 577 to 589).\<close>

definition DetermineMoveLocation_FlagState :: "UMABotAIComponent \<Rightarrow> UMABotAIComponent" where
  "DetermineMoveLocation_FlagState s =
     (if bEnemyFlagHome (GameState s) \<and> bFriendlyFlagHome (GameState s)
      then s\<lparr>GameState := (GameState s)\<lparr>FlagState := EAIFlagStates_BothFlagsHome\<rparr>\<rparr>
      else if \<not> bEnemyFlagHome (GameState s) \<and> bFriendlyFlagHome (GameState s)
      then s\<lparr>GameState := (GameState s)\<lparr>FlagState := EAIFlagStates_EnemyFlagTakenFriendlySafe\<rparr>\<rparr>
      else if bEnemyFlagHome (GameState s) \<and> \<not> bFriendlyFlagHome (GameState s)
      then s\<lparr>GameState := (GameState s)\<lparr>FlagState := EAIFlagStates_FriendlyTakenEnemyHome\<rparr>\<rparr>
      else if \<not> bEnemyFlagHome (GameState s) \<and> \<not> bFriendlyFlagHome (GameState s)
      then s\<lparr>GameState := (GameState s)\<lparr>FlagState := EAIFlagStates_Standoff\<rparr>\<rparr>
      else s)"

text \<open>The refresh of the game state (lines 557 to 591).\<close>

definition DetermineMoveLocation_Refresh ::
  "World \<Rightarrow> AMACharacter \<Rightarrow> UMABotAIComponent \<Rightarrow> UMABotAIComponent" where
  "DetermineMoveLocation_Refresh w parent s =
     (let s = fold (DetermineMoveLocation_ScanFlag parent) (Flags w) s;
          s = DetermineMoveLocation_FlagState s
      in s\<lparr>AIState := (AIState s)\<lparr>bIsHoldingFlag := (CarriedObject parent \<noteq> nullptr)\<rparr>\<rparr>)"

text \<open>Lines 593 to 598: with the flag in hand, go to the friendly stand.\<close>

definition DetermineMoveLocation_Holding :: "UMABotAIComponent \<Rightarrow> UMABotAIComponent" where
  "DetermineMoveLocation_Holding s =
     (if bIsHoldingFlag (AIState s)
      then SetMoveTarget EAIMoveTargetTypes_FriendlyStand (FriendlyStandLocation (GameState s)) s
      else s)"

text \<open>Lines 599 to 604: a chaser goes to the friendly flag.\<close>

definition DetermineMoveLocation_Chase :: "UMABotAIComponent \<Rightarrow> UMABotAIComponent" where
  "DetermineMoveLocation_Chase s =
     (if \<not> bIsHoldingFlag (AIState s) \<and> BotType (BotConfig s) = EBotTypes_Chase
      then SetMoveTarget EAIMoveTargetTypes_FriendlyFlag (FriendlyFlagLocation (GameState s)) s
      else s)"

text \<open>Lines 605 to 645: offense and light offense.\<close>

definition DetermineMoveLocation_Offense :: "UMABotAIComponent \<Rightarrow> UMABotAIComponent" where
  "DetermineMoveLocation_Offense s =
     (if \<not> bIsHoldingFlag (AIState s)
         \<and> (BotType (BotConfig s) = EBotTypes_Offense \<or> BotType (BotConfig s) = EBotTypes_LO)
      then
        if bEnemyFlagHome (GameState s) = False \<and> bEnemyFlagHeld (GameState s) = False
           \<and> DistanceToEnemyFlag (AIState s) < 5000
        then SetMoveTarget EAIMoveTargetTypes_EnemyFlag (EnemyFlagLocation (GameState s)) s
        else if bFriendlyFlagHeld (GameState s) = False \<and> bFriendlyFlagHome (GameState s) = False
           \<and> DistanceToFriendlyFlag (AIState s) < 5000
        then SetMoveTarget EAIMoveTargetTypes_FriendlyFlag (FriendlyFlagLocation (GameState s)) s
        else if FlagState (GameState s) = EAIFlagStates_Standoff
        then SetMoveTarget EAIMoveTargetTypes_FriendlyFlag (FriendlyFlagLocation (GameState s)) s
        else if BotType (BotConfig s) = EBotTypes_Offense
        then SetMoveTarget EAIMoveTargetTypes_EnemyFlag (EnemyFlagLocation (GameState s)) s
        else if BotType (BotConfig s) = EBotTypes_LO
        then
          if FlagState (GameState s) = EAIFlagStates_EnemyFlagTakenFriendlySafe
          then SetMoveTarget EAIMoveTargetTypes_EnemyFlag (EnemyFlagLocation (GameState s)) s
          else SetMoveTarget EAIMoveTargetTypes_EnemyStand (EnemyStandLocation (GameState s)) s
        else s
      else s)"

text \<open>Lines 646 to 668: stay at home.\<close>

definition DetermineMoveLocation_StayAtHome :: "UMABotAIComponent \<Rightarrow> UMABotAIComponent" where
  "DetermineMoveLocation_StayAtHome s =
     (if BotType (BotConfig s) = EBotTypes_StayAtHome
      then
        let s = SetMoveTarget EAIMoveTargetTypes_FriendlyStand (FriendlyStandLocation (GameState s)) s
        in if FlagState (GameState s) = EAIFlagStates_Standoff
              \<or> (FlagState (GameState s) = EAIFlagStates_EnemyFlagTakenFriendlySafe
                  \<and> DistanceToEnemyFlag (AIState s) < 10000
                  \<and> bEnemyFlagHeld (GameState s) = False)
           then SetMoveTarget EAIMoveTargetTypes_EnemyFlag (EnemyFlagLocation (GameState s)) s
           else if FlagState (GameState s) = EAIFlagStates_FriendlyTakenEnemyHome
                   \<and> DistanceToFriendlyFlag (AIState s) < 10000
           then SetMoveTarget EAIMoveTargetTypes_FriendlyFlag (FriendlyFlagLocation (GameState s)) s
           else s
      else s)"

text \<open>Lines 669 to 675: close to the destination and with a target near, go for the
  target. \<open>TargetDistance\<close> was measured on entry (line 545).\<close>

definition DetermineMoveLocation_Target ::
  "World \<Rightarrow> AMACharacter \<Rightarrow> real \<Rightarrow> UMABotAIComponent \<Rightarrow> UMABotAIComponent" where
  "DetermineMoveLocation_Target w parent TargetDistance s =
     (let DistanceToMoveLocation =
            DistanceBetweenTargets (ActorLocation parent) (DesiredMoveLocation (AIState s))
      in case CurrentTarget (AIState s) of
           nullptr \<Rightarrow> s
         | Addr a \<Rightarrow>
             if TargetDistance < 20000 \<and> DistanceToMoveLocation < 10000
             then SetMoveTarget EAIMoveTargetTypes_EnemyTarget (ActorLocation (Characters w a)) s
             else s)"

text \<open>Lines 677 to 702: a flag in the field, within the override distance of the role.\<close>

definition DetermineMoveLocation_FlagOverride :: "UMABotAIComponent \<Rightarrow> UMABotAIComponent" where
  "DetermineMoveLocation_FlagOverride s =
     (let FriendlyFlagOverrideDistance = 5000;
          EnemyFlagOverrideDistance = 5000;
          EnemyFlagOverrideDistance =
            (if BotType (BotConfig s) = EBotTypes_StayAtHome then 15000
             else EnemyFlagOverrideDistance);
          FriendlyFlagOverrideDistance =
            (if BotType (BotConfig s) = EBotTypes_StayAtHome then 10000
             else FriendlyFlagOverrideDistance);
          FriendlyFlagOverrideDistance =
            (if BotType (BotConfig s) = EBotTypes_Chase then 15000
             else FriendlyFlagOverrideDistance);
          s = (if DistanceToFriendlyFlag (AIState s) < FriendlyFlagOverrideDistance
                  \<and> \<not> bFriendlyFlagHeld (GameState s)
                  \<and> (FlagState (GameState s) = EAIFlagStates_FriendlyTakenEnemyHome
                      \<or> FlagState (GameState s) = EAIFlagStates_Standoff)
               then SetMoveTarget EAIMoveTargetTypes_FriendlyFlag
                      (FriendlyFlagLocation (GameState s)) s
               else s)
      in if DistanceToEnemyFlag (AIState s) < EnemyFlagOverrideDistance
            \<and> \<not> bEnemyFlagHeld (GameState s)
            \<and> (FlagState (GameState s) = EAIFlagStates_EnemyFlagTakenFriendlySafe
                \<or> FlagState (GameState s) = EAIFlagStates_Standoff)
         then SetMoveTarget EAIMoveTargetTypes_EnemyFlag (EnemyFlagLocation (GameState s)) s
         else s)"

text \<open>Lines 704 to 709: with the flag in hand and the friendly flag home, go and cap.\<close>

definition DetermineMoveLocation_Cap :: "UMABotAIComponent \<Rightarrow> UMABotAIComponent" where
  "DetermineMoveLocation_Cap s =
     (if bIsHoldingFlag (AIState s) \<and> bFriendlyFlagHome (GameState s)
      then SetMoveTarget EAIMoveTargetTypes_FriendlyStand (FriendlyStandLocation (GameState s)) s
      else s)"

text \<open>The choice of the destination (lines 593 to 709).\<close>

definition DetermineMoveLocation_Choose ::
  "World \<Rightarrow> AMACharacter \<Rightarrow> real \<Rightarrow> UMABotAIComponent \<Rightarrow> UMABotAIComponent" where
  "DetermineMoveLocation_Choose w parent TargetDistance s =
     (let s = DetermineMoveLocation_Holding s;
          s = DetermineMoveLocation_Chase s;
          s = DetermineMoveLocation_Offense s;
          s = DetermineMoveLocation_StayAtHome s;
          s = DetermineMoveLocation_Target w parent TargetDistance s;
          s = DetermineMoveLocation_FlagOverride s
      in DetermineMoveLocation_Cap s)"

text \<open>\<open>DetermineMoveLocation\<close> (lines 539 to 805).\<close>

definition DetermineMoveLocation :: "World \<Rightarrow> UMABotAIComponent \<Rightarrow> UMABotAIComponent" where
  "DetermineMoveLocation w s =
     (case ParentCharacter s of
        nullptr \<Rightarrow> s
      | Addr pa \<Rightarrow>
          let parent = Characters w pa;
              TargetDistance = DistanceToTarget w parent (CurrentTarget (AIState s));
              OriginalMoveLocation = DesiredMoveLocation (AIState s);
              OriginalMoveLocationType = MoveTargetType (AIState s);
              s = s\<lparr>AIState := (AIState s)\<lparr>DesiredMoveLocation := ZeroVector\<rparr>\<rparr>
          in if BotType (BotConfig s) = EBotTypes_Offense
                \<and> RouteState (AIState s) = EAIRouteState_MovingToRouteStart
             then s\<lparr>AIState := (AIState s)
                       \<lparr>MoveTargetType := EAIMoveTargetTypes_RouteStart,
                        DesiredMoveLocation := RouteStartLocation (AIState s)\<rparr>\<rparr>
             else
               let s = DetermineMoveLocation_Refresh w parent s;
                   s = DetermineMoveLocation_Choose w parent TargetDistance s
               in if OriginalMoveLocationType \<noteq> MoveTargetType (AIState s)
                  then s\<lparr>TimeOfLastMovementTargetChange := TimeSeconds w\<rparr>
                  else s)"

section \<open>Vocabulary for the proofs about destination resolution\<close>

text \<open>Updates of single fields, and the two relations that say which fields a step of
  \<open>DetermineMoveLocation\<close> may change.\<close>

definition WithMoveTargetType :: "EAIMoveTargetTypes \<Rightarrow> UMABotAIComponent \<Rightarrow> UMABotAIComponent" where
  "WithMoveTargetType m t = t\<lparr>AIState := (AIState t)\<lparr>MoveTargetType := m\<rparr>\<rparr>"

definition WithTimeOfLastMovementTargetChange :: "real \<Rightarrow> UMABotAIComponent \<Rightarrow> UMABotAIComponent" where
  "WithTimeOfLastMovementTargetChange \<tau> t = t\<lparr>TimeOfLastMovementTargetChange := \<tau>\<rparr>"

definition ResetDesiredMoveLocation :: "UMABotAIComponent \<Rightarrow> UMABotAIComponent" where
  "ResetDesiredMoveLocation t = t\<lparr>AIState := (AIState t)\<lparr>DesiredMoveLocation := ZeroVector\<rparr>\<rparr>"

definition OnlyGameStateRefreshed :: "UMABotAIComponent \<Rightarrow> UMABotAIComponent \<Rightarrow> bool" where
  "OnlyGameStateRefreshed t t' =
     (\<exists>G a b h. t' = t\<lparr>GameState := G,
             AIState := (AIState t)
               \<lparr>DistanceToEnemyFlag := a, DistanceToFriendlyFlag := b, bIsHoldingFlag := h\<rparr>\<rparr>)"

definition OnlyDestinationChanged :: "UMABotAIComponent \<Rightarrow> UMABotAIComponent \<Rightarrow> bool" where
  "OnlyDestinationChanged t t' =
     (\<exists>m d. t' = t\<lparr>AIState := (AIState t)\<lparr>MoveTargetType := m, DesiredMoveLocation := d\<rparr>\<rparr>)"

section \<open>Weapon selection\<close>

text \<open>A call on a collaborator is appended to the record of calls.\<close>

definition RecordCall :: "Call \<Rightarrow> UMABotAIComponent \<Rightarrow> UMABotAIComponent" where
  "RecordCall c s = s\<lparr>Calls := Calls s @ [c]\<rparr>"

text \<open>Where the source dereferences a pointer it has not tested, and the pointer is null,
  the model returns a fault.\<close>

datatype Fault = NullDereference

text \<open>\<open>FVector + float\<close> adds the number to each component.\<close>

definition FVector_bias :: "FVector \<Rightarrow> real \<Rightarrow> FVector" where
  "FVector_bias a k = \<lparr>X = X a + k, Y = Y a + k, Z = Z a + k\<rparr>"

text \<open>The two scores of \<open>SelectBestWeapon\<close> (lines 1090 to 1150), as the pair
  \<open>(DiscWeight, ChaingunWeight)\<close>; \<open>a\<close> is the address of the current target and
  \<open>weapon\<close> the weapon in hand.\<close>

definition SelectBestWeapon_weights ::
  "World \<Rightarrow> UMABotAIComponent \<Rightarrow> AMACharacter \<Rightarrow> AMAWeapon \<Rightarrow> nat \<Rightarrow> real \<times> real" where
  "SelectBestWeapon_weights w s parent weapon a =
     (let Target = Characters w a;
          DiscWeight = 1;
          ChaingunWeight = 0;
          ChaingunWeight = (if Health Target < 50 then ChaingunWeight + 30 else ChaingunWeight);
          DiscWeight = (if Health Target < 50 then DiscWeight + 5 else DiscWeight);
          TargetHeightAboveGround = fst (GetHeightAboveGround w s (ActorLocation Target) False);
          DiscWeight = (if TargetHeightAboveGround < 600 then DiscWeight + 30 else DiscWeight);
          ChaingunWeight =
            (if TargetHeightAboveGround < 600 then ChaingunWeight else ChaingunWeight + 10);
          ChaingunWeight =
            (if GetTargetVelocity w (Addr a) > 160 then ChaingunWeight + 15 else ChaingunWeight);
          TargetDistance = DistanceToTarget w parent (Addr a);
          ChaingunWeight =
            (if TargetDistance > 10000 then ChaingunWeight + 20 else ChaingunWeight);
          DiscWeight =
            (if \<not> TargetDistance > 10000 \<and> TargetDistance < 3000 then DiscWeight + 20
             else DiscWeight);
          TargetDistancePlusVelocity =
            DistanceBetweenTargets (ActorLocation parent)
              (FVector_bias (ActorLocation Target) (GetTargetVelocity w (Addr a)));
          DiscWeight =
            (if \<bar>TargetDistancePlusVelocity - TargetDistance\<bar> > (8 / 10) * Size (Velocity Target)
             then DiscWeight + 15 else DiscWeight);
          ChaingunWeight = (if bNoChaingun (BotConfig s) then - 100 else ChaingunWeight);
          DiscWeight = (if bNoDisc (BotConfig s) then - 100 else DiscWeight);
          TimeSinceLastWeaponChange = TimeSeconds w - TimeOfLastWeaponChange s;
          ChaingunWeight =
            (if NameContainsChaingun weapon
             then
               if AccuracyLevel (BotConfig s) = EBotAccuracyLevels_Horrible
                  \<and> TimeSinceLastWeaponChange > 2
               then ChaingunWeight - 50
               else if AccuracyLevel (BotConfig s) = EBotAccuracyLevels_Decent
                  \<and> TimeSinceLastWeaponChange > 3
               then ChaingunWeight - 20
               else ChaingunWeight
             else ChaingunWeight)
      in (DiscWeight, ChaingunWeight))"

text \<open>\<open>SelectBestWeapon\<close> (lines 1082 to 1167). Slot \<open>0\<close> holds the disc launcher
  (\<open>RingLauncher\<close>) and slot \<open>2\<close> the chaingun: a switch to slot \<open>0\<close> counts as
  a weapon change when the chaingun is in hand, a switch to slot \<open>2\<close> when the disc
  launcher is. The weapon pointer is dereferenced unchecked at line 1137.\<close>

definition SelectBestWeapon :: "World \<Rightarrow> UMABotAIComponent \<Rightarrow> Fault + UMABotAIComponent" where
  "SelectBestWeapon w s =
     (case CurrentTarget (AIState s) of
        nullptr \<Rightarrow> Inr s
      | Addr a \<Rightarrow>
          (case ParentCharacter s of
             nullptr \<Rightarrow> Inr s
           | Addr pa \<Rightarrow>
               let parent = Characters w pa
               in if \<not> IsNearlyZero (TimeOfDeath (Characters w a))
                     \<or> TimeSeconds w - TimeOfLastWeaponChange s < 2
                  then Inr s
                  else
                    (case Weapon parent of
                       None \<Rightarrow> Inl NullDereference
                     | Some weapon \<Rightarrow>
                         let weights = SelectBestWeapon_weights w s parent weapon a;
                             DiscWeight = fst weights;
                             ChaingunWeight = snd weights
                         in if DiscWeight > ChaingunWeight
                            then
                              let s = (if NameContainsChaingun weapon
                                       then s\<lparr>TimeOfLastWeaponChange := TimeSeconds w\<rparr>
                                       else s)
                              in Inr (RecordCall (SwitchToWeaponAtIndex 0) s)
                            else
                              let s = (if NameContainsRingLauncher weapon
                                       then s\<lparr>TimeOfLastWeaponChange := TimeSeconds w\<rparr>
                                       else s)
                              in Inr (RecordCall (SwitchToWeaponAtIndex 2) s))))"

section \<open>Aiming and firing\<close>

definition FRotator_Lerp :: "FRotator \<Rightarrow> FRotator \<Rightarrow> real \<Rightarrow> FRotator" where
  "FRotator_Lerp A B Alpha =
     \<lparr>Pitch = Pitch A + Alpha * (Pitch B - Pitch A),
      Yaw = Yaw A + Alpha * (Yaw B - Yaw A),
      Roll = Roll A + Alpha * (Roll B - Roll A)\<rparr>"

definition RadiansToDegrees :: "real \<Rightarrow> real" where
  "RadiansToDegrees r = r * (180 / pi)"

text \<open>Whether the weapon may fire now (lines 1249 to 1302 of \<open>AimAtTarget\<close>). The
  accuracy level read here is the component's own member, set from the configuration when
  the bot is enabled.\<close>

definition AimAtTarget_ShouldFire ::
  "World \<Rightarrow> UMABotAIComponent \<Rightarrow> AMAWeapon \<Rightarrow> bool \<Rightarrow> bool" where
  "AimAtTarget_ShouldFire w s weapon FireWeapon =
     (let bIsChaingun = NameContainsChaingun weapon;
          bShouldFireWeapon = (FireWeapon \<and> bBotShoots (BotConfig s));
          TimeSinceLastShot = TimeSeconds w - TimeOfLastShot s;
          bShouldFireWeapon =
            (if \<not> bIsChaingun
             then
               (case BotAccuracyLevel s of
                  EBotAccuracyLevels_Horrible \<Rightarrow>
                    if TimeSinceLastShot < 6 then False else bShouldFireWeapon
                | EBotAccuracyLevels_Decent \<Rightarrow>
                    if TimeSinceLastShot < 4 then False else bShouldFireWeapon
                | EBotAccuracyLevels_Good \<Rightarrow>
                    if TimeSinceLastShot < 2 then False else bShouldFireWeapon
                | EBotAccuracyLevels_Perfect \<Rightarrow> bShouldFireWeapon)
             else
               (case BotAccuracyLevel s of
                  EBotAccuracyLevels_Horrible \<Rightarrow>
                    if Heat weapon > 1 / 10 then False else bShouldFireWeapon
                | EBotAccuracyLevels_Decent \<Rightarrow>
                    if Heat weapon > 2 / 10 then False else bShouldFireWeapon
                | EBotAccuracyLevels_Good \<Rightarrow>
                    if Heat weapon > 4 / 10 then False else bShouldFireWeapon
                | EBotAccuracyLevels_Perfect \<Rightarrow> bShouldFireWeapon))
      in if CurrentState weapon \<noteq> WEAP_Idle \<or> StateTimeElapsed weapon < ReloadTime weapon
         then False
         else bShouldFireWeapon)"

text \<open>The aim skew, re-rolled at most once a second and clamped (lines 1308 to 1371).
  The outcomes \<open>rnd 0\<close> to \<open>rnd 22\<close> belong to the call sites of
  \<open>FMath::RandRange\<close> in textual order.\<close>

definition AimAtTarget_RollSkew ::
  "World \<Rightarrow> (nat \<Rightarrow> real) \<Rightarrow> UMABotAIComponent \<Rightarrow> UMABotAIComponent" where
  "AimAtTarget_RollSkew w rnd s =
     (let s =
        (if TimeSeconds w - TimeOfLastAimpointChange s > 1
         then
           let s = s\<lparr>TimeOfLastAimpointChange := TimeSeconds w\<rparr>;
               AddPitch = (if RandRange_int 0 1 (rnd 0) = 0 then 1 else - 1);
               AddYaw = (if RandRange_int 0 1 (rnd 1) = 0 then 1 else - 1);
               s = s\<lparr>RandomPitchSkew := 0, RandomYawSkew := 0,
                      RandomProjectilePropertiesSkew := 1\<rparr>
           in (case BotAccuracyLevel s of
                 EBotAccuracyLevels_Horrible \<Rightarrow>
                   let s = s\<lparr>RandomProjectilePropertiesSkew :=
                                RandRange_float (1 / 2) (3 / 2) (rnd 2)\<rparr>
                   in if RandRange_int 0 5 (rnd 3) \<noteq> 0
                      then s\<lparr>RandomPitchSkew :=
                               RandomPitchSkew s + RandRange_float 15 30 (rnd 4) * AddPitch,
                             RandomYawSkew :=
                               RandomYawSkew s + RandRange_float 15 30 (rnd 5) * AddYaw\<rparr>
                      else s\<lparr>RandomPitchSkew :=
                               RandomPitchSkew s + RandRange_float (- 25) 25 (rnd 6),
                             RandomYawSkew :=
                               RandomYawSkew s + RandRange_float (- 15) 15 (rnd 7)\<rparr>
               | EBotAccuracyLevels_Decent \<Rightarrow>
                   let s = (if RandRange_int 0 1 (rnd 8) = 0
                            then s\<lparr>RandomProjectilePropertiesSkew :=
                                     RandRange_float (2 / 10) (3 / 2) (rnd 9)\<rparr>
                            else s)
                   in if RandRange_int 0 1 (rnd 10) \<noteq> 0
                      then s\<lparr>RandomPitchSkew :=
                               RandomPitchSkew s + RandRange_float 15 25 (rnd 11) * AddPitch,
                             RandomYawSkew :=
                               RandomYawSkew s + RandRange_float 15 25 (rnd 12) * AddYaw\<rparr>
                      else s\<lparr>RandomPitchSkew :=
                               RandomPitchSkew s + RandRange_float (- 20) 20 (rnd 13),
                             RandomYawSkew :=
                               RandomYawSkew s + RandRange_float (- 20) 20 (rnd 14)\<rparr>
               | EBotAccuracyLevels_Good \<Rightarrow>
                   let s = (if RandRange_int 0 1 (rnd 15) = 0
                            then s\<lparr>RandomProjectilePropertiesSkew :=
                                     RandRange_float (1 / 2) (3 / 2) (rnd 16)\<rparr>
                            else s)
                   in if RandRange_int 0 1 (rnd 17) = 0
                      then s\<lparr>RandomPitchSkew :=
                               RandomPitchSkew s + RandRange_float 15 35 (rnd 18) * AddPitch,
                             RandomYawSkew :=
                               RandomYawSkew s + RandRange_float 10 30 (rnd 19) * AddYaw\<rparr>
                      else if RandRange_int 0 1 (rnd 20) = 0
                      then s\<lparr>RandomPitchSkew :=
                               RandomPitchSkew s + RandRange_float (- 15) 15 (rnd 21),
                             RandomYawSkew :=
                               RandomYawSkew s + RandRange_float (- 15) 15 (rnd 22)\<rparr>
                      else s
               | EBotAccuracyLevels_Perfect \<Rightarrow> s)
         else s)
      in s\<lparr>RandomYawSkew := Clamp (RandomYawSkew s) (- 80) 80,
            RandomPitchSkew := Clamp (RandomPitchSkew s) (- 80) 80\<rparr>)"

text \<open>The aim spot requested at line 1374, from the projectile data of the weapon in hand
  (lines 1231 to 1247) and the projectile skew (line 1373).\<close>

definition AimAtTarget_AimSpot ::
  "World \<Rightarrow> (nat \<Rightarrow> real) \<Rightarrow> AMACharacter \<Rightarrow> AMAWeapon \<Rightarrow> bool \<Rightarrow> UMABotAIComponent
     \<Rightarrow> FVector \<times> Call list" where
  "AimAtTarget_AimSpot w rnd parent weapon bShouldFireWeapon s =
     (let ProjectileSpeed = 0;
          Inheritance = 0;
          ProjectileSpeed = (if NameContainsRingLauncher weapon then 6500 else ProjectileSpeed);
          Inheritance = (if NameContainsRingLauncher weapon then 1 / 2 else Inheritance);
          ProjectileSpeed = (if NameContainsChaingun weapon then 52500 else ProjectileSpeed);
          Inheritance = (if NameContainsChaingun weapon then 1 else Inheritance);
          ProjectileSkew = (if bShouldFireWeapon then RandomProjectilePropertiesSkew s else 1)
      in GetWeaponAimLocation w s rnd parent (CurrentTarget (AIState s))
           (ProjectileSpeed * ProjectileSkew) (Inheritance * ProjectileSkew))"

text \<open>What \<open>AimAtTarget\<close> does with an aim spot that is not the sentinel (lines 1379 to
  1450).\<close>

definition AimAtTarget_Act ::
  "World \<Rightarrow> AMACharacter \<Rightarrow> AMAWeapon \<Rightarrow> bool \<Rightarrow> FVector \<Rightarrow> UMABotAIComponent
     \<Rightarrow> bool \<times> UMABotAIComponent" where
  "AimAtTarget_Act w parent weapon bShouldFireWeapon AimSpot s =
     (let bIsChaingun = NameContainsChaingun weapon;
          TimeSinceLastShot = TimeSeconds w - TimeOfLastShot s;
          ThisPawnLoc = ActorLocation parent;
          AimRot = ToOrientationRotator w AimSpot;
          looked =
            (if \<not> bShouldFireWeapon
             then
               let SkewFactor = (3 - min TimeSinceLastShot 3) / 3;
                   AimRot = AimRot\<lparr>Pitch := Pitch AimRot + RandomPitchSkew s * SkewFactor\<rparr>;
                   AimRot = AimRot\<lparr>Yaw := Yaw AimRot + RandomYawSkew s * SkewFactor\<rparr>;
                   s = RecordCall (SetControlRotation AimRot) s;
                   ActorRot = AimRot\<lparr>Roll := 0, Pitch := 0\<rparr>
               in (AimRot, RecordCall (SetActorRotation ActorRot) s)
             else (AimRot, s));
          AimRot = fst looked;
          s = snd looked;
          AimRot = AimRot\<lparr>Pitch := Pitch AimRot + RandomPitchSkew s\<rparr>;
          AimRot = AimRot\<lparr>Yaw := Yaw AimRot + RandomYawSkew s\<rparr>;
          HitResultLocation = AimTrace w (ActorLocation parent) (FVector_add ThisPawnLoc AimSpot);
          DistanceToTarget = DistanceBetweenTargets (ActorLocation parent) AimSpot;
          DistanceToIntersectPoint =
            DistanceBetweenTargets (ActorLocation parent) HitResultLocation
      in if DistanceToIntersectPoint - 100 > DistanceToTarget
         then (False, RecordCall (SetTrigger 0 False) s)
         else
           if bShouldFireWeapon
           then
             let FinalAimPoint = FRotator_Lerp (ControlRotation parent) AimRot (1 / 10);
                 AimAtAngle =
                   RadiansToDegrees
                     (arccos (DotProduct (RotatorVector w (ControlRotation parent))
                                (RotatorVector w FinalAimPoint)));
                 s = RecordCall (SetControlRotation FinalAimPoint) s;
                 ActorRot = FinalAimPoint\<lparr>Roll := 0, Pitch := 0\<rparr>;
                 s = RecordCall (SetActorRotation ActorRot) s;
                 s = s\<lparr>AIState := (AIState s)\<lparr>bPendingWeaponFire := True\<rparr>\<rparr>
             in if AimAtAngle < 5 / 100 \<or> bIsChaingun
                then
                  let s = RecordCall (SetTrigger 0 True) s;
                      s = s\<lparr>TimeOfLastShot := TimeSeconds w\<rparr>
                  in (True, s\<lparr>AIState := (AIState s)\<lparr>bPendingWeaponFire := False\<rparr>\<rparr>)
                else (True, s)
           else (True, s))"

text \<open>\<open>AimAtTarget\<close> (lines 1217 to 1451).\<close>

definition AimAtTarget ::
  "World \<Rightarrow> (nat \<Rightarrow> real) \<Rightarrow> bool \<Rightarrow> UMABotAIComponent \<Rightarrow> bool \<times> UMABotAIComponent" where
  "AimAtTarget w rnd FireWeapon s =
     (case ParentCharacter s of
        nullptr \<Rightarrow> (False, s)
      | Addr pa \<Rightarrow>
          let parent = Characters w pa
          in (case CurrentTarget (AIState s) of
                nullptr \<Rightarrow> (False, RecordCall (SetTrigger 0 False) s)
              | Addr ta \<Rightarrow>
                  (case Weapon parent of
                     None \<Rightarrow> (False, RecordCall (SetTrigger 0 False) s)
                   | Some weapon \<Rightarrow>
                       if Controller parent = NoController \<or> Health (Characters w ta) = 0
                       then (False, RecordCall (SetTrigger 0 False) s)
                       else
                         let bShouldFireWeapon = AimAtTarget_ShouldFire w s weapon FireWeapon;
                             s = AimAtTarget_RollSkew w rnd s;
                             aim = AimAtTarget_AimSpot w rnd parent weapon bShouldFireWeapon s;
                             AimSpot = fst aim;
                             s = s\<lparr>Calls := Calls s @ snd aim\<rparr>
                         in if AimSpot = ForwardVector
                            then (False, s)
                            else AimAtTarget_Act w parent weapon bShouldFireWeapon AimSpot s)))"

section \<open>The task selector\<close>

text \<open>\<open>OnDied\<close> (lines 1471 to 1478).\<close>

definition OnDied :: "UMABotAIComponent \<Rightarrow> UMABotAIComponent" where
  "OnDied s =
     (let s = s\<lparr>bIsJetting := False\<rparr>;
          s = s\<lparr>AIState := (AIState s)\<lparr>RouteState := EAIRouteState_NoRouteSelected\<rparr>\<rparr>;
          s = s\<lparr>AIState := (AIState s)\<lparr>CurrentTarget := nullptr\<rparr>\<rparr>;
          s = s\<lparr>bIsDead := True\<rparr>
      in s\<lparr>RecentlySeenTargets := []\<rparr>)"

text \<open>\<open>DetermineRouteToRun\<close> (lines 512 to 537); \<open>rnd 24\<close> is the outcome of the
  draw of the route, a number of the unit interval, so that the index is in range.\<close>

definition DetermineRouteToRun ::
  "World \<Rightarrow> (nat \<Rightarrow> real) \<Rightarrow> AMACharacter \<Rightarrow> UMABotAIComponent \<Rightarrow> UMABotAIComponent" where
  "DetermineRouteToRun w rnd parent s =
     (if length (RouteTrailNames (BotConfig s)) = 0 then s
      else if Controller parent = AAIPlayerController
      then
        let BotRouteToRun =
              RandRange_int 0 (int (length (RouteTrailNames (BotConfig s))) - 1) (rnd 24);
            BotRoute = RouteTrailNames (BotConfig s) ! nat BotRouteToRun;
            TeamID = (case PlayerStateTeamId parent of Some i \<Rightarrow> i | None \<Rightarrow> 0);
            s = s\<lparr>AIState := (AIState s)\<lparr>CurrentRoute := GetRouteTrailByName w BotRoute TeamID\<rparr>\<rparr>;
            s = (if length (MarkerLocations (CurrentRoute (AIState s))) > 0
                 then s\<lparr>AIState := (AIState s)
                        \<lparr>RouteStartLocation := MarkerLocations (CurrentRoute (AIState s)) ! 0\<rparr>\<rparr>
                 else s)
        in s\<lparr>AIState := (AIState s)\<lparr>RouteState := EAIRouteState_MovingToRouteStart\<rparr>\<rparr>
      else s)"

text \<open>\<open>StartRouteFollow\<close> (lines 987 to 1010).\<close>

definition StartRouteFollow ::
  "World \<Rightarrow> AMACharacter \<Rightarrow> UMABotAIComponent \<Rightarrow> UMABotAIComponent" where
  "StartRouteFollow w parent s =
     (if IsTaskInitialized (AIState s) \<or> length (MarkerLocations (CurrentRoute (AIState s))) < 1
      then s
      else if Controller parent = AAIPlayerController
      then
        let s = s\<lparr>PracticeComponent := (PracticeComponent s)
                    \<lparr>SelectedRouteTrail := CurrentRoute (AIState s),
                     RouteTrailMarkerIndex := 0,
                     bResumePathAfterDamage := False,
                     bStayAliveAfterRouteEnd := True,
                     bRestoreHealthOnTeleport := False\<rparr>\<rparr>;
            s = s\<lparr>PracticeComponent := MovePawnOnRoutePath w (PracticeComponent s)\<rparr>
        in s\<lparr>AIState := (AIState s)
               \<lparr>IsTaskInitialized := True,
                RouteState := EAIRouteState_RunningRoute,
                CurrentTask := EAIStates_RunningRoute\<rparr>\<rparr>
      else s)"

text \<open>The weighting either ends the cycle (a respawn) or yields the state, the candidate
  weights and the distance to the destination measured at line 212.\<close>

datatype Weighing =
    Returned UMABotAIComponent
  | Weighed UMABotAIComponent "(EAIStates, real) TMap" real

text \<open>The respawn: \<open>AIPC->Suicide(); OnDied(); return;\<close>.\<close>

definition Respawn :: "UMABotAIComponent \<Rightarrow> Weighing" where
  "Respawn s = Returned (OnDied (RecordCall Suicide s))"

text \<open>Offense (lines 213 to 300).\<close>

definition DetermineCurrentTask_Offense ::
  "World \<Rightarrow> AMACharacter \<Rightarrow> real \<Rightarrow> real \<Rightarrow> UMABotAIComponent \<Rightarrow> (EAIStates, real) TMap
     \<Rightarrow> Weighing" where
  "DetermineCurrentTask_Offense w parent DistanceToMoveLocation TimeSinceLastMovementChange
       s TaskWeights =
     (let moving =
            (if RouteState (AIState s) = EAIRouteState_MovingToRouteStart
             then
               if MoveTargetType (AIState s) = EAIMoveTargetTypes_RouteStart
                  \<and> DistanceToMoveLocation
                      < TimeSinceLastMovementChange * TimeSinceLastMovementChange * 10
                  \<and> DistanceToMoveLocation < 5000
               then (StartRouteFollow w parent s, TaskWeights)
               else (s, TMap_Add EAIStates_MoveToTarget 70 TaskWeights)
             else (s, TaskWeights));
          s = fst moving;
          TaskWeights = snd moving;
          running =
            (if RouteState (AIState s) = EAIRouteState_RunningRoute
             then
               let priorMarkerNumber =
                     Clamp (CurrentMarkerIndex (PracticeComponent s) - 1) 0
                       (int (length (MarkerLocations (RouteTrailToRun (PracticeComponent s)))));
                   GrabMarker =
                     TruncToInt (GrabTime (CurrentRoute (AIState s))
                                  / PathRecordMarkerInterval (PracticeComponent s)
                                  / real_of_int (ModulusForLowPrecisionRecordMarkers (PracticeComponent s)))
               in if (priorMarkerNumber > GrabMarker \<and> CarriedObject parent = nullptr)
                     \<or> priorMarkerNumber
                         = int (length (MarkerLocations (RouteTrailToRun (PracticeComponent s)))) - 2
                  then
                    (s\<lparr>AIState := (AIState s)\<lparr>RouteState := EAIRouteState_AbandonedRoute\<rparr>,
                       PracticeComponent := EndRoutePathPlayback w (PracticeComponent s)\<rparr>,
                     TaskWeights)
                  else (s, TMap_Add EAIStates_RunningRoute 170 TaskWeights)
             else (s, TaskWeights));
          s = fst running;
          TaskWeights = snd running;
          finished =
            (if RouteState (AIState s) = EAIRouteState_RouteFinished
             then
               if MoveTargetType (AIState s) = EAIMoveTargetTypes_FriendlyStand
                  \<and> bIsHoldingFlag (AIState s)
               then
                 if FlagState (GameState s) = EAIFlagStates_EnemyFlagTakenFriendlySafe
                 then Weighed s (TMap_Add EAIStates_MoveToTarget 200 TaskWeights)
                        DistanceToMoveLocation
                 else Weighed s
                        (TMap_Add EAIStates_MoveToTarget
                           (Clamp ((DistanceToMoveLocation - 500) / 100) 15 150) TaskWeights)
                        DistanceToMoveLocation
               else Respawn s
             else Weighed s TaskWeights DistanceToMoveLocation)
      in case finished of
           Returned s \<Rightarrow> Returned s
         | Weighed s TaskWeights d \<Rightarrow>
             if RouteState (AIState s) = EAIRouteState_AbandonedRoute
             then
               if bIsHoldingFlag (AIState s)
                  \<and> (DistanceToMoveLocation > 3000 \<or> bFriendlyFlagHome (GameState s))
               then Weighed s (TMap_Add EAIStates_MoveToTarget 200 TaskWeights)
                      DistanceToMoveLocation
               else
                 if TimeSeconds w - TimeOfLastSpawn s > 10 \<and> \<not> bIsHoldingFlag (AIState s)
                    \<and> bEnemyFlagHome (GameState s)
                 then Respawn s
                 else Weighed s (TMap_Add EAIStates_MoveToTarget 20 TaskWeights)
                        DistanceToMoveLocation
             else Weighed s TaskWeights DistanceToMoveLocation)"

text \<open>Chase (lines 301 to 332).\<close>

definition DetermineCurrentTask_Chase ::
  "real \<Rightarrow> UMABotAIComponent \<Rightarrow> (EAIStates, real) TMap \<Rightarrow> Weighing" where
  "DetermineCurrentTask_Chase DistanceToMoveLocation s TaskWeights =
     (if MoveTargetType (AIState s) = EAIMoveTargetTypes_FriendlyFlag
         \<and> \<not> bFriendlyFlagHome (GameState s)
      then
        if DistanceToMoveLocation < 10000 \<or> CurrentTarget (AIState s) = nullptr
        then Weighed s (TMap_Add EAIStates_MoveToTarget 200 TaskWeights) DistanceToMoveLocation
        else Weighed s (TMap_Add EAIStates_MoveToTarget 70 TaskWeights) DistanceToMoveLocation
      else
        if DistanceToMoveLocation > 20000 \<and> bFriendlyFlagHome (GameState s) = True
        then Respawn s
        else
          if DistanceToMoveLocation > 500
          then Weighed s
                 (TMap_Add EAIStates_MoveToTarget
                    (Clamp ((DistanceToMoveLocation - 500) / 100) 5 110) TaskWeights)
                 DistanceToMoveLocation
          else Weighed s TaskWeights DistanceToMoveLocation)"

text \<open>Light offense (lines 333 to 352).\<close>

definition DetermineCurrentTask_LO ::
  "real \<Rightarrow> UMABotAIComponent \<Rightarrow> (EAIStates, real) TMap \<Rightarrow> (EAIStates, real) TMap" where
  "DetermineCurrentTask_LO DistanceToMoveLocation s TaskWeights =
     (if MoveTargetType (AIState s) \<noteq> EAIMoveTargetTypes_EnemyStand \<or> DistanceToMoveLocation > 400
      then
        if MoveTargetType (AIState s) = EAIMoveTargetTypes_FriendlyFlag
           \<and> \<not> bFriendlyFlagHeld (GameState s) \<and> \<not> bFriendlyFlagHome (GameState s)
        then TMap_Add EAIStates_MoveToTarget
               (Clamp ((DistanceToMoveLocation - 500) / 100) 10 400) TaskWeights
        else TMap_Add EAIStates_MoveToTarget
               (Clamp ((DistanceToMoveLocation - 500) / 100) 30 40) TaskWeights
      else TMap_Add EAIStates_LookingForEnemy 10 TaskWeights)"

text \<open>Stay at home (lines 353 to 370).\<close>

definition DetermineCurrentTask_StayAtHome ::
  "real \<Rightarrow> UMABotAIComponent \<Rightarrow> (EAIStates, real) TMap \<Rightarrow> (EAIStates, real) TMap" where
  "DetermineCurrentTask_StayAtHome DistanceToMoveLocation s TaskWeights =
     (if MoveTargetType (AIState s) = EAIMoveTargetTypes_EnemyFlag
         \<and> bEnemyFlagHeld (GameState s) = False \<and> bIsHoldingFlag (AIState s) = False
      then TMap_Add EAIStates_MoveToTarget
             (Clamp ((DistanceToMoveLocation - 50) / 100) 65 150) TaskWeights
      else if MoveTargetType (AIState s) = EAIMoveTargetTypes_FriendlyFlag
         \<and> bFriendlyFlagHome (GameState s) = False \<and> bFriendlyFlagHeld (GameState s) = False
         \<and> bIsHoldingFlag (AIState s) = False
      then TMap_Add EAIStates_MoveToTarget
             (Clamp ((DistanceToMoveLocation - 500) / 100) 20 100) TaskWeights
      else
        TMap_Add EAIStates_LookingForEnemy 6
          (TMap_Add EAIStates_MoveToTarget
             (Clamp ((DistanceToMoveLocation - 500) / 100) 5 110) TaskWeights))"

text \<open>The weight of looking for enemies when no target is known (lines 376 to 381).\<close>

definition LookForEnemyTaskWeight :: "EAIStates \<Rightarrow> real \<Rightarrow> real \<Rightarrow> real" where
  "LookForEnemyTaskWeight LastTask TimeSinceTaskChange TimeSinceLastCheckedForEnemies =
     (let LookForEnemyTaskWeight = TimeSinceLastCheckedForEnemies * 5
      in if (LastTask \<noteq> EAIStates_LookingForEnemy \<and> TimeSinceTaskChange \<le> 2)
            \<or> (LastTask = EAIStates_LookingForEnemy \<and> TimeSinceTaskChange > 2)
         then 3
         else LookForEnemyTaskWeight)"

text \<open>The pruning of the target memory (lines 406 to 416) and the search for the most
  desirable target (lines 417 to 426), which yields the highest focus score and its
  target.\<close>

definition PruneRecentlySeenTargets :: "World \<Rightarrow> (ptr, real) TMap \<Rightarrow> (ptr, real) TMap" where
  "PruneRecentlySeenTargets w m =
     fold (\<lambda>Element ValidRecentlySeenTargets.
             let WorldTimeLastSeen = snd Element
             in case fst Element of
                  nullptr \<Rightarrow> ValidRecentlySeenTargets
                | Addr a \<Rightarrow>
                    if IsValid w (fst Element) \<and> IsValidLowLevel w (fst Element)
                       \<and> DebugNameContainsLightCharacter (Characters w a)
                       \<and> TimeSeconds w - WorldTimeLastSeen < 5
                    then TMap_Add (fst Element) (snd Element) ValidRecentlySeenTargets
                    else ValidRecentlySeenTargets)
          m []"

definition MostDesirableTarget ::
  "World \<Rightarrow> UMABotAIComponent \<Rightarrow> AMACharacter \<Rightarrow> real \<times> ptr" where
  "MostDesirableTarget w s parent =
     fold (\<lambda>Element best.
             let FocusScoreForTarget = GetTargetFocusScore w s parent (fst Element)
             in if FocusScoreForTarget > fst best
                then (FocusScoreForTarget, fst Element)
                else best)
          (RecentlySeenTargets s) (0, CurrentTarget (AIState s))"

text \<open>Looking, shooting or changing target (lines 372 to 444). The weight of waiting for
  a better shot is computed by the source (lines 391 to 399) and used nowhere.\<close>

definition DetermineCurrentTask_Targets ::
  "World \<Rightarrow> (nat \<Rightarrow> real) \<Rightarrow> AMACharacter \<Rightarrow> EAIStates \<Rightarrow> real \<Rightarrow> real
     \<Rightarrow> UMABotAIComponent \<Rightarrow> (EAIStates, real) TMap
     \<Rightarrow> UMABotAIComponent \<times> (EAIStates, real) TMap" where
  "DetermineCurrentTask_Targets w rnd parent LastTask TimeSinceTaskChange
       TimeSinceLastCheckedForEnemies s TaskWeights =
     (if length (RecentlySeenTargets s) = 0 \<and> CurrentTarget (AIState s) = nullptr
      then
        (s, TMap_Add EAIStates_LookingForEnemy
              (LookForEnemyTaskWeight LastTask TimeSinceTaskChange TimeSinceLastCheckedForEnemies)
              TaskWeights)
      else
        if length (RecentlySeenTargets s) > 0
        then
          let s = s\<lparr>RecentlySeenTargets := PruneRecentlySeenTargets w (RecentlySeenTargets s)\<rparr>;
              best = MostDesirableTarget w s parent;
              HighestFocusScore = fst best;
              MostDesirableTarget = snd best
          in if MostDesirableTarget = CurrentTarget (AIState s)
             then
               let aimed = AimAtTarget w rnd False s;
                   bCanSeeTarget = fst aimed;
                   s = snd aimed
               in if bCanSeeTarget
                  then (s, TMap_Add EAIStates_ShootAtTarget HighestFocusScore TaskWeights)
                  else (s, TaskWeights)
             else
               (s\<lparr>AIState := (AIState s)\<lparr>CurrentTarget := MostDesirableTarget\<rparr>\<rparr>,
                TMap_Add EAIStates_ChangeTarget HighestFocusScore TaskWeights)
        else (RecordCall (SetTrigger 0 False) s, TaskWeights))"

text \<open>The weighting of a cycle that is past the two early returns (lines 181 to 449).\<close>

definition DetermineCurrentTask_Weigh ::
  "World \<Rightarrow> (nat \<Rightarrow> real) \<Rightarrow> AMACharacter \<Rightarrow> EAIStates \<Rightarrow> real \<Rightarrow> UMABotAIComponent
     \<Rightarrow> Weighing" where
  "DetermineCurrentTask_Weigh w rnd parent LastTask TimeSinceTaskChange s =
     (let TaskWeights = [];
          s = (if BotType (BotConfig s) = EBotTypes_Offense
                  \<and> RouteState (AIState s) = EAIRouteState_NoRouteSelected
               then DetermineRouteToRun w rnd parent s
               else s);
          s = DetermineMoveLocation w s;
          s = (if bBotDebugMode s
               then RecordCall (ClientDrawDebugLine (ActorLocation parent)
                                  (DesiredMoveLocation (AIState s))) s
               else s);
          s = (case CurrentTarget (AIState s) of
                 nullptr \<Rightarrow> s
               | Addr a \<Rightarrow>
                   if \<not> IsValid w (CurrentTarget (AIState s))
                      \<or> IsNearlyZero (Health (Characters w a))
                   then s\<lparr>AIState := (AIState s)\<lparr>CurrentTarget := nullptr\<rparr>\<rparr>
                   else s);
          TimeSinceLastCheckedForEnemies = TimeSeconds w - TimeOfLastLookForEnemy s;
          TimeSinceLastMovementChange = TimeSeconds w - TimeOfLastMovementTargetChange s;
          DistanceToMoveLocation =
            DistanceBetweenTargets (ActorLocation parent) (DesiredMoveLocation (AIState s));
          offense =
            (if BotType (BotConfig s) = EBotTypes_Offense
             then DetermineCurrentTask_Offense w parent DistanceToMoveLocation
                    TimeSinceLastMovementChange s TaskWeights
             else Weighed s TaskWeights DistanceToMoveLocation)
      in case offense of
           Returned s \<Rightarrow> Returned s
         | Weighed s TaskWeights d \<Rightarrow>
             (case (if BotType (BotConfig s) = EBotTypes_Chase
                    then DetermineCurrentTask_Chase DistanceToMoveLocation s TaskWeights
                    else Weighed s TaskWeights DistanceToMoveLocation) of
                Returned s \<Rightarrow> Returned s
              | Weighed s TaskWeights d \<Rightarrow>
                  let TaskWeights =
                        (if BotType (BotConfig s) = EBotTypes_LO
                         then DetermineCurrentTask_LO DistanceToMoveLocation s TaskWeights
                         else TaskWeights);
                      TaskWeights =
                        (if BotType (BotConfig s) = EBotTypes_StayAtHome
                         then DetermineCurrentTask_StayAtHome DistanceToMoveLocation s TaskWeights
                         else TaskWeights);
                      targets = DetermineCurrentTask_Targets w rnd parent LastTask
                                  TimeSinceTaskChange TimeSinceLastCheckedForEnemies s TaskWeights;
                      s = fst targets;
                      TaskWeights = snd targets;
                      TaskWeights =
                        (if bIsHoldingFlag (AIState s) \<and> bFriendlyFlagHome (GameState s)
                         then TMap_Add EAIStates_MoveToTarget 9001 TaskWeights
                         else TaskWeights)
                  in Weighed s TaskWeights DistanceToMoveLocation))"

text \<open>The choice of the task of largest weight (lines 451 to 459): the pair of the largest
  weight so far and the task chosen so far.\<close>

definition DetermineCurrentTask_Max ::
  "(EAIStates, real) TMap \<Rightarrow> real \<times> EAIStates \<Rightarrow> real \<times> EAIStates" where
  "DetermineCurrentTask_Max TaskWeights start =
     fold (\<lambda>Element best. if snd Element > fst best then (snd Element, fst Element) else best)
          TaskWeights start"

text \<open>The commitment of the task (lines 451 to 509).\<close>

definition DetermineCurrentTask_Commit ::
  "World \<Rightarrow> EAIStates \<Rightarrow> real \<Rightarrow> UMABotAIComponent \<Rightarrow> (EAIStates, real) TMap
     \<Rightarrow> UMABotAIComponent" where
  "DetermineCurrentTask_Commit w LastTask DistanceToMoveLocation s TaskWeights =
     (let MaxTaskWeight = 0;
          s = s\<lparr>AIState := (AIState s)
                 \<lparr>CurrentTask :=
                    snd (DetermineCurrentTask_Max TaskWeights
                           (MaxTaskWeight, CurrentTask (AIState s)))\<rparr>\<rparr>;
          s = (if CurrentTask (AIState s) = EAIStates_MoveToTarget \<and> DistanceToMoveLocation < 300
                  \<and> ((MoveTargetType (AIState s) = EAIMoveTargetTypes_EnemyStand
                       \<and> bEnemyFlagHome (GameState s) = False)
                      \<or> (MoveTargetType (AIState s) = EAIMoveTargetTypes_FriendlyStand
                          \<and> (bIsHoldingFlag (AIState s) = False
                              \<or> bFriendlyFlagHome (GameState s) = False)))
               then s\<lparr>AIState := (AIState s)\<lparr>CurrentTask := EAIStates_LookingForEnemy\<rparr>\<rparr>
               else s);
          s = (if CurrentTask (AIState s) \<noteq> LastTask
               then s\<lparr>TimeOfTaskStart := TimeSeconds w,
                      AIState := (AIState s)\<lparr>IsTaskInitialized := False\<rparr>\<rparr>
               else s)
      in s\<lparr>RecentlySeenTargets := []\<rparr>)"

text \<open>\<open>DetermineCurrentTask\<close> (lines 149 to 510). The controller is cast to the AI
  controller and dereferenced unchecked at lines 162 and 163.\<close>

definition DetermineCurrentTask ::
  "World \<Rightarrow> (nat \<Rightarrow> real) \<Rightarrow> UMABotAIComponent \<Rightarrow> Fault + UMABotAIComponent" where
  "DetermineCurrentTask w rnd s =
     (case ParentCharacter s of
        nullptr \<Rightarrow> Inr s
      | Addr pa \<Rightarrow>
          if bIsDead s then Inr s
          else
            let parent = Characters w pa;
                LastTask = CurrentTask (AIState s);
                s = s\<lparr>AIState := (AIState s)\<lparr>CurrentTask := EAIStates_LookingForEnemy\<rparr>\<rparr>;
                TimeSinceTaskChange = TimeSeconds w - TimeOfTaskStart s
            in if Controller parent \<noteq> AAIPlayerController then Inl NullDereference
               else if BotType (BotConfig s) = EBotTypes_RouteRunner
               then Inr (s\<lparr>AIState := (AIState s)\<lparr>CurrentTask := EAIStates_RouteRunner\<rparr>,
                           RecentlySeenTargets := []\<rparr>)
               else if bPendingWeaponFire (AIState s) \<and> TimeSinceTaskChange < 1
               then Inr (s\<lparr>RecentlySeenTargets := [],
                           AIState := (AIState s)\<lparr>CurrentTask := EAIStates_ShootAtTarget\<rparr>\<rparr>)
               else
                 (case DetermineCurrentTask_Weigh w rnd parent LastTask TimeSinceTaskChange s of
                    Returned s \<Rightarrow> Inr s
                  | Weighed s TaskWeights DistanceToMoveLocation \<Rightarrow>
                      Inr (DetermineCurrentTask_Commit w LastTask DistanceToMoveLocation s
                             TaskWeights)))"

section \<open>Vocabulary for the proofs about the task selector\<close>

text \<open>The steps of a cycle that precede the weighting of the targets leave the target memory,
  the current target and the time of the last look as they are.\<close>

definition KeepsTargetMemory :: "UMABotAIComponent \<Rightarrow> UMABotAIComponent \<Rightarrow> bool" where
  "KeepsTargetMemory s s' =
     (RecentlySeenTargets s' = RecentlySeenTargets s
      \<and> CurrentTarget (AIState s') = CurrentTarget (AIState s)
      \<and> TimeOfLastLookForEnemy s' = TimeOfLastLookForEnemy s)"

section \<open>Sample inputs\<close>

text \<open>A small concrete world and bot state, used to run the definitions at explicit inputs.\<close>

definition SampleRoute :: FMARouteTrail where
  "SampleRoute = \<lparr>MarkerLocations = [], GrabTime = 0\<rparr>"

definition SampleWeapon :: AMAWeapon where
  "SampleWeapon =
     \<lparr>NameContainsRingLauncher = True, NameContainsChaingun = False, Heat = 0,
      CurrentState = WEAP_Idle, StateTimeElapsed = 10, ReloadTime = 1\<rparr>"

definition SampleCharacter :: AMACharacter where
  "SampleCharacter =
     \<lparr>bIsValid = True, bIsValidLowLevel = True, DebugNameContainsLightCharacter = True,
      ActorLocation = ZeroVector, Velocity = ZeroVector, Health = 200, TimeOfDeath = 0,
      TeamId = 1, CarriedObject = nullptr, Mesh1P = Addr 100, Controller = AAIPlayerController,
      ControlRotation = \<lparr>Pitch = 0, Yaw = 0, Roll = 0\<rparr>, PlayerStateTeamId = Some 1,
      Weapon = Some SampleWeapon\<rparr>"

definition SamplePracticeComponent :: UMAPracticeComponent where
  "SamplePracticeComponent =
     \<lparr>CurrentMarkerIndex = 0, RouteTrailToRun = SampleRoute, PathRecordMarkerInterval = 1,
      ModulusForLowPrecisionRecordMarkers = 1, SelectedRouteTrail = SampleRoute,
      RouteTrailMarkerIndex = 0, bResumePathAfterDamage = False,
      bStayAliveAfterRouteEnd = False, bRestoreHealthOnTeleport = False\<rparr>"

definition SampleWorld :: World where
  "SampleWorld =
     \<lparr>TimeSeconds = 100,
      Characters = (\<lambda>a. if a = 0 then SampleCharacter
                         else if a = 3 then SampleCharacter\<lparr>bIsValid := False, TeamId := 2\<rparr>
                         else if a = 4 then SampleCharacter\<lparr>TeamId := 2, CarriedObject := Addr 50\<rparr>
                         else if a = 5 then SampleCharacter\<lparr>TeamId := 2, Health := 0, TimeOfDeath := 90\<rparr>
                         else if a = 6 then SampleCharacter\<lparr>TeamId := 2, ActorLocation := \<lparr>X = 100, Y = 0, Z = 0\<rparr>\<rparr>
                         else SampleCharacter\<lparr>TeamId := 2\<rparr>),
      Flags = [],
      GroundTrace = (\<lambda>x y. Some 0),
      AimTrace = (\<lambda>a b. b),
      ToOrientationRotator = (\<lambda>v. \<lparr>Pitch = 0, Yaw = 0, Roll = 0\<rparr>),
      RotatorVector = (\<lambda>r. ForwardVector),
      GetRouteTrailByName = (\<lambda>n t. SampleRoute),
      MovePawnOnRoutePath = (\<lambda>p. p),
      EndRoutePathPlayback = (\<lambda>p. p)\<rparr>"

definition SampleBot :: UMABotAIComponent where
  "SampleBot =
     \<lparr>AIState =
        \<lparr>CurrentTask = EAIStates_LookingForEnemy, CurrentTarget = nullptr,
         DesiredMoveLocation = ZeroVector, MoveTargetType = EAIMoveTargetTypes_FriendlyStand,
         RouteState = EAIRouteState_NoRouteSelected, RouteStartLocation = ZeroVector,
         CurrentRoute = SampleRoute, bIsHoldingFlag = False, bPendingWeaponFire = False,
         IsTaskInitialized = False, DistanceToEnemyFlag = 0, DistanceToFriendlyFlag = 0\<rparr>,
      GameState =
        \<lparr>EnemyStandLocation = ZeroVector, FriendlyStandLocation = ZeroVector,
         EnemyFlagLocation = ZeroVector, FriendlyFlagLocation = ZeroVector,
         bEnemyFlagHome = True, bEnemyFlagHeld = False, bFriendlyFlagHome = True,
         bFriendlyFlagHeld = False, FlagState = EAIFlagStates_BothFlagsHome\<rparr>,
      BotConfig =
        \<lparr>BotType = EBotTypes_StayAtHome, AccuracyLevel = EBotAccuracyLevels_Perfect,
         bNoChaingun = False, bNoDisc = False, bBotShoots = True, RouteTrailNames = []\<rparr>,
      ParentCharacter = Addr 0,
      PracticeComponent = SamplePracticeComponent,
      bIsDead = False, bIsJetting = False, bBotDebugMode = False,
      BotAccuracyLevel = EBotAccuracyLevels_Perfect,
      RecentlySeenTargets = [],
      TimeOfTaskStart = 0, TimeOfLastLookForEnemy = 0, TimeOfLastMovementTargetChange = 0,
      TimeOfLastSpawn = 0, TimeOfLastWeaponChange = 0, TimeOfLastShot = 0,
      TimeOfLastAimpointChange = 0,
      RandomPitchSkew = 0, RandomYawSkew = 0, RandomProjectilePropertiesSkew = 1,
      Calls = []\<rparr>"

definition SampleMemoryBot :: UMABotAIComponent where
  "SampleMemoryBot =
     SampleBot\<lparr>AIState := (AIState SampleBot)\<lparr>CurrentTarget := Addr 1\<rparr>,
               RecentlySeenTargets := [(Addr 1, 97), (Addr 2, 98), (Addr 3, 99), (nullptr, 96)]\<rparr>"

definition FarTarget :: FVector where
  "FarTarget = \<lparr>X = 13000, Y = 0, Z = 0\<rparr>"

definition GrazingTarget :: FVector where
  "GrazingTarget = \<lparr>X = 5 / 10 ^ 9, Y = 0, Z = 0\<rparr>"

definition HighGroundWorld :: World where
  "HighGroundWorld = SampleWorld\<lparr>GroundTrace := (\<lambda>x y. Some 950)\<rparr>"

definition HoveringTarget :: FVector where
  "HoveringTarget = \<lparr>X = 0, Y = 0, Z = 1000\<rparr>"

definition SampleFlagWorld :: World where
  "SampleFlagWorld =
     SampleWorld\<lparr>Flags :=
       [\<lparr>FlagTeamId = 1, FlagLocation = ZeroVector, IsHome = True, StateName = NotHeld\<rparr>,
        \<lparr>FlagTeamId = 2, FlagLocation = \<lparr>X = 3000, Y = 0, Z = 0\<rparr>, IsHome = False,
         StateName = NotHeld\<rparr>]\<rparr>"

definition BothDisabledBot :: UMABotAIComponent where
  "BothDisabledBot =
     SampleBot\<lparr>AIState := (AIState SampleBot)\<lparr>CurrentTarget := Addr 2\<rparr>,
               BotConfig := (BotConfig SampleBot)\<lparr>bNoChaingun := True, bNoDisc := True\<rparr>\<rparr>"

definition SentinelBot :: UMABotAIComponent where
  "SentinelBot =
     SampleBot\<lparr>AIState := (AIState SampleBot)\<lparr>CurrentTarget := Addr 6\<rparr>,
               TimeOfLastAimpointChange := 100,
               RandomProjectilePropertiesSkew := 1 / 6500\<rparr>"

text \<open>The sample bot, having last looked for enemies at the time \<open>x\<close>.\<close>

definition SampleBotLookedAt :: "real \<Rightarrow> UMABotAIComponent" where
  "SampleBotLookedAt x = SampleBot\<lparr>TimeOfLastLookForEnemy := x\<rparr>"

text \<open>A match that has run for \<open>2000\<close> seconds. The bot, of team \<open>1\<close>, carries the enemy
  flag; its own flag is at home on the friendly stand, \<open>5000\<close> units away. The bot has been
  moving to its destination for \<open>10\<close> seconds, and has not looked for enemies since the
  match began.\<close>

definition LongMatchWorld :: World where
  "LongMatchWorld =
     SampleWorld
       \<lparr>TimeSeconds := 2000,
        Characters := (\<lambda>a. if a = 0 then SampleCharacter\<lparr>CarriedObject := Addr 60\<rparr>
                           else Characters SampleWorld a),
        Flags :=
          [\<lparr>FlagTeamId = 1, FlagLocation = \<lparr>X = 5000, Y = 0, Z = 0\<rparr>, IsHome = True,
            StateName = NotHeld\<rparr>,
           \<lparr>FlagTeamId = 2, FlagLocation = ZeroVector, IsHome = False, StateName = Held\<rparr>]\<rparr>"

definition CarrierBot :: UMABotAIComponent where
  "CarrierBot =
     SampleBot
       \<lparr>AIState := (AIState SampleBot)\<lparr>CurrentTask := EAIStates_MoveToTarget\<rparr>,
        GameState := (GameState SampleBot)\<lparr>FriendlyStandLocation := \<lparr>X = 5000, Y = 0, Z = 0\<rparr>\<rparr>,
        TimeOfTaskStart := 1990\<rparr>"

text \<open>The state of the carrier at the weighting step, and the state committed at the end of the cycle.\<close>

definition CarrierBot_weighing :: UMABotAIComponent where
  "CarrierBot_weighing =
     SampleBot
       \<lparr>AIState := (AIState SampleBot)
          \<lparr>CurrentTask := EAIStates_LookingForEnemy,
           DesiredMoveLocation := \<lparr>X = 5000, Y = 0, Z = 0\<rparr>,
           MoveTargetType := EAIMoveTargetTypes_FriendlyStand,
           bIsHoldingFlag := True,
           DistanceToEnemyFlag := 0,
           DistanceToFriendlyFlag := 5000\<rparr>,
        GameState := (GameState SampleBot)
          \<lparr>FriendlyStandLocation := \<lparr>X = 5000, Y = 0, Z = 0\<rparr>,
           EnemyFlagLocation := ZeroVector,
           FriendlyFlagLocation := \<lparr>X = 5000, Y = 0, Z = 0\<rparr>,
           bEnemyFlagHome := False, bEnemyFlagHeld := True,
           bFriendlyFlagHome := True, bFriendlyFlagHeld := False,
           FlagState := EAIFlagStates_EnemyFlagTakenFriendlySafe\<rparr>,
        TimeOfTaskStart := 1990\<rparr>"

definition CarrierBot_committed :: UMABotAIComponent where
  "CarrierBot_committed =
     CarrierBot_weighing
       \<lparr>AIState := (AIState CarrierBot_weighing)
          \<lparr>CurrentTask := EAIStates_LookingForEnemy, IsTaskInitialized := False\<rparr>,
        TimeOfTaskStart := 2000,
        RecentlySeenTargets := []\<rparr>"

section \<open>Properties of the target memory\<close>

lemma TMap_Add_fresh:
  "k \<notin> fst ` set m \<Longrightarrow> TMap_Add k v m = m @ [(k, v)]"
  unfolding TMap_Add_def by (induction m) auto

lemma fold_keep_filter:
  "distinct (map fst (acc @ m)) \<Longrightarrow>
   fold (\<lambda>Element a. if P (fst Element) then TMap_Add (fst Element) (snd Element) a else a) m acc
     = acc @ filter (\<lambda>Element. P (fst Element)) m"
proof (induction m arbitrary: acc)
  case Nil
  then show ?case by simp
next
  case (Cons e m)
  have fresh: "fst e \<notin> fst ` set acc" using Cons.prems by auto
  show ?case
  proof (cases "P (fst e)")
    case True
    have d: "distinct (map fst ((acc @ [e]) @ m))" using Cons.prems by simp
    have "TMap_Add (fst e) (snd e) acc = acc @ [e]"
      using TMap_Add_fresh [OF fresh] by simp
    then show ?thesis using True Cons.IH [OF d] by simp
  next
    case False
    have d: "distinct (map fst (acc @ m))" using Cons.prems by simp
    show ?thesis using False Cons.IH [OF d] by simp
  qed
qed

lemma map_of_filter_key:
  "distinct (map fst m) \<Longrightarrow>
   map_of (filter (\<lambda>Element. P (fst Element)) m) k = (if P k then map_of m k else None)"
  by (induction m) (auto simp: map_of_eq_None_iff image_iff)

lemma RecentlySeenTargets_PossibleTargetDied:
  "distinct (map fst (RecentlySeenTargets s)) \<Longrightarrow>
   RecentlySeenTargets (PossibleTargetDied w Target s) =
     filter (\<lambda>Element. fst Element \<noteq> nullptr \<and> IsValid w (fst Element) \<and> fst Element \<noteq> Target)
       (RecentlySeenTargets s)"
  using fold_keep_filter [of "[]" "RecentlySeenTargets s" "\<lambda>k. k \<noteq> nullptr \<and> IsValid w k \<and> k \<noteq> Target"]
  by (simp add: PossibleTargetDied_def Let_def)

text \<open>
  Claim C10. For every call \<open>PossibleTargetDied(Target)\<close> on a memory with unique keys
  (the invariant of \<open>TMap\<close>): the current target becomes null when it was \<open>Target\<close>
  and is left as it was otherwise; \<open>Target\<close> and every invalid key (the null key
  included) are absent from the memory afterwards; every other valid key keeps its entry
  with the same last-seen time; and nothing else of the component changes.
\<close>

theorem PossibleTargetDied_frame:
  assumes "distinct (map fst (RecentlySeenTargets s))"
  shows "CurrentTarget (AIState (PossibleTargetDied w Target s)) =
           (if CurrentTarget (AIState s) = Target then nullptr else CurrentTarget (AIState s))
       \<and> map_of (RecentlySeenTargets (PossibleTargetDied w Target s)) Target = None
       \<and> (\<forall>k. \<not> IsValid w k \<longrightarrow> map_of (RecentlySeenTargets (PossibleTargetDied w Target s)) k = None)
       \<and> (\<forall>k. IsValid w k \<and> k \<noteq> Target \<longrightarrow>
              map_of (RecentlySeenTargets (PossibleTargetDied w Target s)) k
                = map_of (RecentlySeenTargets s) k)
       \<and> distinct (map fst (RecentlySeenTargets (PossibleTargetDied w Target s)))
       \<and> PossibleTargetDied w Target s =
           s\<lparr>AIState := AIState (PossibleTargetDied w Target s),
             RecentlySeenTargets := RecentlySeenTargets (PossibleTargetDied w Target s)\<rparr>"
proof -
  let ?keep = "\<lambda>k. k \<noteq> nullptr \<and> IsValid w k \<and> k \<noteq> Target"
  have R: "RecentlySeenTargets (PossibleTargetDied w Target s) =
             filter (\<lambda>Element. ?keep (fst Element)) (RecentlySeenTargets s)"
    using RecentlySeenTargets_PossibleTargetDied [OF assms] .
  have M: "map_of (RecentlySeenTargets (PossibleTargetDied w Target s)) k =
             (if ?keep k then map_of (RecentlySeenTargets s) k else None)" for k
    unfolding R using map_of_filter_key [OF assms, of ?keep k] .
  have null_invalid: "\<not> IsValid w nullptr" by (simp add: IsValid_def)
  have c: "CurrentTarget (AIState (PossibleTargetDied w Target s)) =
           (if CurrentTarget (AIState s) = Target then nullptr else CurrentTarget (AIState s))"
    by (simp add: PossibleTargetDied_def Let_def)
  have d: "distinct (map fst (RecentlySeenTargets (PossibleTargetDied w Target s)))"
    unfolding R using assms by (simp add: distinct_map_filter)
  have f: "PossibleTargetDied w Target s =
           s\<lparr>AIState := AIState (PossibleTargetDied w Target s),
             RecentlySeenTargets := RecentlySeenTargets (PossibleTargetDied w Target s)\<rparr>"
    by (simp add: PossibleTargetDied_def Let_def)
  from M null_invalid have m1: "map_of (RecentlySeenTargets (PossibleTargetDied w Target s)) Target = None"
    by simp
  from M have m2: "\<forall>k. \<not> IsValid w k \<longrightarrow> map_of (RecentlySeenTargets (PossibleTargetDied w Target s)) k = None"
    by simp
  from M null_invalid have m3: "\<forall>k. IsValid w k \<and> k \<noteq> Target \<longrightarrow>
              map_of (RecentlySeenTargets (PossibleTargetDied w Target s)) k
                = map_of (RecentlySeenTargets s) k"
    by auto
  show ?thesis using c m1 m2 m3 d f by blast
qed

theorem PossibleTargetDied_frame_witness:
  "distinct (map fst (RecentlySeenTargets SampleMemoryBot))
   \<and> CurrentTarget (AIState (PossibleTargetDied SampleWorld (Addr 1) SampleMemoryBot)) = nullptr
   \<and> map_of (RecentlySeenTargets (PossibleTargetDied SampleWorld (Addr 1) SampleMemoryBot)) (Addr 1) = None
   \<and> map_of (RecentlySeenTargets (PossibleTargetDied SampleWorld (Addr 1) SampleMemoryBot)) (Addr 3) = None
   \<and> map_of (RecentlySeenTargets (PossibleTargetDied SampleWorld (Addr 1) SampleMemoryBot)) nullptr = None
   \<and> map_of (RecentlySeenTargets (PossibleTargetDied SampleWorld (Addr 1) SampleMemoryBot)) (Addr 2) = Some 98"
proof -
  have d: "distinct (map fst (RecentlySeenTargets SampleMemoryBot))"
    by (simp add: SampleMemoryBot_def SampleBot_def)
  have v2: "IsValid SampleWorld (Addr 2)" and v3: "\<not> IsValid SampleWorld (Addr 3)"
    and v0: "\<not> IsValid SampleWorld nullptr"
    by (simp_all add: IsValid_def SampleWorld_def SampleCharacter_def)
  have c: "CurrentTarget (AIState SampleMemoryBot) = Addr 1"
    and m: "map_of (RecentlySeenTargets SampleMemoryBot) (Addr 2) = Some 98"
    by (simp_all add: SampleMemoryBot_def SampleBot_def)
  show ?thesis
    using PossibleTargetDied_frame [OF d, of SampleWorld "Addr 1"] d v2 v3 v0 c m by auto
qed

section \<open>Properties of the focus score\<close>

lemma Size_ZeroVector: "Size ZeroVector = 0"
  by (simp add: Size_def SizeSquared_def ZeroVector_def)

text \<open>
  Claim C5, as the code has it. The focus score is exactly \<open>0\<close> for a target that is
  null, invalid or without a first-person mesh (the guard of \<open>GetTargetFocusScore\<close>;
  death alone is not part of it). For a valid target with full health (\<open>200\<close>), at
  rest, less than \<open>200\<close> units above the ground, carrying the flag and at most
  \<open>100\<close> units from the bot, the score is \<open>160\<close>, plus \<open>30\<close> when it is the
  current target, hence strictly positive.
\<close>

theorem GetTargetFocusScore_boundary:
  "(Target = nullptr \<or> \<not> IsValid w Target \<or> \<not> IsValidLowLevel w Target
      \<or> (\<exists>a. Target = Addr a \<and> Mesh1P (Characters w a) = nullptr)
     \<longrightarrow> GetTargetFocusScore w s parent Target = 0)
   \<and> (Target = Addr a \<and> IsValid w Target \<and> IsValidLowLevel w Target
        \<and> Mesh1P (Characters w a) \<noteq> nullptr
        \<and> Health (Characters w a) = 200
        \<and> Velocity (Characters w a) = ZeroVector
        \<and> fst (GetHeightAboveGround w s (ActorLocation (Characters w a)) False) < 200
        \<and> CarriedObject (Characters w a) \<noteq> nullptr
        \<and> DistanceToTarget w parent Target \<le> 100
     \<longrightarrow> GetTargetFocusScore w s parent Target
           = 160 + (if Target = CurrentTarget (AIState s) then 30 else 0)
         \<and> 0 < GetTargetFocusScore w s parent Target)"
proof (intro conjI impI)
  assume "Target = nullptr \<or> \<not> IsValid w Target \<or> \<not> IsValidLowLevel w Target
      \<or> (\<exists>a. Target = Addr a \<and> Mesh1P (Characters w a) = nullptr)"
  then have d: "Target = nullptr \<or> (\<exists>b. Target = Addr b \<and>
      (\<not> IsValid w (Addr b) \<or> \<not> IsValidLowLevel w (Addr b) \<or> Mesh1P (Characters w b) = nullptr))"
    by (cases Target) auto
  show "GetTargetFocusScore w s parent Target = 0"
  proof (cases Target)
    case nullptr
    then show ?thesis by (simp add: GetTargetFocusScore_def)
  next
    case (Addr b)
    with d have "\<not> IsValid w (Addr b) \<or> \<not> IsValidLowLevel w (Addr b) \<or> Mesh1P (Characters w b) = nullptr"
      by simp
    then show ?thesis unfolding Addr by (simp add: GetTargetFocusScore_def)
  qed
next
  assume h: "Target = Addr a \<and> IsValid w Target \<and> IsValidLowLevel w Target
        \<and> Mesh1P (Characters w a) \<noteq> nullptr
        \<and> Health (Characters w a) = 200
        \<and> Velocity (Characters w a) = ZeroVector
        \<and> fst (GetHeightAboveGround w s (ActorLocation (Characters w a)) False) < 200
        \<and> CarriedObject (Characters w a) \<noteq> nullptr
        \<and> DistanceToTarget w parent Target \<le> 100"
  then have T: "Target = Addr a" and valid: "IsValid w (Addr a)" "IsValidLowLevel w (Addr a)"
    and mesh: "Mesh1P (Characters w a) \<noteq> nullptr"
    and health: "Health (Characters w a) = 200"
    and still: "Velocity (Characters w a) = ZeroVector"
    and low: "fst (GetHeightAboveGround w s (ActorLocation (Characters w a)) False) < 200"
    and carrier: "CarriedObject (Characters w a) \<noteq> nullptr"
    and near: "DistanceToTarget w parent (Addr a) \<le> 100"
    by blast+
  have v: "GetTargetVelocity w (Addr a) = 0"
    using valid still by (simp add: GetTargetVelocity_def Size_ZeroVector)
  have c: "Clamp ((10000 - DistanceToTarget w parent (Addr a)) / 100) (- 100) 40 = 40"
    using near by (simp add: Clamp_def)
  show e: "GetTargetFocusScore w s parent Target
           = 160 + (if Target = CurrentTarget (AIState s) then 30 else 0)"
    unfolding T using valid mesh health low carrier v c
    by (simp add: GetTargetFocusScore_def Let_def)
  show "0 < GetTargetFocusScore w s parent Target" unfolding e by simp
qed

theorem GetTargetFocusScore_boundary_witness:
  "\<not> IsValid SampleWorld (Addr 3)
   \<and> GetTargetFocusScore SampleWorld SampleBot SampleCharacter (Addr 3) = 0
   \<and> GetTargetFocusScore SampleWorld SampleBot SampleCharacter (Addr 4) = 160
   \<and> 0 < GetTargetFocusScore SampleWorld SampleBot SampleCharacter (Addr 4)"
proof -
  have v3: "\<not> IsValid SampleWorld (Addr 3)"
    by (simp add: IsValid_def SampleWorld_def SampleCharacter_def)
  have h4: "Addr 4 = Addr 4 \<and> IsValid SampleWorld (Addr 4) \<and> IsValidLowLevel SampleWorld (Addr 4)
        \<and> Mesh1P (Characters SampleWorld 4) \<noteq> nullptr
        \<and> Health (Characters SampleWorld 4) = 200
        \<and> Velocity (Characters SampleWorld 4) = ZeroVector
        \<and> fst (GetHeightAboveGround SampleWorld SampleBot (ActorLocation (Characters SampleWorld 4)) False) < 200
        \<and> CarriedObject (Characters SampleWorld 4) \<noteq> nullptr
        \<and> DistanceToTarget SampleWorld SampleCharacter (Addr 4) \<le> 100"
    by (simp add: IsValid_def IsValidLowLevel_def SampleWorld_def SampleCharacter_def
          GetHeightAboveGround_def DistanceToTarget_def DistanceBetweenTargets_def
          FVector_sub_def Size_def SizeSquared_def ZeroVector_def)
  have n: "Addr 4 \<noteq> CurrentTarget (AIState SampleBot)" by (simp add: SampleBot_def)
  show ?thesis
    using GetTargetFocusScore_boundary [of "Addr 3" SampleWorld SampleBot SampleCharacter 3]
      GetTargetFocusScore_boundary [of "Addr 4" SampleWorld SampleBot SampleCharacter 4]
      v3 h4 n by simp
qed

text \<open>A dead target (no health, a recorded time of death) that is still a valid object
  with a mesh is scored like any other: here \<open>130\<close>, not \<open>0\<close>.\<close>

theorem GetTargetFocusScore_dead_target_counterexample:
  "IsDead (Characters SampleWorld 5)
   \<and> GetTargetFocusScore SampleWorld SampleBot SampleCharacter (Addr 5) = 130"
  by (simp add: IsDead_def IsNearlyZero_def SMALL_NUMBER_def GetTargetFocusScore_def
        GetTargetVelocity_def IsValid_def IsValidLowLevel_def SampleWorld_def
        SampleCharacter_def SampleBot_def GetHeightAboveGround_def DistanceToTarget_def
        DistanceBetweenTargets_def FVector_sub_def Size_def SizeSquared_def ZeroVector_def
        Clamp_def Let_def)

section \<open>Properties of the predictive aim\<close>

lemma GetHeightAboveGround_no_draw:
  "snd (GetHeightAboveGround w s Point False) = []"
  by (simp add: GetHeightAboveGround_def split: option.splits)

text \<open>
  Claim C8. The gravity argument of \<open>PredictiveAim\<close> has no influence on what it
  returns: with the same world, component state, random outcomes and other arguments, two
  gravity values give the same velocity. The function returns a value only (the model has
  no component state in its result, as the source assigns to no member), and the one call
  it makes, \<open>GetHeightAboveGround\<close> with debug drawing off, draws nothing.
\<close>

theorem PredictiveAim_gravity_independent:
  "PredictiveAim w s rnd muzzlePosition projectileSpeed targetPosition targetVelocity gravity1
     = PredictiveAim w s rnd muzzlePosition projectileSpeed targetPosition targetVelocity gravity2
   \<and> snd (PredictiveAim w s rnd muzzlePosition projectileSpeed targetPosition targetVelocity gravity1) = []"
  by (simp add: PredictiveAim_def Let_def GetHeightAboveGround_no_draw)

lemma PredictiveAim_ignores_ground:
  "fst (PredictiveAim (w\<lparr>GroundTrace := g\<rparr>) s rnd muzzlePosition projectileSpeed targetPosition targetVelocity gravity)
     = fst (PredictiveAim w s rnd muzzlePosition projectileSpeed targetPosition targetVelocity gravity)"
  by (simp add: PredictiveAim_def Let_def)

lemma quadratic_root_plus:
  fixes a b c u :: real
  assumes "a \<noteq> 0" and "u * u = b * b - 4 * a * c"
  shows "a * ((1 / 2) * (- b + u) / a) * ((1 / 2) * (- b + u) / a) + b * ((1 / 2) * (- b + u) / a) + c = 0"
proof -
  have "a * ((1 / 2) * (- b + u) / a) * ((1 / 2) * (- b + u) / a) + b * ((1 / 2) * (- b + u) / a) + c
        = ((- b + u) * (- b + u) + 2 * b * (- b + u) + 4 * a * c) / (4 * a)"
    using assms(1) by (simp add: field_simps)
  also have "(- b + u) * (- b + u) + 2 * b * (- b + u) + 4 * a * c = u * u - (b * b - 4 * a * c)"
    by (simp add: algebra_simps)
  finally show ?thesis using assms(2) by simp
qed

lemma quadratic_root_minus:
  fixes a b c u :: real
  assumes "a \<noteq> 0" and "u * u = b * b - 4 * a * c"
  shows "a * ((1 / 2) * (- b - u) / a) * ((1 / 2) * (- b - u) / a) + b * ((1 / 2) * (- b - u) / a) + c = 0"
  using quadratic_root_plus [of a "- u" b c] assms by simp

lemma quadratic_roots_only:
  fixes a b c u r :: real
  assumes "a \<noteq> 0" and "u * u = b * b - 4 * a * c" and "a * r * r + b * r + c = 0"
  shows "r = (1 / 2) * (- b + u) / a \<or> r = (1 / 2) * (- b - u) / a"
proof -
  have "(2 * a * r + b) * (2 * a * r + b) = 4 * a * (a * r * r + b * r + c) + (b * b - 4 * a * c)"
    by (simp add: algebra_simps)
  then have "(2 * a * r + b) * (2 * a * r + b) = u * u" using assms by simp
  then have "(2 * a * r + b - u) * (2 * a * r + b + u) = 0" by (simp add: algebra_simps)
  then have "2 * a * r + b = u \<or> 2 * a * r + b = - u" by auto
  then show ?thesis
  proof
    assume "2 * a * r + b = u"
    then have "r = (u - b) / (2 * a)" using assms(1) by (simp add: field_simps)
    then show ?thesis by simp
  next
    assume "2 * a * r + b = - u"
    then have "r = (- u - b) / (2 * a)" using assms(1) by (simp add: field_simps)
    then show ?thesis by simp
  qed
qed

lemma PredictiveAim_time_general:
  fixes a b c :: real
  assumes general: "\<not> IsNearlyEqual projectileSpeedSq targetSpeedSq"
    and a: "a = projectileSpeedSq - targetSpeedSq"
    and b: "b = 2 * targetToMuzzleDist * targetSpeed * cosTheta"
    and c: "c = - targetToMuzzleDistSq"
    and t0: "t0 = (1 / 2) * (- b + sqrt (b * b - 4 * a * c)) / a"
    and t1: "t1 = (1 / 2) * (- b - sqrt (b * b - 4 * a * c)) / a"
    and sol: "solution = PredictiveAim_time wildGuess projectileSpeedSq targetSpeedSq targetSpeed
                targetToMuzzleDistSq targetToMuzzleDist cosTheta"
  shows "b * b - 4 * a * c < 0 \<Longrightarrow> solution = (False, wildGuess)"
    and "0 \<le> b * b - 4 * a * c \<Longrightarrow> fst solution = (SMALL_NUMBER \<le> max t0 t1)"
    and "0 \<le> b * b - 4 * a * c \<Longrightarrow> fst solution \<Longrightarrow>
           snd solution = (if SMALL_NUMBER \<le> min t0 t1 then min t0 t1 else max t0 t1)"
  using general unfolding sol PredictiveAim_time_def Let_def a b c t0 t1
  by (auto simp: not_less min_def max_def)

text \<open>
  Claim C2, as the code has it. In the general case of \<open>PredictiveAim\<close> (the squared
  speeds of projectile and target are not nearly equal), with
  \<open>a = projectileSpeed\<^sup>2 - targetSpeed\<^sup>2\<close>, \<open>b = 2 distance targetSpeed cos \<theta>\<close> and
  \<open>c = - distance\<^sup>2\<close>: \<open>a\<close> is not zero; a negative discriminant gives no valid
  solution; otherwise \<open>t0\<close> and \<open>t1\<close> are the roots of \<open>a t\<^sup>2 + b t + c = 0\<close>, a
  valid solution is found exactly when the larger root is at least \<open>SMALL_NUMBER\<close>,
  and then \<open>t\<close> is the smaller root if that is at least \<open>SMALL_NUMBER\<close> and the
  larger root otherwise, hence the least root that is at least \<open>SMALL_NUMBER\<close>; and
  for every valid solution the returned velocity is
  \<open>targetVelocity + (targetPosition - muzzlePosition) / t\<close>.
\<close>

theorem PredictiveAim_general_case:
  assumes general:
    "\<not> IsNearlyEqual (projectileSpeed * projectileSpeed) (Size targetVelocity * Size targetVelocity)"
  shows
    "let targetSpeed = Size targetVelocity;
         distance = Size (FVector_sub muzzlePosition targetPosition);
         cosTheta = (if targetSpeed * targetSpeed > 0
                     then DotProduct (Normalize (FVector_sub muzzlePosition targetPosition))
                            (GetSafeNormal targetVelocity)
                     else 1);
         a = projectileSpeed * projectileSpeed - targetSpeed * targetSpeed;
         b = 2 * distance * targetSpeed * cosTheta;
         c = - (distance * distance);
         discriminant = b * b - 4 * a * c;
         t0 = (1 / 2) * (- b + sqrt discriminant) / a;
         t1 = (1 / 2) * (- b - sqrt discriminant) / a;
         solution = PredictiveAim_time (real_of_int (RandRange_int 1 5 (rnd 23)))
                      (projectileSpeed * projectileSpeed) (targetSpeed * targetSpeed) targetSpeed
                      (distance * distance) distance cosTheta;
         validSolutionFound = fst solution;
         t = snd solution
     in a \<noteq> 0
        \<and> (discriminant < 0 \<longrightarrow> \<not> validSolutionFound)
        \<and> (0 \<le> discriminant \<longrightarrow>
              a * t0 * t0 + b * t0 + c = 0
            \<and> a * t1 * t1 + b * t1 + c = 0
            \<and> (\<forall>r. a * r * r + b * r + c = 0 \<longrightarrow> r = t0 \<or> r = t1)
            \<and> (validSolutionFound \<longleftrightarrow> SMALL_NUMBER \<le> max t0 t1)
            \<and> (validSolutionFound \<longrightarrow>
                  t = (if SMALL_NUMBER \<le> min t0 t1 then min t0 t1 else max t0 t1)
                \<and> a * t * t + b * t + c = 0
                \<and> SMALL_NUMBER \<le> t
                \<and> (\<forall>r. a * r * r + b * r + c = 0 \<and> SMALL_NUMBER \<le> r \<longrightarrow> t \<le> r)))
        \<and> (validSolutionFound \<longrightarrow>
              fst (PredictiveAim w s rnd muzzlePosition projectileSpeed targetPosition
                     targetVelocity gravity)
                = FVector_add targetVelocity
                    (FVector_div (FVector_sub targetPosition muzzlePosition) t))"
proof -
  define targetSpeed where "targetSpeed = Size targetVelocity"
  define distance where "distance = Size (FVector_sub muzzlePosition targetPosition)"
  define cosTheta where "cosTheta = (if targetSpeed * targetSpeed > 0
                     then DotProduct (Normalize (FVector_sub muzzlePosition targetPosition))
                            (GetSafeNormal targetVelocity)
                     else 1)"
  define a where "a = projectileSpeed * projectileSpeed - targetSpeed * targetSpeed"
  define b where "b = 2 * distance * targetSpeed * cosTheta"
  define c where "c = - (distance * distance)"
  define discriminant where "discriminant = b * b - 4 * a * c"
  define t0 where "t0 = (1 / 2) * (- b + sqrt discriminant) / a"
  define t1 where "t1 = (1 / 2) * (- b - sqrt discriminant) / a"
  define solution where "solution = PredictiveAim_time (real_of_int (RandRange_int 1 5 (rnd 23)))
                      (projectileSpeed * projectileSpeed) (targetSpeed * targetSpeed) targetSpeed
                      (distance * distance) distance cosTheta"
  have gen: "\<not> IsNearlyEqual (projectileSpeed * projectileSpeed) (targetSpeed * targetSpeed)"
    using general by (simp add: targetSpeed_def)
  have a0: "a \<noteq> 0"
    using gen by (auto simp: a_def IsNearlyEqual_def SMALL_NUMBER_def)
  note T = PredictiveAim_time_general [OF gen a_def b_def c_def
      t0_def [unfolded discriminant_def] t1_def [unfolded discriminant_def] solution_def]
  have neg: "discriminant < 0 \<longrightarrow> \<not> fst solution"
    using T(1) by (simp add: discriminant_def)
  have nonneg: "a * t0 * t0 + b * t0 + c = 0
            \<and> a * t1 * t1 + b * t1 + c = 0
            \<and> (\<forall>r. a * r * r + b * r + c = 0 \<longrightarrow> r = t0 \<or> r = t1)
            \<and> (fst solution \<longleftrightarrow> SMALL_NUMBER \<le> max t0 t1)
            \<and> (fst solution \<longrightarrow>
                  snd solution = (if SMALL_NUMBER \<le> min t0 t1 then min t0 t1 else max t0 t1)
                \<and> a * snd solution * snd solution + b * snd solution + c = 0
                \<and> SMALL_NUMBER \<le> snd solution
                \<and> (\<forall>r. a * r * r + b * r + c = 0 \<and> SMALL_NUMBER \<le> r \<longrightarrow> snd solution \<le> r))"
    if d: "0 \<le> discriminant"
  proof -
    have u: "sqrt discriminant * sqrt discriminant = b * b - 4 * a * c"
      using d by (simp add: discriminant_def)
    have r0: "a * t0 * t0 + b * t0 + c = 0"
      unfolding t0_def using quadratic_root_plus [OF a0 u] by simp
    have r1: "a * t1 * t1 + b * t1 + c = 0"
      unfolding t1_def using quadratic_root_minus [OF a0 u] by simp
    have only: "r = t0 \<or> r = t1" if "a * r * r + b * r + c = 0" for r
      unfolding t0_def t1_def using quadratic_roots_only [OF a0 u that] .
    have d': "0 \<le> b * b - 4 * a * c" using d by (simp add: discriminant_def)
    have v: "fst solution \<longleftrightarrow> SMALL_NUMBER \<le> max t0 t1" using T(2) [OF d'] .
    have tv: "snd solution = (if SMALL_NUMBER \<le> min t0 t1 then min t0 t1 else max t0 t1)"
      if "fst solution" using T(3) [OF d' that] .
    have root: "a * snd solution * snd solution + b * snd solution + c = 0" if "fst solution"
      using tv [OF that] r0 r1 by (auto simp: min_def max_def split: if_splits)
    have big: "SMALL_NUMBER \<le> snd solution" if "fst solution"
      using tv [OF that] v that by (auto split: if_splits)
    have least: "snd solution \<le> r"
      if "fst solution" and "a * r * r + b * r + c = 0 \<and> SMALL_NUMBER \<le> r" for r
    proof -
      from that(2) only have "r = t0 \<or> r = t1" by blast
      with that(2) tv [OF that(1)] show ?thesis
        by (auto simp: min_def max_def split: if_splits)
    qed
    show ?thesis using r0 r1 only v tv root big least by blast
  qed
  have aim: "fst (PredictiveAim w s rnd muzzlePosition projectileSpeed targetPosition
                     targetVelocity gravity)
                = FVector_add targetVelocity
                    (FVector_div (FVector_sub targetPosition muzzlePosition) (snd solution))"
    if "fst solution"
  proof -
    have n: "FVector_neg (FVector_sub muzzlePosition targetPosition)
               = FVector_sub targetPosition muzzlePosition"
      by (simp add: FVector_neg_def FVector_sub_def)
    show ?thesis
      using that unfolding PredictiveAim_def Let_def solution_def cosTheta_def distance_def
        targetSpeed_def
      by (simp add: n)
  qed
  show ?thesis
    unfolding Let_def
    using a0 neg nonneg aim
    unfolding solution_def t0_def t1_def discriminant_def c_def b_def a_def cosTheta_def
      distance_def targetSpeed_def
    by blast
qed

lemma Size_FarTarget: "Size (FVector_sub ZeroVector FarTarget) = 13000"
  by (simp add: Size_def SizeSquared_def FVector_sub_def ZeroVector_def FarTarget_def)

lemma FarTarget_time:
  "PredictiveAim_time 1 (6500 * 6500) 0 0 (13000 * 13000) 13000 1 = (True, 2)"
  by (simp add: PredictiveAim_time_def IsNearlyEqual_def SMALL_NUMBER_def Let_def)

theorem PredictiveAim_general_case_witness:
  "\<not> IsNearlyEqual (6500 * 6500) (Size ZeroVector * Size ZeroVector)
   \<and> PredictiveAim_time (real_of_int (RandRange_int 1 5 0)) (6500 * 6500) 0 0 (13000 * 13000) 13000 1 = (True, 2)
   \<and> fst (PredictiveAim SampleWorld SampleBot (\<lambda>i. 0) ZeroVector 6500 FarTarget ZeroVector 0)
       = \<lparr>X = 6500, Y = 0, Z = 0\<rparr>"
proof -
  have g: "\<not> IsNearlyEqual (6500 * 6500) (Size ZeroVector * Size ZeroVector)"
    by (simp add: IsNearlyEqual_def SMALL_NUMBER_def Size_ZeroVector)
  have r: "real_of_int (RandRange_int 1 5 0) = 1"
    by (simp add: RandRange_int_def TruncToInt_def)
  have d: "FVector_add ZeroVector (FVector_div (FVector_sub FarTarget ZeroVector) 2)
             = \<lparr>X = 6500, Y = 0, Z = 0\<rparr>"
    by (simp add: FVector_add_def FVector_div_def FVector_sub_def ZeroVector_def FarTarget_def)
  show ?thesis
    using PredictiveAim_general_case [OF g, of ZeroVector FarTarget "\<lambda>i. 0" SampleWorld SampleBot 0]
      g r d FarTarget_time
    by (simp add: Let_def Size_ZeroVector Size_FarTarget)
qed

text \<open>With the threshold at \<open>0\<close>, as the claim is worded, a target at rest
  \<open>5e-9\<close> units in front of the muzzle and a projectile of speed \<open>1\<close> would have the
  valid intercept time \<open>5e-9\<close> (the positive root) and the aim velocity
  \<open>ForwardVector\<close>. The code finds no valid solution there and returns the zero vector.\<close>

theorem PredictiveAim_small_root_counterexample:
  "\<not> IsNearlyEqual (1 * 1) (Size ZeroVector * Size ZeroVector)
   \<and> (0::real) \<le> 0 * 0 - 4 * (1 * 1 - 0 * 0) * (- ((5 / 10 ^ 9) * (5 / 10 ^ 9)))
   \<and> (1 * 1 - 0 * 0) * (5 / 10 ^ 9) * (5 / 10 ^ 9) + 0 * (5 / 10 ^ 9) + (- ((5 / 10 ^ 9) * (5 / 10 ^ 9))) = (0::real)
   \<and> (0::real) < 5 / 10 ^ 9
   \<and> Size (FVector_sub ZeroVector GrazingTarget) = 5 / 10 ^ 9
   \<and> fst (PredictiveAim_time 1 (1 * 1) 0 0 ((5 / 10 ^ 9) * (5 / 10 ^ 9)) (5 / 10 ^ 9) 1) = False
   \<and> fst (PredictiveAim SampleWorld SampleBot (\<lambda>i. 0) ZeroVector 1 GrazingTarget ZeroVector 0)
       = ZeroVector
   \<and> FVector_add ZeroVector (FVector_div (FVector_sub GrazingTarget ZeroVector) (5 / 10 ^ 9))
       = ForwardVector
   \<and> ZeroVector \<noteq> ForwardVector"
proof -
  have s: "Size (FVector_sub ZeroVector GrazingTarget) = 5 / 10 ^ 9"
    by (simp add: Size_def SizeSquared_def FVector_sub_def ZeroVector_def GrazingTarget_def
          real_sqrt_divide)
  have t: "fst (PredictiveAim_time 1 (1 * 1) 0 0 ((5 / 10 ^ 9) * (5 / 10 ^ 9)) (5 / 10 ^ 9) 1) = False"
    by (simp add: PredictiveAim_time_def IsNearlyEqual_def SMALL_NUMBER_def Let_def
          real_sqrt_divide)
  have r: "real_of_int (RandRange_int 1 5 0) = 1"
    by (simp add: RandRange_int_def TruncToInt_def)
  have t': "PredictiveAim_time 1 1 0 0 (1 / 40000000000000000) (1 / 200000000) 1 = (False, 1)"
    by (simp add: PredictiveAim_time_def IsNearlyEqual_def SMALL_NUMBER_def Let_def
          real_sqrt_divide)
  have p: "fst (PredictiveAim SampleWorld SampleBot (\<lambda>i. 0) ZeroVector 1 GrazingTarget ZeroVector 0)
       = ZeroVector"
    by (simp add: PredictiveAim_def Let_def s r t' Size_ZeroVector)
       (simp add: GetSafeNormal_def SizeSquared_def FVector_add_def FVector_div_def
          FVector_neg_def FVector_sub_def FVector_scale_def ZeroVector_def GrazingTarget_def
          SMALL_NUMBER_def)
  have c: "FVector_add ZeroVector (FVector_div (FVector_sub GrazingTarget ZeroVector) (5 / 10 ^ 9))
       = ForwardVector"
    by (simp add: FVector_add_def FVector_div_def FVector_sub_def ZeroVector_def
          GrazingTarget_def ForwardVector_def)
  have g: "\<not> IsNearlyEqual (1 * 1) (Size ZeroVector * Size ZeroVector)"
    by (simp add: IsNearlyEqual_def SMALL_NUMBER_def Size_ZeroVector)
  have z: "ZeroVector \<noteq> ForwardVector" by (simp add: ZeroVector_def ForwardVector_def)
  have a: "(0::real) \<le> 0 * 0 - 4 * (1 * 1 - 0 * 0) * (- ((5 / 10 ^ 9) * (5 / 10 ^ 9)))"
    "(1 * 1 - 0 * 0) * (5 / 10 ^ 9) * (5 / 10 ^ 9) + 0 * (5 / 10 ^ 9) + (- ((5 / 10 ^ 9) * (5 / 10 ^ 9))) = (0::real)"
    "(0::real) < 5 / 10 ^ 9"
    by simp_all
  show ?thesis by (intro conjI g a s t p c z)
qed

theorem PredictiveAim_gravity_independent_witness:
  "PredictiveAim SampleWorld (SampleBot\<lparr>bBotDebugMode := True\<rparr>) (\<lambda>i. 0) ZeroVector 6500 FarTarget ZeroVector 0
     = PredictiveAim SampleWorld (SampleBot\<lparr>bBotDebugMode := True\<rparr>) (\<lambda>i. 0) ZeroVector 6500 FarTarget ZeroVector 980
   \<and> snd (PredictiveAim SampleWorld (SampleBot\<lparr>bBotDebugMode := True\<rparr>) (\<lambda>i. 0) ZeroVector 6500 FarTarget ZeroVector 0) = []"
  using PredictiveAim_gravity_independent
    [of SampleWorld "SampleBot\<lparr>bBotDebugMode := True\<rparr>" "\<lambda>i. 0" ZeroVector 6500 FarTarget ZeroVector 0 980]
  by blast

text \<open>
  Claim C3 at a failing input. The target is at height \<open>1000\<close> over ground at height
  \<open>950\<close>, so \<open>50\<close> units above the ground. The local \<open>groundHeight\<close> receives
  the height above the ground (\<open>50\<close>), the test compares \<open>1000 - 50\<close> with
  \<open>600\<close>, and the position is left as it is; the value returned is the same as over
  ground at height \<open>0\<close>, since the position is read before the adjustment only.
\<close>

theorem PredictiveAim_ground_snap_failing_input:
  "fst (GetHeightAboveGround HighGroundWorld SampleBot HoveringTarget False) = 50
   \<and> GroundTrace HighGroundWorld (X HoveringTarget) (Y HoveringTarget) = Some 950
   \<and> PredictiveAim_targetPosition HighGroundWorld SampleBot HoveringTarget = HoveringTarget
   \<and> Z (PredictiveAim_targetPosition HighGroundWorld SampleBot HoveringTarget) = 1000
   \<and> fst (PredictiveAim HighGroundWorld SampleBot (\<lambda>i. 0) ZeroVector 6500 HoveringTarget ZeroVector 0)
       = fst (PredictiveAim SampleWorld SampleBot (\<lambda>i. 0) ZeroVector 6500 HoveringTarget ZeroVector 0)"
proof -
  have "fst (PredictiveAim (SampleWorld\<lparr>GroundTrace := (\<lambda>x y. Some 950)\<rparr>) SampleBot (\<lambda>i. 0) ZeroVector 6500 HoveringTarget ZeroVector 0)
       = fst (PredictiveAim SampleWorld SampleBot (\<lambda>i. 0) ZeroVector 6500 HoveringTarget ZeroVector 0)"
    by (rule PredictiveAim_ignores_ground)
  then show ?thesis
    by (simp add: HighGroundWorld_def GetHeightAboveGround_def PredictiveAim_targetPosition_def
          HoveringTarget_def SampleWorld_def)
qed

theorem PredictiveAim_ground_snap_failing_input_witness:
  "Z (PredictiveAim_targetPosition HighGroundWorld SampleBot HoveringTarget) \<noteq> 950
   \<and> GroundTrace HighGroundWorld (X HoveringTarget) (Y HoveringTarget) = Some 950"
  using PredictiveAim_ground_snap_failing_input by (simp add: HoveringTarget_def)

section \<open>Destination resolution is idempotent\<close>

subsection \<open>The refresh\<close>

lemma ScanFlag_absorb:
  "DetermineMoveLocation_ScanFlag parent x
     (DetermineMoveLocation_ScanFlag parent y (DetermineMoveLocation_ScanFlag parent x t))
   = DetermineMoveLocation_ScanFlag parent x (DetermineMoveLocation_ScanFlag parent y t)"
  by (simp add: DetermineMoveLocation_ScanFlag_def Let_def)

lemma ScanFlag_twice:
  "DetermineMoveLocation_ScanFlag parent x (DetermineMoveLocation_ScanFlag parent x t)
   = DetermineMoveLocation_ScanFlag parent x t"
  by (simp add: DetermineMoveLocation_ScanFlag_def Let_def)

lemma ScanFlag_fold_absorb:
  "DetermineMoveLocation_ScanFlag parent x
     (fold (DetermineMoveLocation_ScanFlag parent) fl (DetermineMoveLocation_ScanFlag parent x t))
   = DetermineMoveLocation_ScanFlag parent x (fold (DetermineMoveLocation_ScanFlag parent) fl t)"
proof (induction fl arbitrary: t rule: rev_induct)
  case Nil
  then show ?case by (simp add: ScanFlag_twice)
next
  case (snoc y fl)
  have "DetermineMoveLocation_ScanFlag parent x
          (DetermineMoveLocation_ScanFlag parent y
            (fold (DetermineMoveLocation_ScanFlag parent) fl (DetermineMoveLocation_ScanFlag parent x t)))
        = DetermineMoveLocation_ScanFlag parent x
          (DetermineMoveLocation_ScanFlag parent y
            (DetermineMoveLocation_ScanFlag parent x
              (fold (DetermineMoveLocation_ScanFlag parent) fl (DetermineMoveLocation_ScanFlag parent x t))))"
    by (simp add: ScanFlag_absorb)
  also have "\<dots> = DetermineMoveLocation_ScanFlag parent x
          (DetermineMoveLocation_ScanFlag parent y
            (DetermineMoveLocation_ScanFlag parent x
              (fold (DetermineMoveLocation_ScanFlag parent) fl t)))"
    by (simp add: snoc.IH)
  also have "\<dots> = DetermineMoveLocation_ScanFlag parent x
          (DetermineMoveLocation_ScanFlag parent y
              (fold (DetermineMoveLocation_ScanFlag parent) fl t))"
    by (simp add: ScanFlag_absorb)
  finally show ?case by simp
qed

lemma fold_ScanFlag_twice:
  "fold (DetermineMoveLocation_ScanFlag parent) fl (fold (DetermineMoveLocation_ScanFlag parent) fl t)
   = fold (DetermineMoveLocation_ScanFlag parent) fl t"
proof (induction fl arbitrary: t rule: rev_induct)
  case Nil
  then show ?case by simp
next
  case (snoc x fl)
  show ?case by (simp add: ScanFlag_fold_absorb snoc.IH)
qed

lemma FlagState_eq:
  "DetermineMoveLocation_FlagState t =
     t\<lparr>GameState := (GameState t)\<lparr>FlagState :=
        (if bEnemyFlagHome (GameState t) \<and> bFriendlyFlagHome (GameState t)
         then EAIFlagStates_BothFlagsHome
         else if \<not> bEnemyFlagHome (GameState t) \<and> bFriendlyFlagHome (GameState t)
         then EAIFlagStates_EnemyFlagTakenFriendlySafe
         else if bEnemyFlagHome (GameState t) \<and> \<not> bFriendlyFlagHome (GameState t)
         then EAIFlagStates_FriendlyTakenEnemyHome
         else EAIFlagStates_Standoff)\<rparr>\<rparr>"
  by (simp add: DetermineMoveLocation_FlagState_def)

lemma ScanFlag_derived:
  "DetermineMoveLocation_ScanFlag parent x
     (t\<lparr>GameState := (GameState t)\<lparr>FlagState := f\<rparr>,
        AIState := (AIState t)\<lparr>bIsHoldingFlag := h\<rparr>\<rparr>)
   = (DetermineMoveLocation_ScanFlag parent x t)
       \<lparr>GameState := (GameState (DetermineMoveLocation_ScanFlag parent x t))\<lparr>FlagState := f\<rparr>,
        AIState := (AIState (DetermineMoveLocation_ScanFlag parent x t))\<lparr>bIsHoldingFlag := h\<rparr>\<rparr>"
  by (simp add: DetermineMoveLocation_ScanFlag_def Let_def)

lemma fold_ScanFlag_derived:
  "fold (DetermineMoveLocation_ScanFlag parent) fl
     (t\<lparr>GameState := (GameState t)\<lparr>FlagState := f\<rparr>,
        AIState := (AIState t)\<lparr>bIsHoldingFlag := h\<rparr>\<rparr>)
   = (fold (DetermineMoveLocation_ScanFlag parent) fl t)
       \<lparr>GameState := (GameState (fold (DetermineMoveLocation_ScanFlag parent) fl t))\<lparr>FlagState := f\<rparr>,
        AIState := (AIState (fold (DetermineMoveLocation_ScanFlag parent) fl t))\<lparr>bIsHoldingFlag := h\<rparr>\<rparr>"
proof (induction fl arbitrary: t)
  case Nil
  then show ?case by simp
next
  case (Cons x fl)
  show ?case by (simp add: ScanFlag_derived Cons.IH)
qed

lemma Refresh_eq:
  "DetermineMoveLocation_Refresh w parent t =
     (let u = fold (DetermineMoveLocation_ScanFlag parent) (Flags w) t
      in u\<lparr>GameState := (GameState u)\<lparr>FlagState :=
        (if bEnemyFlagHome (GameState u) \<and> bFriendlyFlagHome (GameState u)
         then EAIFlagStates_BothFlagsHome
         else if \<not> bEnemyFlagHome (GameState u) \<and> bFriendlyFlagHome (GameState u)
         then EAIFlagStates_EnemyFlagTakenFriendlySafe
         else if bEnemyFlagHome (GameState u) \<and> \<not> bFriendlyFlagHome (GameState u)
         then EAIFlagStates_FriendlyTakenEnemyHome
         else EAIFlagStates_Standoff)\<rparr>,
        AIState := (AIState u)\<lparr>bIsHoldingFlag := (CarriedObject parent \<noteq> nullptr)\<rparr>\<rparr>)"
  by (simp add: DetermineMoveLocation_Refresh_def Let_def FlagState_eq)

lemma Refresh_twice:
  "DetermineMoveLocation_Refresh w parent (DetermineMoveLocation_Refresh w parent t)
   = DetermineMoveLocation_Refresh w parent t"
  by (simp add: Refresh_eq Let_def fold_ScanFlag_derived fold_ScanFlag_twice)


lemma fold_ScanFlag_WithMoveTargetType:
  "fold (DetermineMoveLocation_ScanFlag parent) fl (WithMoveTargetType m t)
     = WithMoveTargetType m (fold (DetermineMoveLocation_ScanFlag parent) fl t)"
proof (induction fl arbitrary: t)
  case Nil
  then show ?case by simp
next
  case (Cons x fl)
  have "DetermineMoveLocation_ScanFlag parent x (WithMoveTargetType m t)
          = WithMoveTargetType m (DetermineMoveLocation_ScanFlag parent x t)"
    by (simp add: DetermineMoveLocation_ScanFlag_def WithMoveTargetType_def Let_def)
  then show ?case by (simp add: Cons.IH)
qed

lemma Refresh_WithMoveTargetType:
  "DetermineMoveLocation_Refresh w parent (WithMoveTargetType m t)
     = WithMoveTargetType m (DetermineMoveLocation_Refresh w parent t)"
  unfolding Refresh_eq Let_def fold_ScanFlag_WithMoveTargetType
  by (simp add: WithMoveTargetType_def)

lemma fold_ScanFlag_WithTime:
  "fold (DetermineMoveLocation_ScanFlag parent) fl (WithTimeOfLastMovementTargetChange \<tau> t)
     = WithTimeOfLastMovementTargetChange \<tau> (fold (DetermineMoveLocation_ScanFlag parent) fl t)"
proof (induction fl arbitrary: t)
  case Nil
  then show ?case by simp
next
  case (Cons x fl)
  have "DetermineMoveLocation_ScanFlag parent x (WithTimeOfLastMovementTargetChange \<tau> t)
          = WithTimeOfLastMovementTargetChange \<tau> (DetermineMoveLocation_ScanFlag parent x t)"
    by (simp add: DetermineMoveLocation_ScanFlag_def WithTimeOfLastMovementTargetChange_def Let_def)
  then show ?case by (simp add: Cons.IH)
qed

lemma Refresh_WithTime:
  "DetermineMoveLocation_Refresh w parent (WithTimeOfLastMovementTargetChange \<tau> t)
     = WithTimeOfLastMovementTargetChange \<tau> (DetermineMoveLocation_Refresh w parent t)"
  unfolding Refresh_eq Let_def fold_ScanFlag_WithTime
  by (simp add: WithTimeOfLastMovementTargetChange_def)

lemma OnlyGameStateRefreshed_refl: "OnlyGameStateRefreshed t t"
  unfolding OnlyGameStateRefreshed_def
  by (rule exI [where x = "GameState t"], rule exI [where x = "DistanceToEnemyFlag (AIState t)"],
      rule exI [where x = "DistanceToFriendlyFlag (AIState t)"],
      rule exI [where x = "bIsHoldingFlag (AIState t)"]) simp

lemma OnlyGameStateRefreshed_trans:
  assumes "OnlyGameStateRefreshed t u" and "OnlyGameStateRefreshed u v"
  shows "OnlyGameStateRefreshed t v"
proof -
  from assms(1) obtain G a b h where
    u: "u = t\<lparr>GameState := G, AIState := (AIState t)
               \<lparr>DistanceToEnemyFlag := a, DistanceToFriendlyFlag := b, bIsHoldingFlag := h\<rparr>\<rparr>"
    unfolding OnlyGameStateRefreshed_def by blast
  from assms(2) obtain G' a' b' h' where
    v: "v = u\<lparr>GameState := G', AIState := (AIState u)
               \<lparr>DistanceToEnemyFlag := a', DistanceToFriendlyFlag := b', bIsHoldingFlag := h'\<rparr>\<rparr>"
    unfolding OnlyGameStateRefreshed_def by blast
  have "v = t\<lparr>GameState := G', AIState := (AIState t)
               \<lparr>DistanceToEnemyFlag := a', DistanceToFriendlyFlag := b', bIsHoldingFlag := h'\<rparr>\<rparr>"
    unfolding v u by simp
  then show ?thesis unfolding OnlyGameStateRefreshed_def by blast
qed

lemma OnlyDestinationChanged_refl: "OnlyDestinationChanged t t"
  unfolding OnlyDestinationChanged_def
  by (rule exI [where x = "MoveTargetType (AIState t)"],
      rule exI [where x = "DesiredMoveLocation (AIState t)"]) simp

lemma OnlyDestinationChanged_SetMoveTarget: "OnlyDestinationChanged t (SetMoveTarget T L t)"
  unfolding OnlyDestinationChanged_def SetMoveTarget_def by blast

lemma OnlyDestinationChanged_trans:
  assumes "OnlyDestinationChanged t u" and "OnlyDestinationChanged u v"
  shows "OnlyDestinationChanged t v"
proof -
  from assms(1) obtain m d where
    u: "u = t\<lparr>AIState := (AIState t)\<lparr>MoveTargetType := m, DesiredMoveLocation := d\<rparr>\<rparr>"
    unfolding OnlyDestinationChanged_def by blast
  from assms(2) obtain m' d' where
    v: "v = u\<lparr>AIState := (AIState u)\<lparr>MoveTargetType := m', DesiredMoveLocation := d'\<rparr>\<rparr>"
    unfolding OnlyDestinationChanged_def by blast
  have "v = t\<lparr>AIState := (AIState t)\<lparr>MoveTargetType := m', DesiredMoveLocation := d'\<rparr>\<rparr>"
    unfolding v u by simp
  then show ?thesis unfolding OnlyDestinationChanged_def by blast
qed

lemma ScanFlag_OnlyGameStateRefreshed:
  "OnlyGameStateRefreshed t (DetermineMoveLocation_ScanFlag parent x t)"
proof (cases "TeamId parent \<noteq> FlagTeamId x")
  case True
  have "DetermineMoveLocation_ScanFlag parent x t =
     t\<lparr>GameState := GameState (DetermineMoveLocation_ScanFlag parent x t),
       AIState := (AIState t)
         \<lparr>DistanceToEnemyFlag := DistanceToEnemyFlag (AIState (DetermineMoveLocation_ScanFlag parent x t)),
          DistanceToFriendlyFlag := DistanceToFriendlyFlag (AIState t),
          bIsHoldingFlag := bIsHoldingFlag (AIState t)\<rparr>\<rparr>"
    using True by (simp add: DetermineMoveLocation_ScanFlag_def Let_def)
  then show ?thesis unfolding OnlyGameStateRefreshed_def by blast
next
  case False
  have "DetermineMoveLocation_ScanFlag parent x t =
     t\<lparr>GameState := GameState (DetermineMoveLocation_ScanFlag parent x t),
       AIState := (AIState t)
         \<lparr>DistanceToEnemyFlag := DistanceToEnemyFlag (AIState t),
          DistanceToFriendlyFlag := DistanceToFriendlyFlag (AIState (DetermineMoveLocation_ScanFlag parent x t)),
          bIsHoldingFlag := bIsHoldingFlag (AIState t)\<rparr>\<rparr>"
    using False by (simp add: DetermineMoveLocation_ScanFlag_def Let_def)
  then show ?thesis unfolding OnlyGameStateRefreshed_def by blast
qed

lemma fold_ScanFlag_OnlyGameStateRefreshed:
  "OnlyGameStateRefreshed t (fold (DetermineMoveLocation_ScanFlag parent) fl t)"
proof (induction fl arbitrary: t)
  case Nil
  then show ?case by (simp add: OnlyGameStateRefreshed_refl)
next
  case (Cons x fl)
  show ?case
    using OnlyGameStateRefreshed_trans [OF ScanFlag_OnlyGameStateRefreshed Cons.IH] by simp
qed

lemma Refresh_OnlyGameStateRefreshed:
  "OnlyGameStateRefreshed t (DetermineMoveLocation_Refresh w parent t)"
proof -
  let ?u = "fold (DetermineMoveLocation_ScanFlag parent) (Flags w) t"
  have "OnlyGameStateRefreshed ?u (DetermineMoveLocation_Refresh w parent t)"
    unfolding OnlyGameStateRefreshed_def Refresh_eq Let_def
    by (intro exI [where x = "DistanceToEnemyFlag (AIState ?u)"]
          exI [where x = "DistanceToFriendlyFlag (AIState ?u)"] exI) simp
  with fold_ScanFlag_OnlyGameStateRefreshed show ?thesis
    by (rule OnlyGameStateRefreshed_trans)
qed

subsection \<open>The choice\<close>

lemma WithMoveTargetType_sel:
  "GameState (WithMoveTargetType m t) = GameState t"
  "BotConfig (WithMoveTargetType m t) = BotConfig t"
  "bIsHoldingFlag (AIState (WithMoveTargetType m t)) = bIsHoldingFlag (AIState t)"
  "DistanceToEnemyFlag (AIState (WithMoveTargetType m t)) = DistanceToEnemyFlag (AIState t)"
  "DistanceToFriendlyFlag (AIState (WithMoveTargetType m t)) = DistanceToFriendlyFlag (AIState t)"
  "CurrentTarget (AIState (WithMoveTargetType m t)) = CurrentTarget (AIState t)"
  "DesiredMoveLocation (AIState (WithMoveTargetType m t)) = DesiredMoveLocation (AIState t)"
  "SetMoveTarget T L (WithMoveTargetType m t) = SetMoveTarget T L t"
  by (simp_all add: WithMoveTargetType_def SetMoveTarget_def)

lemma WithTime_sel:
  "GameState (WithTimeOfLastMovementTargetChange \<tau> t) = GameState t"
  "BotConfig (WithTimeOfLastMovementTargetChange \<tau> t) = BotConfig t"
  "AIState (WithTimeOfLastMovementTargetChange \<tau> t) = AIState t"
  "SetMoveTarget T L (WithTimeOfLastMovementTargetChange \<tau> t)
     = WithTimeOfLastMovementTargetChange \<tau> (SetMoveTarget T L t)"
  by (simp_all add: WithTimeOfLastMovementTargetChange_def SetMoveTarget_def)

lemma SetMoveTarget_sel:
  "GameState (SetMoveTarget T L t) = GameState t"
  "BotConfig (SetMoveTarget T L t) = BotConfig t"
  "bIsHoldingFlag (AIState (SetMoveTarget T L t)) = bIsHoldingFlag (AIState t)"
  "DistanceToEnemyFlag (AIState (SetMoveTarget T L t)) = DistanceToEnemyFlag (AIState t)"
  "DistanceToFriendlyFlag (AIState (SetMoveTarget T L t)) = DistanceToFriendlyFlag (AIState t)"
  "CurrentTarget (AIState (SetMoveTarget T L t)) = CurrentTarget (AIState t)"
  "SetMoveTarget T L (SetMoveTarget T' L' t) = SetMoveTarget T L t"
  by (simp_all add: SetMoveTarget_def)

lemma blind_fire:
  "f (WithMoveTargetType m t) = f t \<Longrightarrow>
   f (WithMoveTargetType m t) = f t \<or> f (WithMoveTargetType m t) = WithMoveTargetType m (f t)"
  by simp

lemma blind_pass:
  "f (WithMoveTargetType m t) = WithMoveTargetType m t \<Longrightarrow> f t = t \<Longrightarrow>
   f (WithMoveTargetType m t) = f t \<or> f (WithMoveTargetType m t) = WithMoveTargetType m (f t)"
  by simp

lemma Holding_blind:
  "DetermineMoveLocation_Holding (WithMoveTargetType m t) = DetermineMoveLocation_Holding t
   \<or> DetermineMoveLocation_Holding (WithMoveTargetType m t)
       = WithMoveTargetType m (DetermineMoveLocation_Holding t)"
proof (cases "bIsHoldingFlag (AIState t)")
  case True
  then show ?thesis
    by (intro blind_fire) (simp add: DetermineMoveLocation_Holding_def WithMoveTargetType_sel)
next
  case False
  then show ?thesis
    by (intro blind_pass) (simp_all add: DetermineMoveLocation_Holding_def WithMoveTargetType_sel)
qed

lemma Chase_blind:
  "DetermineMoveLocation_Chase (WithMoveTargetType m t) = DetermineMoveLocation_Chase t
   \<or> DetermineMoveLocation_Chase (WithMoveTargetType m t)
       = WithMoveTargetType m (DetermineMoveLocation_Chase t)"
proof (cases "\<not> bIsHoldingFlag (AIState t) \<and> BotType (BotConfig t) = EBotTypes_Chase")
  case True
  then show ?thesis
    by (intro blind_fire) (simp add: DetermineMoveLocation_Chase_def WithMoveTargetType_sel)
next
  case False
  then show ?thesis
    by (intro blind_pass) (auto simp: DetermineMoveLocation_Chase_def WithMoveTargetType_sel)
qed

lemma Offense_blind:
  "DetermineMoveLocation_Offense (WithMoveTargetType m t) = DetermineMoveLocation_Offense t
   \<or> DetermineMoveLocation_Offense (WithMoveTargetType m t)
       = WithMoveTargetType m (DetermineMoveLocation_Offense t)"
proof (cases "\<not> bIsHoldingFlag (AIState t)
         \<and> (BotType (BotConfig t) = EBotTypes_Offense \<or> BotType (BotConfig t) = EBotTypes_LO)")
  case True
  then show ?thesis
    by (intro blind_fire) (auto simp: DetermineMoveLocation_Offense_def WithMoveTargetType_sel)
next
  case False
  then show ?thesis
    by (intro blind_pass) (auto simp: DetermineMoveLocation_Offense_def WithMoveTargetType_sel)
qed

lemma StayAtHome_blind:
  "DetermineMoveLocation_StayAtHome (WithMoveTargetType m t) = DetermineMoveLocation_StayAtHome t
   \<or> DetermineMoveLocation_StayAtHome (WithMoveTargetType m t)
       = WithMoveTargetType m (DetermineMoveLocation_StayAtHome t)"
proof (cases "BotType (BotConfig t) = EBotTypes_StayAtHome")
  case True
  then show ?thesis
    by (intro blind_fire)
       (simp add: DetermineMoveLocation_StayAtHome_def WithMoveTargetType_sel SetMoveTarget_sel Let_def)
next
  case False
  then show ?thesis
    by (intro blind_pass)
       (simp_all add: DetermineMoveLocation_StayAtHome_def WithMoveTargetType_sel)
qed

lemma Target_blind:
  "DetermineMoveLocation_Target w parent TargetDistance (WithMoveTargetType m t)
     = DetermineMoveLocation_Target w parent TargetDistance t
   \<or> DetermineMoveLocation_Target w parent TargetDistance (WithMoveTargetType m t)
       = WithMoveTargetType m (DetermineMoveLocation_Target w parent TargetDistance t)"
proof (cases "CurrentTarget (AIState t) \<noteq> nullptr \<and> TargetDistance < 20000
     \<and> DistanceBetweenTargets (ActorLocation parent) (DesiredMoveLocation (AIState t)) < 10000")
  case True
  then show ?thesis
    by (intro blind_fire)
       (simp add: DetermineMoveLocation_Target_def WithMoveTargetType_sel Let_def split: ptr.splits)
next
  case False
  then show ?thesis
    by (intro blind_pass)
       (auto simp: DetermineMoveLocation_Target_def WithMoveTargetType_sel Let_def split: ptr.splits)
qed

lemma FlagOverride_eq:
  "DetermineMoveLocation_FlagOverride t =
     (if DistanceToEnemyFlag (AIState t)
           < (if BotType (BotConfig t) = EBotTypes_StayAtHome then 15000 else 5000)
         \<and> \<not> bEnemyFlagHeld (GameState t)
         \<and> (FlagState (GameState t) = EAIFlagStates_EnemyFlagTakenFriendlySafe
             \<or> FlagState (GameState t) = EAIFlagStates_Standoff)
      then SetMoveTarget EAIMoveTargetTypes_EnemyFlag (EnemyFlagLocation (GameState t)) t
      else if DistanceToFriendlyFlag (AIState t)
                < (if BotType (BotConfig t) = EBotTypes_Chase then 15000
                   else if BotType (BotConfig t) = EBotTypes_StayAtHome then 10000 else 5000)
              \<and> \<not> bFriendlyFlagHeld (GameState t)
              \<and> (FlagState (GameState t) = EAIFlagStates_FriendlyTakenEnemyHome
                  \<or> FlagState (GameState t) = EAIFlagStates_Standoff)
      then SetMoveTarget EAIMoveTargetTypes_FriendlyFlag (FriendlyFlagLocation (GameState t)) t
      else t)"
  by (auto simp: DetermineMoveLocation_FlagOverride_def SetMoveTarget_sel Let_def)

lemma FlagOverride_blind:
  "DetermineMoveLocation_FlagOverride (WithMoveTargetType m t) = DetermineMoveLocation_FlagOverride t
   \<or> DetermineMoveLocation_FlagOverride (WithMoveTargetType m t)
       = WithMoveTargetType m (DetermineMoveLocation_FlagOverride t)"
  unfolding FlagOverride_eq WithMoveTargetType_sel
  by auto

lemma Cap_blind:
  "DetermineMoveLocation_Cap (WithMoveTargetType m t) = DetermineMoveLocation_Cap t
   \<or> DetermineMoveLocation_Cap (WithMoveTargetType m t)
       = WithMoveTargetType m (DetermineMoveLocation_Cap t)"
proof (cases "bIsHoldingFlag (AIState t) \<and> bFriendlyFlagHome (GameState t)")
  case True
  then show ?thesis
    by (intro blind_fire) (simp add: DetermineMoveLocation_Cap_def WithMoveTargetType_sel)
next
  case False
  then show ?thesis
    by (intro blind_pass) (auto simp: DetermineMoveLocation_Cap_def WithMoveTargetType_sel)
qed

lemma blind_then:
  assumes "f (WithMoveTargetType m t) = f t \<or> f (WithMoveTargetType m t) = WithMoveTargetType m (f t)"
    and "g (WithMoveTargetType m (f t)) = g (f t)
         \<or> g (WithMoveTargetType m (f t)) = WithMoveTargetType m (g (f t))"
  shows "g (f (WithMoveTargetType m t)) = g (f t)
         \<or> g (f (WithMoveTargetType m t)) = WithMoveTargetType m (g (f t))"
  using assms by (elim disjE) simp_all

lemma Choose_blind:
  "DetermineMoveLocation_Choose w parent TargetDistance (WithMoveTargetType m t)
     = DetermineMoveLocation_Choose w parent TargetDistance t
   \<or> DetermineMoveLocation_Choose w parent TargetDistance (WithMoveTargetType m t)
       = WithMoveTargetType m (DetermineMoveLocation_Choose w parent TargetDistance t)"
proof -
  let ?f1 = "DetermineMoveLocation_Holding"
  let ?f2 = "\<lambda>u. DetermineMoveLocation_Chase (?f1 u)"
  let ?f3 = "\<lambda>u. DetermineMoveLocation_Offense (?f2 u)"
  let ?f4 = "\<lambda>u. DetermineMoveLocation_StayAtHome (?f3 u)"
  let ?f5 = "\<lambda>u. DetermineMoveLocation_Target w parent TargetDistance (?f4 u)"
  let ?f6 = "\<lambda>u. DetermineMoveLocation_FlagOverride (?f5 u)"
  let ?f7 = "\<lambda>u. DetermineMoveLocation_Cap (?f6 u)"
  have 1: "?f1 (WithMoveTargetType m t) = ?f1 t
           \<or> ?f1 (WithMoveTargetType m t) = WithMoveTargetType m (?f1 t)"
    by (rule Holding_blind)
  have 2: "?f2 (WithMoveTargetType m t) = ?f2 t
           \<or> ?f2 (WithMoveTargetType m t) = WithMoveTargetType m (?f2 t)"
    using blind_then [where f = ?f1 and g = DetermineMoveLocation_Chase, OF 1 Chase_blind] .
  have 3: "?f3 (WithMoveTargetType m t) = ?f3 t
           \<or> ?f3 (WithMoveTargetType m t) = WithMoveTargetType m (?f3 t)"
    using blind_then [where f = ?f2 and g = DetermineMoveLocation_Offense, OF 2 Offense_blind] .
  have 4: "?f4 (WithMoveTargetType m t) = ?f4 t
           \<or> ?f4 (WithMoveTargetType m t) = WithMoveTargetType m (?f4 t)"
    using blind_then [where f = ?f3 and g = DetermineMoveLocation_StayAtHome, OF 3 StayAtHome_blind] .
  have 5: "?f5 (WithMoveTargetType m t) = ?f5 t
           \<or> ?f5 (WithMoveTargetType m t) = WithMoveTargetType m (?f5 t)"
    using blind_then [where f = ?f4 and g = "DetermineMoveLocation_Target w parent TargetDistance",
        OF 4 Target_blind] .
  have 6: "?f6 (WithMoveTargetType m t) = ?f6 t
           \<or> ?f6 (WithMoveTargetType m t) = WithMoveTargetType m (?f6 t)"
    using blind_then [where f = ?f5 and g = DetermineMoveLocation_FlagOverride, OF 5 FlagOverride_blind] .
  have 7: "?f7 (WithMoveTargetType m t) = ?f7 t
           \<or> ?f7 (WithMoveTargetType m t) = WithMoveTargetType m (?f7 t)"
    using blind_then [where f = ?f6 and g = DetermineMoveLocation_Cap, OF 6 Cap_blind] .
  show ?thesis
    unfolding DetermineMoveLocation_Choose_def Let_def using 7 .
qed

lemma Choose_WithTime:
  "DetermineMoveLocation_Choose w parent TargetDistance (WithTimeOfLastMovementTargetChange \<tau> t)
     = WithTimeOfLastMovementTargetChange \<tau> (DetermineMoveLocation_Choose w parent TargetDistance t)"
proof -
  have 1: "DetermineMoveLocation_Holding (WithTimeOfLastMovementTargetChange \<tau> u)
        = WithTimeOfLastMovementTargetChange \<tau> (DetermineMoveLocation_Holding u)" for u
    by (auto simp: DetermineMoveLocation_Holding_def WithTime_sel)
  have 2: "DetermineMoveLocation_Chase (WithTimeOfLastMovementTargetChange \<tau> u)
        = WithTimeOfLastMovementTargetChange \<tau> (DetermineMoveLocation_Chase u)" for u
    by (auto simp: DetermineMoveLocation_Chase_def WithTime_sel)
  have 3: "DetermineMoveLocation_Offense (WithTimeOfLastMovementTargetChange \<tau> u)
        = WithTimeOfLastMovementTargetChange \<tau> (DetermineMoveLocation_Offense u)" for u
    by (auto simp: DetermineMoveLocation_Offense_def WithTime_sel)
  have 4: "DetermineMoveLocation_StayAtHome (WithTimeOfLastMovementTargetChange \<tau> u)
        = WithTimeOfLastMovementTargetChange \<tau> (DetermineMoveLocation_StayAtHome u)" for u
    by (auto simp: DetermineMoveLocation_StayAtHome_def WithTime_sel SetMoveTarget_sel Let_def)
  have 5: "DetermineMoveLocation_Target w parent TargetDistance (WithTimeOfLastMovementTargetChange \<tau> u)
        = WithTimeOfLastMovementTargetChange \<tau> (DetermineMoveLocation_Target w parent TargetDistance u)" for u
    by (auto simp: DetermineMoveLocation_Target_def WithTime_sel Let_def split: ptr.splits)
  have 6: "DetermineMoveLocation_FlagOverride (WithTimeOfLastMovementTargetChange \<tau> u)
        = WithTimeOfLastMovementTargetChange \<tau> (DetermineMoveLocation_FlagOverride u)" for u
    by (auto simp: FlagOverride_eq WithTime_sel)
  have 7: "DetermineMoveLocation_Cap (WithTimeOfLastMovementTargetChange \<tau> u)
        = WithTimeOfLastMovementTargetChange \<tau> (DetermineMoveLocation_Cap u)" for u
    by (auto simp: DetermineMoveLocation_Cap_def WithTime_sel)
  show ?thesis
    unfolding DetermineMoveLocation_Choose_def Let_def by (simp only: 1 2 3 4 5 6 7)
qed

lemma Choose_OnlyDestinationChanged:
  "OnlyDestinationChanged t (DetermineMoveLocation_Choose w parent TargetDistance t)"
proof -
  note R = OnlyDestinationChanged_refl and S = OnlyDestinationChanged_SetMoveTarget
  have 1: "OnlyDestinationChanged u (DetermineMoveLocation_Holding u)" for u
    by (auto simp: DetermineMoveLocation_Holding_def R S)
  have 2: "OnlyDestinationChanged u (DetermineMoveLocation_Chase u)" for u
    by (auto simp: DetermineMoveLocation_Chase_def R S)
  have 3: "OnlyDestinationChanged u (DetermineMoveLocation_Offense u)" for u
    by (auto simp: DetermineMoveLocation_Offense_def R S)
  have 4: "OnlyDestinationChanged u (DetermineMoveLocation_StayAtHome u)" for u
    by (auto simp: DetermineMoveLocation_StayAtHome_def SetMoveTarget_sel Let_def R S)
  have 5: "OnlyDestinationChanged u (DetermineMoveLocation_Target w parent TargetDistance u)" for u
    by (auto simp: DetermineMoveLocation_Target_def Let_def R S split: ptr.splits)
  have 6: "OnlyDestinationChanged u (DetermineMoveLocation_FlagOverride u)" for u
    by (auto simp: FlagOverride_eq R S)
  have 7: "OnlyDestinationChanged u (DetermineMoveLocation_Cap u)" for u
    by (auto simp: DetermineMoveLocation_Cap_def R S)
  note T = OnlyDestinationChanged_trans
  show ?thesis
    unfolding DetermineMoveLocation_Choose_def Let_def
    by (rule T [OF T [OF T [OF T [OF T [OF T [OF 1 2] 3] 4] 5] 6] 7])
qed

subsection \<open>Idempotence\<close>

lemma DetermineMoveLocation_unfold:
  assumes "ParentCharacter s = Addr pa"
    and "\<not> (BotType (BotConfig s) = EBotTypes_Offense
            \<and> RouteState (AIState s) = EAIRouteState_MovingToRouteStart)"
  shows "DetermineMoveLocation w s =
     (if MoveTargetType (AIState s)
           \<noteq> MoveTargetType (AIState (DetermineMoveLocation_Choose w (Characters w pa)
                 (DistanceToTarget w (Characters w pa) (CurrentTarget (AIState s)))
                 (DetermineMoveLocation_Refresh w (Characters w pa) (ResetDesiredMoveLocation s))))
      then WithTimeOfLastMovementTargetChange (TimeSeconds w)
             (DetermineMoveLocation_Choose w (Characters w pa)
                 (DistanceToTarget w (Characters w pa) (CurrentTarget (AIState s)))
                 (DetermineMoveLocation_Refresh w (Characters w pa) (ResetDesiredMoveLocation s)))
      else DetermineMoveLocation_Choose w (Characters w pa)
                 (DistanceToTarget w (Characters w pa) (CurrentTarget (AIState s)))
                 (DetermineMoveLocation_Refresh w (Characters w pa) (ResetDesiredMoveLocation s)))"
  using assms
  by (auto simp: DetermineMoveLocation_def Let_def ResetDesiredMoveLocation_def
        WithTimeOfLastMovementTargetChange_def)

text \<open>
  Claim C7. Destination resolution is idempotent: a second call of
  \<open>DetermineMoveLocation\<close> in the same world, on the state the first call left, changes
  nothing; in particular \<open>DesiredMoveLocation\<close> and \<open>MoveTargetType\<close> are those of
  the first call.
\<close>

theorem DetermineMoveLocation_idempotent:
  "DetermineMoveLocation w (DetermineMoveLocation w s) = DetermineMoveLocation w s"
proof (cases "ParentCharacter s")
  case nullptr
  then show ?thesis by (simp add: DetermineMoveLocation_def)
next
  case (Addr pa)
  show ?thesis
  proof (cases "BotType (BotConfig s) = EBotTypes_Offense
            \<and> RouteState (AIState s) = EAIRouteState_MovingToRouteStart")
    case True
    then show ?thesis using Addr by (simp add: DetermineMoveLocation_def Let_def)
  next
    case False
    define parent where "parent = Characters w pa"
    define TD where "TD = DistanceToTarget w parent (CurrentTarget (AIState s))"
    define R0 where "R0 = DetermineMoveLocation_Refresh w parent (ResetDesiredMoveLocation s)"
    define C0 where "C0 = DetermineMoveLocation_Choose w parent TD R0"
    define \<tau> where "\<tau> = (if MoveTargetType (AIState s) \<noteq> MoveTargetType (AIState C0)
                        then TimeSeconds w else TimeOfLastMovementTargetChange s)"
    obtain G a b h where R0_eq:
      "R0 = (ResetDesiredMoveLocation s)\<lparr>GameState := G,
             AIState := (AIState (ResetDesiredMoveLocation s))
               \<lparr>DistanceToEnemyFlag := a, DistanceToFriendlyFlag := b, bIsHoldingFlag := h\<rparr>\<rparr>"
      using Refresh_OnlyGameStateRefreshed [of "ResetDesiredMoveLocation s" w parent]
      unfolding OnlyGameStateRefreshed_def R0_def by blast
    obtain m d where C0_eq:
      "C0 = R0\<lparr>AIState := (AIState R0)\<lparr>MoveTargetType := m, DesiredMoveLocation := d\<rparr>\<rparr>"
      using Choose_OnlyDestinationChanged [of R0 w parent TD]
      unfolding OnlyDestinationChanged_def C0_def by blast
    have m: "MoveTargetType (AIState C0) = m" unfolding C0_eq by simp
    have s1: "DetermineMoveLocation w s = WithTimeOfLastMovementTargetChange \<tau> C0"
    proof -
      have "TimeOfLastMovementTargetChange C0 = TimeOfLastMovementTargetChange s"
        unfolding C0_eq R0_eq by (simp add: ResetDesiredMoveLocation_def)
      then have "WithTimeOfLastMovementTargetChange (TimeOfLastMovementTargetChange s) C0 = C0"
        by (simp add: WithTimeOfLastMovementTargetChange_def)
      then show ?thesis
        unfolding DetermineMoveLocation_unfold [OF Addr False] \<tau>_def C0_def R0_def TD_def parent_def
        by simp
    qed
    let ?s1 = "WithTimeOfLastMovementTargetChange \<tau> C0"
    have p1: "ParentCharacter ?s1 = Addr pa"
      unfolding C0_eq R0_eq using Addr
      by (simp add: WithTimeOfLastMovementTargetChange_def ResetDesiredMoveLocation_def)
    have e1: "\<not> (BotType (BotConfig ?s1) = EBotTypes_Offense
            \<and> RouteState (AIState ?s1) = EAIRouteState_MovingToRouteStart)"
      unfolding C0_eq R0_eq using False
      by (simp add: WithTimeOfLastMovementTargetChange_def ResetDesiredMoveLocation_def)
    have t1: "CurrentTarget (AIState ?s1) = CurrentTarget (AIState s)"
      unfolding C0_eq R0_eq
      by (simp add: WithTimeOfLastMovementTargetChange_def ResetDesiredMoveLocation_def)
    have m1: "MoveTargetType (AIState ?s1) = m"
      unfolding C0_eq by (simp add: WithTimeOfLastMovementTargetChange_def)
    have reset1: "ResetDesiredMoveLocation ?s1
                    = WithTimeOfLastMovementTargetChange \<tau> (WithMoveTargetType m R0)"
      unfolding C0_eq R0_eq
      by (simp add: WithTimeOfLastMovementTargetChange_def ResetDesiredMoveLocation_def
            WithMoveTargetType_def)
    have R0_fix: "DetermineMoveLocation_Refresh w parent R0 = R0"
      unfolding R0_def by (rule Refresh_twice)
    have refresh1: "DetermineMoveLocation_Refresh w parent (ResetDesiredMoveLocation ?s1)
                    = WithTimeOfLastMovementTargetChange \<tau> (WithMoveTargetType m R0)"
      unfolding reset1 Refresh_WithTime Refresh_WithMoveTargetType R0_fix ..
    have "WithMoveTargetType m C0 = C0"
      unfolding C0_eq by (simp add: WithMoveTargetType_def)
    with Choose_blind [of w parent TD m R0]
    have blind: "DetermineMoveLocation_Choose w parent TD (WithMoveTargetType m R0) = C0"
      unfolding C0_def by auto
    have choose1: "DetermineMoveLocation_Choose w parent TD
                     (DetermineMoveLocation_Refresh w parent (ResetDesiredMoveLocation ?s1)) = ?s1"
      unfolding refresh1 Choose_WithTime blind ..
    have "DetermineMoveLocation w ?s1 = ?s1"
      unfolding DetermineMoveLocation_unfold [OF p1 e1] t1
      unfolding parent_def [symmetric] TD_def [symmetric] choose1
      using m1 by simp
    then show ?thesis unfolding s1 .
  qed
qed

lemma Sample_parent: "Characters SampleFlagWorld 0 = SampleCharacter"
  by (simp add: SampleFlagWorld_def SampleWorld_def)

lemma Sample_flags: "Flags SampleFlagWorld =
       [\<lparr>FlagTeamId = 1, FlagLocation = ZeroVector, IsHome = True, StateName = NotHeld\<rparr>,
        \<lparr>FlagTeamId = 2, FlagLocation = \<lparr>X = 3000, Y = 0, Z = 0\<rparr>, IsHome = False,
         StateName = NotHeld\<rparr>]"
  by (simp add: SampleFlagWorld_def SampleWorld_def)

lemma Sample_dist:
  "DistanceBetweenTargets (ActorLocation SampleCharacter) \<lparr>X = 3000, Y = 0, Z = 0\<rparr> = 3000"
  "DistanceBetweenTargets (ActorLocation SampleCharacter) ZeroVector = 0"
  by (simp_all add: DistanceBetweenTargets_def FVector_sub_def Size_def SizeSquared_def
        ZeroVector_def SampleCharacter_def)

lemma Sample_refresh:
  "DetermineMoveLocation_Refresh SampleFlagWorld SampleCharacter
     (SampleBot\<lparr>AIState := (AIState SampleBot)\<lparr>DesiredMoveLocation := ZeroVector\<rparr>\<rparr>)
   = SampleBot\<lparr>AIState := (AIState SampleBot)\<lparr>DistanceToEnemyFlag := 3000\<rparr>,
              GameState := (GameState SampleBot)
               \<lparr>EnemyFlagLocation := \<lparr>X = 3000, Y = 0, Z = 0\<rparr>, bEnemyFlagHome := False,
                FlagState := EAIFlagStates_EnemyFlagTakenFriendlySafe\<rparr>\<rparr>"
  unfolding DetermineMoveLocation_Refresh_def Sample_flags Let_def
  by (simp add: DetermineMoveLocation_ScanFlag_def DetermineMoveLocation_FlagState_def
        Sample_dist Let_def)
     (simp add: SampleBot_def SampleCharacter_def ZeroVector_def)

lemma Sample_choose:
  "DetermineMoveLocation_Choose SampleFlagWorld SampleCharacter 9999999
     (SampleBot\<lparr>AIState := (AIState SampleBot)\<lparr>DistanceToEnemyFlag := 3000\<rparr>,
              GameState := (GameState SampleBot)
               \<lparr>EnemyFlagLocation := \<lparr>X = 3000, Y = 0, Z = 0\<rparr>, bEnemyFlagHome := False,
                FlagState := EAIFlagStates_EnemyFlagTakenFriendlySafe\<rparr>\<rparr>)
   = SampleBot\<lparr>AIState := (AIState SampleBot)
               \<lparr>MoveTargetType := EAIMoveTargetTypes_EnemyFlag,
                DesiredMoveLocation := \<lparr>X = 3000, Y = 0, Z = 0\<rparr>,
                DistanceToEnemyFlag := 3000\<rparr>,
              GameState := (GameState SampleBot)
               \<lparr>EnemyFlagLocation := \<lparr>X = 3000, Y = 0, Z = 0\<rparr>, bEnemyFlagHome := False,
                FlagState := EAIFlagStates_EnemyFlagTakenFriendlySafe\<rparr>\<rparr>"
  by (simp add: DetermineMoveLocation_Choose_def DetermineMoveLocation_Holding_def
        DetermineMoveLocation_Chase_def DetermineMoveLocation_Offense_def
        DetermineMoveLocation_StayAtHome_def DetermineMoveLocation_Target_def
        DetermineMoveLocation_FlagOverride_def DetermineMoveLocation_Cap_def
        SetMoveTarget_def SampleBot_def Let_def)

theorem DetermineMoveLocation_idempotent_witness:
  "DetermineMoveLocation SampleFlagWorld (DetermineMoveLocation SampleFlagWorld SampleBot)
     = DetermineMoveLocation SampleFlagWorld SampleBot
   \<and> MoveTargetType (AIState (DetermineMoveLocation SampleFlagWorld SampleBot))
       = EAIMoveTargetTypes_EnemyFlag
   \<and> DesiredMoveLocation (AIState (DetermineMoveLocation SampleFlagWorld SampleBot))
       = \<lparr>X = 3000, Y = 0, Z = 0\<rparr>"
proof -
  have p: "ParentCharacter SampleBot = Addr 0" by (simp add: SampleBot_def)
  have e: "\<not> (BotType (BotConfig SampleBot) = EBotTypes_Offense
            \<and> RouteState (AIState SampleBot) = EAIRouteState_MovingToRouteStart)"
    by (simp add: SampleBot_def)
  have d: "DistanceToTarget SampleFlagWorld SampleCharacter (CurrentTarget (AIState SampleBot)) = 9999999"
    by (simp add: DistanceToTarget_def SampleBot_def)
  have 1: "MoveTargetType (AIState (DetermineMoveLocation SampleFlagWorld SampleBot))
             = EAIMoveTargetTypes_EnemyFlag"
    and 2: "DesiredMoveLocation (AIState (DetermineMoveLocation SampleFlagWorld SampleBot))
       = \<lparr>X = 3000, Y = 0, Z = 0\<rparr>"
    unfolding DetermineMoveLocation_unfold [OF p e] Sample_parent d ResetDesiredMoveLocation_def
      Sample_refresh Sample_choose
    by (simp_all add: WithTimeOfLastMovementTargetChange_def)
  show ?thesis
    using DetermineMoveLocation_idempotent [of SampleFlagWorld SampleBot] 1 2 by simp
qed

section \<open>Properties of the weapon selection\<close>

text \<open>
  Claim C4, as the code has it. For every invocation of \<open>SelectBestWeapon\<close> that
  passes its entry guard (a current target without a time of death, a character, the last
  weapon change at least two seconds ago) with a weapon in hand, the disc launcher (slot
  \<open>0\<close>) is selected exactly when its score is strictly greater than the chaingun's;
  otherwise, so whenever the two scores are equal, the chaingun (slot \<open>2\<close>) is
  selected. The sign of the scores plays no part.
\<close>

theorem SelectBestWeapon_choice:
  assumes "CurrentTarget (AIState s) = Addr a"
    and "ParentCharacter s = Addr pa"
    and "IsNearlyZero (TimeOfDeath (Characters w a))"
    and "2 \<le> TimeSeconds w - TimeOfLastWeaponChange s"
    and "Weapon (Characters w pa) = Some weapon"
  shows "SelectBestWeapon w s =
           (if snd (SelectBestWeapon_weights w s (Characters w pa) weapon a)
                 < fst (SelectBestWeapon_weights w s (Characters w pa) weapon a)
            then Inr (RecordCall (SwitchToWeaponAtIndex 0)
                   (if NameContainsChaingun weapon
                    then s\<lparr>TimeOfLastWeaponChange := TimeSeconds w\<rparr> else s))
            else Inr (RecordCall (SwitchToWeaponAtIndex 2)
                   (if NameContainsRingLauncher weapon
                    then s\<lparr>TimeOfLastWeaponChange := TimeSeconds w\<rparr> else s)))"
  using assms by (simp add: SelectBestWeapon_def Let_def)

lemma BothDisabled_weights:
  "SelectBestWeapon_weights SampleWorld BothDisabledBot SampleCharacter SampleWeapon 2 = (- 100, - 100)"
  by (simp add: SelectBestWeapon_weights_def Let_def BothDisabledBot_def SampleBot_def
        SampleWeapon_def)

text \<open>With both weapons disabled by the configuration the two scores are \<open>-100\<close>:
  equal, and both negative. The chaingun is selected.\<close>

theorem SelectBestWeapon_tie_counterexample:
  "SelectBestWeapon_weights SampleWorld BothDisabledBot SampleCharacter SampleWeapon 2
     = (- 100, - 100)
   \<and> SelectBestWeapon SampleWorld BothDisabledBot
       = Inr (RecordCall (SwitchToWeaponAtIndex 2)
                (BothDisabledBot\<lparr>TimeOfLastWeaponChange := 100\<rparr>))
   \<and> Calls (RecordCall (SwitchToWeaponAtIndex 2) (BothDisabledBot\<lparr>TimeOfLastWeaponChange := 100\<rparr>))
       = [SwitchToWeaponAtIndex 2]"
proof -
  have g: "CurrentTarget (AIState BothDisabledBot) = Addr 2"
    "ParentCharacter BothDisabledBot = Addr 0"
    "TimeOfLastWeaponChange BothDisabledBot = 0"
    "Calls BothDisabledBot = []"
    by (simp_all add: BothDisabledBot_def SampleBot_def)
  have w: "Characters SampleWorld 0 = SampleCharacter"
    "TimeOfDeath (Characters SampleWorld 2) = 0" "TimeSeconds SampleWorld = 100"
    by (simp_all add: SampleWorld_def SampleCharacter_def)
  have p: "Weapon SampleCharacter = Some SampleWeapon" by (simp add: SampleCharacter_def)
  have n: "NameContainsRingLauncher SampleWeapon" by (simp add: SampleWeapon_def)
  have "SelectBestWeapon SampleWorld BothDisabledBot
       = Inr (RecordCall (SwitchToWeaponAtIndex 2)
                (BothDisabledBot\<lparr>TimeOfLastWeaponChange := 100\<rparr>))"
    by (simp add: SelectBestWeapon_def Let_def g w p n BothDisabled_weights IsNearlyZero_def
          SMALL_NUMBER_def)
  then show ?thesis by (simp add: BothDisabled_weights RecordCall_def g)
qed

theorem SelectBestWeapon_choice_witness:
  "CurrentTarget (AIState BothDisabledBot) = Addr 2
   \<and> ParentCharacter BothDisabledBot = Addr 0
   \<and> IsNearlyZero (TimeOfDeath (Characters SampleWorld 2))
   \<and> 2 \<le> TimeSeconds SampleWorld - TimeOfLastWeaponChange BothDisabledBot
   \<and> Weapon (Characters SampleWorld 0) = Some SampleWeapon
   \<and> SelectBestWeapon SampleWorld BothDisabledBot
       = Inr (RecordCall (SwitchToWeaponAtIndex 2)
                (BothDisabledBot\<lparr>TimeOfLastWeaponChange := 100\<rparr>))"
proof -
  have g: "CurrentTarget (AIState BothDisabledBot) = Addr 2"
    "ParentCharacter BothDisabledBot = Addr 0"
    "2 \<le> TimeSeconds SampleWorld - TimeOfLastWeaponChange BothDisabledBot"
    by (simp_all add: BothDisabledBot_def SampleBot_def SampleWorld_def)
  have d: "IsNearlyZero (TimeOfDeath (Characters SampleWorld 2))"
    by (simp add: SampleWorld_def SampleCharacter_def IsNearlyZero_def SMALL_NUMBER_def)
  have p: "Weapon (Characters SampleWorld 0) = Some SampleWeapon"
    by (simp add: SampleWorld_def SampleCharacter_def)
  have c: "Characters SampleWorld 0 = SampleCharacter" by (simp add: SampleWorld_def)
  have n: "NameContainsRingLauncher SampleWeapon" "TimeSeconds SampleWorld = 100"
    by (simp_all add: SampleWeapon_def SampleWorld_def)
  show ?thesis
    using SelectBestWeapon_choice [OF g(1) g(2) d g(3) p] g d p
    by (simp add: c n BothDisabled_weights)
qed

section \<open>Properties of aiming\<close>

lemma GetWeaponAimLocation_no_draw:
  "snd (GetWeaponAimLocation w s rnd parent Target ProjectileSpeed Inheritance) = []"
  by (simp add: GetWeaponAimLocation_def PredictiveAim_def Let_def GetHeightAboveGround_no_draw
        split: ptr.splits)

lemma RollSkew_frame:
  "Calls (AimAtTarget_RollSkew w rnd s) = Calls s"
  "AIState (AimAtTarget_RollSkew w rnd s) = AIState s"
  "TimeOfLastShot (AimAtTarget_RollSkew w rnd s) = TimeOfLastShot s"
  by (simp_all add: AimAtTarget_RollSkew_def Let_def split: EBotAccuracyLevels.splits)

text \<open>
  Claim C9. With a null target \<open>GetWeaponAimLocation\<close> returns
  \<open>FVector::ForwardVector\<close> and computes no lead. Its one caller, \<open>AimAtTarget\<close>,
  does not reach the call with a null current target: it returns \<open>false\<close>, having at
  most released the trigger. When the aim spot it receives at line 1374 is the sentinel,
  it returns \<open>false\<close> at once: no rotation is set, the trigger is not touched, and the
  pending-fire flag and the time of the last shot are as before.
\<close>

theorem AimAtTarget_sentinel:
  "GetWeaponAimLocation w s rnd parent nullptr ProjectileSpeed Inheritance = (ForwardVector, [])
   \<and> (CurrentTarget (AIState s) = nullptr \<longrightarrow>
        fst (AimAtTarget w rnd FireWeapon s) = False
        \<and> (snd (AimAtTarget w rnd FireWeapon s) = s
            \<or> snd (AimAtTarget w rnd FireWeapon s) = RecordCall (SetTrigger 0 False) s))
   \<and> (ParentCharacter s = Addr pa \<and> CurrentTarget (AIState s) = Addr ta
        \<and> Weapon (Characters w pa) = Some weapon
        \<and> Controller (Characters w pa) \<noteq> NoController \<and> Health (Characters w ta) \<noteq> 0
        \<and> fst (AimAtTarget_AimSpot w rnd (Characters w pa) weapon
                 (AimAtTarget_ShouldFire w s weapon FireWeapon) (AimAtTarget_RollSkew w rnd s))
             = ForwardVector
      \<longrightarrow> fst (AimAtTarget w rnd FireWeapon s) = False
        \<and> Calls (snd (AimAtTarget w rnd FireWeapon s)) = Calls s
        \<and> AIState (snd (AimAtTarget w rnd FireWeapon s)) = AIState s
        \<and> TimeOfLastShot (snd (AimAtTarget w rnd FireWeapon s)) = TimeOfLastShot s)"
proof (intro conjI impI)
  show "GetWeaponAimLocation w s rnd parent nullptr ProjectileSpeed Inheritance = (ForwardVector, [])"
    by (simp add: GetWeaponAimLocation_def)
next
  assume "CurrentTarget (AIState s) = nullptr"
  then show "fst (AimAtTarget w rnd FireWeapon s) = False"
    and "snd (AimAtTarget w rnd FireWeapon s) = s
            \<or> snd (AimAtTarget w rnd FireWeapon s) = RecordCall (SetTrigger 0 False) s"
    by (simp_all add: AimAtTarget_def Let_def split: ptr.splits)
next
  assume h: "ParentCharacter s = Addr pa \<and> CurrentTarget (AIState s) = Addr ta
        \<and> Weapon (Characters w pa) = Some weapon
        \<and> Controller (Characters w pa) \<noteq> NoController \<and> Health (Characters w ta) \<noteq> 0
        \<and> fst (AimAtTarget_AimSpot w rnd (Characters w pa) weapon
                 (AimAtTarget_ShouldFire w s weapon FireWeapon) (AimAtTarget_RollSkew w rnd s))
             = ForwardVector"
  have nd: "snd (AimAtTarget_AimSpot w rnd (Characters w pa) weapon
                 (AimAtTarget_ShouldFire w s weapon FireWeapon) (AimAtTarget_RollSkew w rnd s)) = []"
    by (simp add: AimAtTarget_AimSpot_def Let_def GetWeaponAimLocation_no_draw)
  have r: "AimAtTarget w rnd FireWeapon s = (False, AimAtTarget_RollSkew w rnd s)"
    using h by (simp add: AimAtTarget_def Let_def nd)
  show "fst (AimAtTarget w rnd FireWeapon s) = False"
    and "Calls (snd (AimAtTarget w rnd FireWeapon s)) = Calls s"
    and "AIState (snd (AimAtTarget w rnd FireWeapon s)) = AIState s"
    and "TimeOfLastShot (snd (AimAtTarget w rnd FireWeapon s)) = TimeOfLastShot s"
    unfolding r by (simp_all add: RollSkew_frame)
qed

lemma Sentinel_guard:
  "ParentCharacter SentinelBot = Addr 0"
  "CurrentTarget (AIState SentinelBot) = Addr 6"
  "Weapon (Characters SampleWorld 0) = Some SampleWeapon"
  "Controller (Characters SampleWorld 0) \<noteq> NoController"
  "Health (Characters SampleWorld 6) \<noteq> 0"
  "Calls SentinelBot = []"
  by (simp_all add: SentinelBot_def SampleBot_def SampleWorld_def SampleCharacter_def)

lemma Sentinel_fire: "AimAtTarget_ShouldFire SampleWorld SentinelBot SampleWeapon True"
  by (simp add: AimAtTarget_ShouldFire_def Let_def SentinelBot_def SampleBot_def SampleWeapon_def)

lemma Sentinel_skew: "AimAtTarget_RollSkew SampleWorld rnd SentinelBot = SentinelBot"
  by (simp add: AimAtTarget_RollSkew_def Let_def SentinelBot_def SampleBot_def SampleWorld_def
        Clamp_def)

lemma Sentinel_time: "PredictiveAim_time 1 1 0 0 10000 100 1 = (True, 100)"
  by (simp add: PredictiveAim_time_def IsNearlyEqual_def SMALL_NUMBER_def Let_def)

lemma Sentinel_spot:
  "AimAtTarget_AimSpot SampleWorld (\<lambda>i. 0) (Characters SampleWorld 0) SampleWeapon True SentinelBot
     = (ForwardVector, [])"
proof -
  have c: "Characters SampleWorld 0 = SampleCharacter"
    "ActorLocation (Characters SampleWorld 6) = \<lparr>X = 100, Y = 0, Z = 0\<rparr>"
    "Velocity (Characters SampleWorld 6) = ZeroVector"
    "ActorLocation SampleCharacter = ZeroVector" "Velocity SampleCharacter = ZeroVector"
    by (simp_all add: SampleWorld_def SampleCharacter_def)
  have v: "FVector_sub ZeroVector (FVector_scale ZeroVector k) = ZeroVector" for k
    by (simp add: FVector_sub_def FVector_scale_def ZeroVector_def)
  have s: "Size (FVector_sub ZeroVector \<lparr>X = 100, Y = 0, Z = 0\<rparr>) = 100"
    by (simp add: Size_def SizeSquared_def FVector_sub_def ZeroVector_def)
  have r: "real_of_int (RandRange_int 1 5 0) = 1"
    by (simp add: RandRange_int_def TruncToInt_def)
  have p: "PredictiveAim SampleWorld SentinelBot (\<lambda>i. 0) ZeroVector 1 \<lparr>X = 100, Y = 0, Z = 0\<rparr> ZeroVector 0
             = (ForwardVector, [])"
    by (simp add: PredictiveAim_def Let_def s r Size_ZeroVector Sentinel_time
          GetHeightAboveGround_no_draw)
       (simp add: FVector_add_def FVector_div_def FVector_neg_def FVector_sub_def ZeroVector_def
          ForwardVector_def)
  have k: "RandomProjectilePropertiesSkew SentinelBot = 1 / 6500"
    "NameContainsRingLauncher SampleWeapon" "\<not> NameContainsChaingun SampleWeapon"
    by (simp_all add: SentinelBot_def SampleWeapon_def)
  show ?thesis
    by (simp add: AimAtTarget_AimSpot_def Let_def k Sentinel_guard GetWeaponAimLocation_def c v p)
qed

theorem AimAtTarget_sentinel_witness:
  "ParentCharacter SentinelBot = Addr 0 \<and> CurrentTarget (AIState SentinelBot) = Addr 6
   \<and> Weapon (Characters SampleWorld 0) = Some SampleWeapon
   \<and> Controller (Characters SampleWorld 0) \<noteq> NoController
   \<and> Health (Characters SampleWorld 6) \<noteq> 0
   \<and> fst (AimAtTarget_AimSpot SampleWorld (\<lambda>i. 0) (Characters SampleWorld 0) SampleWeapon
            (AimAtTarget_ShouldFire SampleWorld SentinelBot SampleWeapon True)
            (AimAtTarget_RollSkew SampleWorld (\<lambda>i. 0) SentinelBot))
        = ForwardVector
   \<and> fst (AimAtTarget SampleWorld (\<lambda>i. 0) True SentinelBot) = False
   \<and> Calls (snd (AimAtTarget SampleWorld (\<lambda>i. 0) True SentinelBot)) = []
   \<and> GetWeaponAimLocation SampleWorld SentinelBot (\<lambda>i. 0) SampleCharacter nullptr 6500 (1 / 2)
        = (ForwardVector, [])"
proof -
  have f: "fst (AimAtTarget_AimSpot SampleWorld (\<lambda>i. 0) (Characters SampleWorld 0) SampleWeapon
            (AimAtTarget_ShouldFire SampleWorld SentinelBot SampleWeapon True)
            (AimAtTarget_RollSkew SampleWorld (\<lambda>i. 0) SentinelBot))
        = ForwardVector"
    by (simp add: Sentinel_fire Sentinel_skew Sentinel_spot)
  show ?thesis
    using AimAtTarget_sentinel [of SampleWorld SentinelBot "\<lambda>i. 0" SampleCharacter 6500 "1 / 2"
        True 0 6 SampleWeapon] Sentinel_guard f
    by simp
qed

section \<open>Properties of the task selector\<close>

lemma KeepsTargetMemory_refl: "KeepsTargetMemory s s"
  by (simp add: KeepsTargetMemory_def)

lemma KeepsTargetMemory_trans:
  "KeepsTargetMemory s t \<Longrightarrow> KeepsTargetMemory t u \<Longrightarrow> KeepsTargetMemory s u"
  by (simp add: KeepsTargetMemory_def)

lemma DetermineRouteToRun_keeps: "KeepsTargetMemory s (DetermineRouteToRun w rnd parent s)"
  by (simp add: KeepsTargetMemory_def DetermineRouteToRun_def Let_def)

lemma StartRouteFollow_keeps: "KeepsTargetMemory s (StartRouteFollow w parent s)"
  by (simp add: KeepsTargetMemory_def StartRouteFollow_def Let_def)

lemma RecordCall_keeps: "KeepsTargetMemory s (RecordCall c s)"
  by (simp add: KeepsTargetMemory_def RecordCall_def)

lemma OnlyGameStateRefreshed_keeps:
  "OnlyGameStateRefreshed s t \<Longrightarrow> KeepsTargetMemory s t"
  by (auto simp: OnlyGameStateRefreshed_def KeepsTargetMemory_def)

lemma OnlyDestinationChanged_keeps:
  "OnlyDestinationChanged s t \<Longrightarrow> KeepsTargetMemory s t"
  by (auto simp: OnlyDestinationChanged_def KeepsTargetMemory_def)

lemma DetermineMoveLocation_keeps: "KeepsTargetMemory s (DetermineMoveLocation w s)"
proof (cases "ParentCharacter s")
  case nullptr
  then show ?thesis by (simp add: DetermineMoveLocation_def KeepsTargetMemory_refl)
next
  case (Addr pa)
  show ?thesis
  proof (cases "BotType (BotConfig s) = EBotTypes_Offense
            \<and> RouteState (AIState s) = EAIRouteState_MovingToRouteStart")
    case True
    then show ?thesis using Addr
      by (simp add: DetermineMoveLocation_def Let_def KeepsTargetMemory_def)
  next
    case False
    let ?r = "ResetDesiredMoveLocation s"
    let ?R = "DetermineMoveLocation_Refresh w (Characters w pa) ?r"
    let ?C = "DetermineMoveLocation_Choose w (Characters w pa)
                 (DistanceToTarget w (Characters w pa) (CurrentTarget (AIState s))) ?R"
    have 1: "KeepsTargetMemory s ?r"
      by (simp add: KeepsTargetMemory_def ResetDesiredMoveLocation_def)
    have 2: "KeepsTargetMemory ?r ?R"
      by (rule OnlyGameStateRefreshed_keeps) (rule Refresh_OnlyGameStateRefreshed)
    have 3: "KeepsTargetMemory ?R ?C"
      by (rule OnlyDestinationChanged_keeps) (rule Choose_OnlyDestinationChanged)
    have 4: "KeepsTargetMemory ?C (WithTimeOfLastMovementTargetChange (TimeSeconds w) ?C)"
      by (simp add: KeepsTargetMemory_def WithTimeOfLastMovementTargetChange_def)
    note C = KeepsTargetMemory_trans [OF KeepsTargetMemory_trans [OF 1 2] 3]
    show ?thesis
      unfolding DetermineMoveLocation_unfold [OF Addr False]
      using C KeepsTargetMemory_trans [OF C 4] by simp
  qed
qed

lemma Offense_keeps:
  "DetermineCurrentTask_Offense w parent D T s TW = Weighed s' TW' d
     \<Longrightarrow> KeepsTargetMemory s s'"
  unfolding DetermineCurrentTask_Offense_def Let_def Respawn_def
  using StartRouteFollow_keeps [of s w parent]
  by (auto simp: KeepsTargetMemory_def split: if_splits Weighing.splits)

lemma Chase_keeps:
  "DetermineCurrentTask_Chase D s TW = Weighed s' TW' d \<Longrightarrow> s' = s"
  unfolding DetermineCurrentTask_Chase_def Respawn_def
  by (auto split: if_splits)

lemma map_of_TMap_Add:
  "map_of (TMap_Add k v m) k' = (if k' = k then Some v else map_of m k')"
  by (simp add: TMap_Add_def update_conv')

text \<open>
  Claim C6, as the code has it. In a cycle that reaches the weighting with an empty target
  memory and no current target, the candidate \<open>LookingForEnemy\<close> has the weight \<open>3\<close>
  exactly when the task committed by the previous cycle was not \<open>LookingForEnemy\<close> and
  was committed at most \<open>2\<close> seconds ago, or was \<open>LookingForEnemy\<close> and was committed
  more than \<open>2\<close> seconds ago; otherwise its weight is the time since the last look
  multiplied by \<open>5\<close>. \<open>LastTask\<close> and \<open>TimeSinceTaskChange\<close> are the values read at
  lines 156 and 160.
\<close>

theorem LookingForEnemy_weight:
  assumes "RecentlySeenTargets s = []"
    and "CurrentTarget (AIState s) = nullptr"
    and "DetermineCurrentTask_Weigh w rnd parent LastTask TimeSinceTaskChange s
           = Weighed s' TaskWeights d"
  shows "map_of TaskWeights EAIStates_LookingForEnemy =
           Some (if (LastTask \<noteq> EAIStates_LookingForEnemy \<and> TimeSinceTaskChange \<le> 2)
                    \<or> (LastTask = EAIStates_LookingForEnemy \<and> TimeSinceTaskChange > 2)
                 then 3
                 else (TimeSeconds w - TimeOfLastLookForEnemy s) * 5)"
proof -
  define sA where "sA = (if BotType (BotConfig s) = EBotTypes_Offense
                  \<and> RouteState (AIState s) = EAIRouteState_NoRouteSelected
               then DetermineRouteToRun w rnd parent s
               else s)"
  define sB where "sB = DetermineMoveLocation w sA"
  define sC where "sC = (if bBotDebugMode sB
               then RecordCall (ClientDrawDebugLine (ActorLocation parent)
                                  (DesiredMoveLocation (AIState sB))) sB
               else sB)"
  define sD where "sD = (case CurrentTarget (AIState sC) of
                 nullptr \<Rightarrow> sC
               | Addr a \<Rightarrow>
                   if \<not> IsValid w (CurrentTarget (AIState sC))
                      \<or> IsNearlyZero (Health (Characters w a))
                   then sC\<lparr>AIState := (AIState sC)\<lparr>CurrentTarget := nullptr\<rparr>\<rparr>
                   else sC)"
  define D where "D = DistanceBetweenTargets (ActorLocation parent) (DesiredMoveLocation (AIState sD))"
  define L where "L = LookForEnemyTaskWeight LastTask TimeSinceTaskChange
                        (TimeSeconds w - TimeOfLastLookForEnemy sD)"
  have kA: "KeepsTargetMemory s sA"
    unfolding sA_def by (simp add: KeepsTargetMemory_refl DetermineRouteToRun_keeps)
  have kB: "KeepsTargetMemory sA sB"
    unfolding sB_def by (rule DetermineMoveLocation_keeps)
  have kC: "KeepsTargetMemory sB sC"
    unfolding sC_def by (simp add: KeepsTargetMemory_refl RecordCall_keeps)
  have kC': "KeepsTargetMemory s sC"
    using kA kB kC by (blast intro: KeepsTargetMemory_trans)
  then have "CurrentTarget (AIState sC) = nullptr"
    using assms(2) by (simp add: KeepsTargetMemory_def)
  then have "sD = sC" unfolding sD_def by simp
  with kC' have kD: "KeepsTargetMemory s sD" by simp
  have targets: "DetermineCurrentTask_Targets w rnd parent LastTask TimeSinceTaskChange
                   (TimeSeconds w - TimeOfLastLookForEnemy sD) u TW
                 = (u, TMap_Add EAIStates_LookingForEnemy L TW)"
    if "KeepsTargetMemory sD u" for u TW
    using that kD assms(1,2)
    by (simp add: DetermineCurrentTask_Targets_def KeepsTargetMemory_def L_def)
  have final: "map_of TW' EAIStates_LookingForEnemy = Some L"
    if "KeepsTargetMemory sD u"
      and "Weighed s' TaskWeights d =
        (let TW = (if BotType (BotConfig u) = EBotTypes_LO
                         then DetermineCurrentTask_LO D u TW0 else TW0);
             TW = (if BotType (BotConfig u) = EBotTypes_StayAtHome
                         then DetermineCurrentTask_StayAtHome D u TW else TW);
             targets = DetermineCurrentTask_Targets w rnd parent LastTask TimeSinceTaskChange
                         (TimeSeconds w - TimeOfLastLookForEnemy sD) u TW;
             u' = fst targets;
             TW = snd targets;
             TW = (if bIsHoldingFlag (AIState u') \<and> bFriendlyFlagHome (GameState u')
                   then TMap_Add EAIStates_MoveToTarget 9001 TW else TW)
         in Weighed u' TW D)"
      and "TW' = TaskWeights"
    for u TW0 TW'
    using that(2,3) unfolding Let_def targets [OF that(1)]
    by (auto simp: map_of_TMap_Add)
  have L_eq: "L = (if (LastTask \<noteq> EAIStates_LookingForEnemy \<and> TimeSinceTaskChange \<le> 2)
                    \<or> (LastTask = EAIStates_LookingForEnemy \<and> TimeSinceTaskChange > 2)
                 then 3
                 else (TimeSeconds w - TimeOfLastLookForEnemy s) * 5)"
    using kD by (simp add: L_def LookForEnemyTaskWeight_def KeepsTargetMemory_def Let_def)
  have W: "DetermineCurrentTask_Weigh w rnd parent LastTask TimeSinceTaskChange s =
     (case (if BotType (BotConfig sD) = EBotTypes_Offense
             then DetermineCurrentTask_Offense w parent D
                    (TimeSeconds w - TimeOfLastMovementTargetChange sD) sD []
             else Weighed sD [] D) of
           Returned r \<Rightarrow> Returned r
         | Weighed u TW0 d0 \<Rightarrow>
             (case (if BotType (BotConfig u) = EBotTypes_Chase
                    then DetermineCurrentTask_Chase D u TW0
                    else Weighed u TW0 D) of
                Returned r \<Rightarrow> Returned r
              | Weighed u TW1 d1 \<Rightarrow>
                  (let TW = (if BotType (BotConfig u) = EBotTypes_LO
                         then DetermineCurrentTask_LO D u TW1 else TW1);
             TW = (if BotType (BotConfig u) = EBotTypes_StayAtHome
                         then DetermineCurrentTask_StayAtHome D u TW else TW);
             targets = DetermineCurrentTask_Targets w rnd parent LastTask TimeSinceTaskChange
                         (TimeSeconds w - TimeOfLastLookForEnemy sD) u TW;
             u' = fst targets;
             TW = snd targets;
             TW = (if bIsHoldingFlag (AIState u') \<and> bFriendlyFlagHome (GameState u')
                   then TMap_Add EAIStates_MoveToTarget 9001 TW else TW)
         in Weighed u' TW D)))"
    unfolding DetermineCurrentTask_Weigh_def D_def sD_def sC_def sB_def sA_def Let_def ..
  obtain u0 TW0 d0 where o: "(if BotType (BotConfig sD) = EBotTypes_Offense
             then DetermineCurrentTask_Offense w parent D
                    (TimeSeconds w - TimeOfLastMovementTargetChange sD) sD []
             else Weighed sD [] D) = Weighed u0 TW0 d0"
    using assms(3) unfolding W by (auto split: Weighing.splits)
  have k0: "KeepsTargetMemory sD u0"
    using o Offense_keeps [of w parent D _ sD "[]" u0 TW0 d0]
    by (auto simp: KeepsTargetMemory_refl split: if_splits)
  have W1: "Weighed s' TaskWeights d =
     (case (if BotType (BotConfig u0) = EBotTypes_Chase
                    then DetermineCurrentTask_Chase D u0 TW0
                    else Weighed u0 TW0 D) of
                Returned r \<Rightarrow> Returned r
              | Weighed u TW1 d1 \<Rightarrow>
                  (let TW = (if BotType (BotConfig u) = EBotTypes_LO
                         then DetermineCurrentTask_LO D u TW1 else TW1);
             TW = (if BotType (BotConfig u) = EBotTypes_StayAtHome
                         then DetermineCurrentTask_StayAtHome D u TW else TW);
             targets = DetermineCurrentTask_Targets w rnd parent LastTask TimeSinceTaskChange
                         (TimeSeconds w - TimeOfLastLookForEnemy sD) u TW;
             u' = fst targets;
             TW = snd targets;
             TW = (if bIsHoldingFlag (AIState u') \<and> bFriendlyFlagHome (GameState u')
                   then TMap_Add EAIStates_MoveToTarget 9001 TW else TW)
         in Weighed u' TW D))"
    using assms(3) unfolding W o by simp
  obtain u1 TW1 d1 where c: "(if BotType (BotConfig u0) = EBotTypes_Chase
                    then DetermineCurrentTask_Chase D u0 TW0
                    else Weighed u0 TW0 D) = Weighed u1 TW1 d1"
    using W1 by (cases "(if BotType (BotConfig u0) = EBotTypes_Chase
                    then DetermineCurrentTask_Chase D u0 TW0
                    else Weighed u0 TW0 D)") simp_all
  have "u1 = u0"
    using c Chase_keeps [of D u0 TW0 u1 TW1 d1] by (auto split: if_splits)
  with k0 have k1: "KeepsTargetMemory sD u1" by simp
  have W2: "Weighed s' TaskWeights d =
                  (let TW = (if BotType (BotConfig u1) = EBotTypes_LO
                         then DetermineCurrentTask_LO D u1 TW1 else TW1);
             TW = (if BotType (BotConfig u1) = EBotTypes_StayAtHome
                         then DetermineCurrentTask_StayAtHome D u1 TW else TW);
             targets = DetermineCurrentTask_Targets w rnd parent LastTask TimeSinceTaskChange
                         (TimeSeconds w - TimeOfLastLookForEnemy sD) u1 TW;
             u' = fst targets;
             TW = snd targets;
             TW = (if bIsHoldingFlag (AIState u') \<and> bFriendlyFlagHome (GameState u')
                   then TMap_Add EAIStates_MoveToTarget 9001 TW else TW)
         in Weighed u' TW D)"
    using W1 unfolding c by simp
  have "map_of TaskWeights EAIStates_LookingForEnemy = Some L"
    using final [OF k1 W2] by simp
  then show ?thesis unfolding L_eq .
qed

lemma Sample_home_parent:
  "Characters SampleWorld 0 = SampleCharacter"
  "Flags SampleWorld = []"
  "TimeSeconds SampleWorld = 100"
  by (simp_all add: SampleWorld_def)

lemma Sample_home_refresh:
  "DetermineMoveLocation_Refresh SampleWorld SampleCharacter
     (ResetDesiredMoveLocation (SampleBotLookedAt x))
   = SampleBotLookedAt x"
  unfolding DetermineMoveLocation_Refresh_def Sample_home_parent Let_def ResetDesiredMoveLocation_def
  by (simp add: DetermineMoveLocation_FlagState_def SampleBotLookedAt_def SampleBot_def SampleCharacter_def)

lemma Sample_home_choose:
  "DetermineMoveLocation_Choose SampleWorld SampleCharacter 9999999
     (SampleBotLookedAt x)
   = SampleBotLookedAt x"
  by (simp add: DetermineMoveLocation_Choose_def DetermineMoveLocation_Holding_def
        DetermineMoveLocation_Chase_def DetermineMoveLocation_Offense_def
        DetermineMoveLocation_StayAtHome_def DetermineMoveLocation_Target_def
        DetermineMoveLocation_FlagOverride_def DetermineMoveLocation_Cap_def
        SetMoveTarget_def SampleBotLookedAt_def SampleBot_def Let_def)

lemma Sample_home_move:
  "DetermineMoveLocation SampleWorld (SampleBotLookedAt x)
     = SampleBotLookedAt x"
proof -
  let ?s = "SampleBotLookedAt x"
  have p: "ParentCharacter ?s = Addr 0" by (simp add: SampleBotLookedAt_def SampleBot_def)
  have e: "\<not> (BotType (BotConfig ?s) = EBotTypes_Offense
            \<and> RouteState (AIState ?s) = EAIRouteState_MovingToRouteStart)"
    by (simp add: SampleBotLookedAt_def SampleBot_def)
  have d: "DistanceToTarget SampleWorld SampleCharacter (CurrentTarget (AIState ?s)) = 9999999"
    by (simp add: DistanceToTarget_def SampleBotLookedAt_def SampleBot_def)
  show ?thesis
    unfolding DetermineMoveLocation_unfold [OF p e] Sample_home_parent d Sample_home_refresh
      Sample_home_choose
    by simp
qed

lemma Sample_home_weigh:
  "DetermineCurrentTask_Weigh SampleWorld (\<lambda>i. 0) SampleCharacter LastTask TimeSinceTaskChange
     (SampleBotLookedAt x)
   = Weighed (SampleBotLookedAt x)
       [(EAIStates_MoveToTarget, 5),
        (EAIStates_LookingForEnemy,
         LookForEnemyTaskWeight LastTask TimeSinceTaskChange (100 - x))] 0"
proof -
  have sel:
    "BotType (BotConfig (SampleBotLookedAt x)) = EBotTypes_StayAtHome"
    "bBotDebugMode (SampleBotLookedAt x) = False"
    "CurrentTarget (AIState (SampleBotLookedAt x)) = nullptr"
    "DesiredMoveLocation (AIState (SampleBotLookedAt x)) = ZeroVector"
    "MoveTargetType (AIState (SampleBotLookedAt x))
       = EAIMoveTargetTypes_FriendlyStand"
    "RecentlySeenTargets (SampleBotLookedAt x) = []"
    "bIsHoldingFlag (AIState (SampleBotLookedAt x)) = False"
    "TimeOfLastLookForEnemy (SampleBotLookedAt x) = x"
    by (simp_all add: SampleBotLookedAt_def SampleBot_def)
  show ?thesis
    unfolding DetermineCurrentTask_Weigh_def
    by (simp add: Sample_home_move sel Sample_dist Sample_home_parent
          DetermineCurrentTask_StayAtHome_def DetermineCurrentTask_Targets_def
          TMap_Add_def Clamp_def Let_def)
qed

theorem LookingForEnemy_weight_witness:
  "RecentlySeenTargets (SampleBotLookedAt 0) = []
   \<and> CurrentTarget (AIState (SampleBotLookedAt 0)) = nullptr
   \<and> DetermineCurrentTask_Weigh SampleWorld (\<lambda>i. 0) SampleCharacter EAIStates_MoveToTarget 10
        (SampleBotLookedAt 0)
       = Weighed (SampleBotLookedAt 0)
           [(EAIStates_MoveToTarget, 5), (EAIStates_LookingForEnemy, 500)] 0
   \<and> map_of [(EAIStates_MoveToTarget, 5), (EAIStates_LookingForEnemy, 500 :: real)]
        EAIStates_LookingForEnemy
       = Some ((TimeSeconds SampleWorld - TimeOfLastLookForEnemy (SampleBotLookedAt 0)) * 5)"
proof -
  have r: "RecentlySeenTargets (SampleBotLookedAt 0) = []"
    and c: "CurrentTarget (AIState (SampleBotLookedAt 0)) = nullptr"
    by (simp_all add: SampleBotLookedAt_def SampleBot_def)
  have w: "DetermineCurrentTask_Weigh SampleWorld (\<lambda>i. 0) SampleCharacter EAIStates_MoveToTarget 10
             (SampleBotLookedAt 0)
           = Weighed (SampleBotLookedAt 0)
               [(EAIStates_MoveToTarget, 5), (EAIStates_LookingForEnemy, 500)] 0"
    unfolding Sample_home_weigh by (simp add: LookForEnemyTaskWeight_def)
  show ?thesis
    using LookingForEnemy_weight [OF r c w] r c w by simp
qed

theorem LookingForEnemy_weight_counterexample:
  "RecentlySeenTargets (SampleBotLookedAt (199 / 2)) = []
   \<and> CurrentTarget (AIState (SampleBotLookedAt (199 / 2))) = nullptr
   \<and> TimeSeconds SampleWorld - TimeOfLastLookForEnemy (SampleBotLookedAt (199 / 2)) = 1 / 2
   \<and> DetermineCurrentTask_Weigh SampleWorld (\<lambda>i. 0) SampleCharacter EAIStates_LookingForEnemy 1
        (SampleBotLookedAt (199 / 2))
      = Weighed (SampleBotLookedAt (199 / 2))
          [(EAIStates_MoveToTarget, 5), (EAIStates_LookingForEnemy, 5 / 2)] 0
   \<and> DetermineCurrentTask_Weigh SampleWorld (\<lambda>i. 0) SampleCharacter EAIStates_LookingForEnemy 10
        (SampleBotLookedAt (199 / 2))
      = Weighed (SampleBotLookedAt (199 / 2))
          [(EAIStates_MoveToTarget, 5), (EAIStates_LookingForEnemy, 3)] 0"
proof -
  have s: "RecentlySeenTargets (SampleBotLookedAt (199 / 2)) = []"
    "CurrentTarget (AIState (SampleBotLookedAt (199 / 2))) = nullptr"
    "TimeSeconds SampleWorld - TimeOfLastLookForEnemy (SampleBotLookedAt (199 / 2)) = 1 / 2"
    by (simp_all add: SampleBotLookedAt_def SampleBot_def SampleWorld_def)
  have a: "DetermineCurrentTask_Weigh SampleWorld (\<lambda>i. 0) SampleCharacter EAIStates_LookingForEnemy 1
        (SampleBotLookedAt (199 / 2))
      = Weighed (SampleBotLookedAt (199 / 2))
          [(EAIStates_MoveToTarget, 5), (EAIStates_LookingForEnemy, 5 / 2)] 0"
    unfolding Sample_home_weigh
    by (simp add: LookForEnemyTaskWeight_def)
  have b: "DetermineCurrentTask_Weigh SampleWorld (\<lambda>i. 0) SampleCharacter EAIStates_LookingForEnemy 10
        (SampleBotLookedAt (199 / 2))
      = Weighed (SampleBotLookedAt (199 / 2))
          [(EAIStates_MoveToTarget, 5), (EAIStates_LookingForEnemy, 3)] 0"
    unfolding Sample_home_weigh
    by (simp add: LookForEnemyTaskWeight_def)
  show ?thesis using s a b by simp
qed

lemma LongMatch_parent:
  "Characters LongMatchWorld 0 = SampleCharacter\<lparr>CarriedObject := Addr 60\<rparr>"
  "TimeSeconds LongMatchWorld = 2000"
  "Flags LongMatchWorld =
          [\<lparr>FlagTeamId = 1, FlagLocation = \<lparr>X = 5000, Y = 0, Z = 0\<rparr>, IsHome = True,
            StateName = NotHeld\<rparr>,
           \<lparr>FlagTeamId = 2, FlagLocation = ZeroVector, IsHome = False, StateName = Held\<rparr>]"
  by (simp_all add: LongMatchWorld_def SampleWorld_def)

lemma Carrier_dist:
  "DistanceBetweenTargets \<lparr>X = 0, Y = 0, Z = 0\<rparr> \<lparr>X = 5000, Y = 0, Z = 0\<rparr> = 5000"
  "DistanceBetweenTargets \<lparr>X = 0, Y = 0, Z = 0\<rparr> \<lparr>X = 0, Y = 0, Z = 0\<rparr> = 0"
  by (simp_all add: DistanceBetweenTargets_def FVector_sub_def Size_def SizeSquared_def)

lemma Carrier_refresh:
  "DetermineMoveLocation_Refresh LongMatchWorld (SampleCharacter\<lparr>CarriedObject := Addr 60\<rparr>)
     (ResetDesiredMoveLocation
        (CarrierBot\<lparr>AIState := (AIState CarrierBot)\<lparr>CurrentTask := EAIStates_LookingForEnemy\<rparr>\<rparr>))
   = CarrierBot_weighing\<lparr>AIState := (AIState CarrierBot_weighing)\<lparr>DesiredMoveLocation := ZeroVector\<rparr>\<rparr>"
  unfolding DetermineMoveLocation_Refresh_def LongMatch_parent Let_def ResetDesiredMoveLocation_def
  by (simp add: DetermineMoveLocation_ScanFlag_def DetermineMoveLocation_FlagState_def
        Carrier_dist Let_def)
     (simp add: CarrierBot_def CarrierBot_weighing_def SampleBot_def SampleCharacter_def
        ZeroVector_def Carrier_dist)

lemma Carrier_choose:
  "DetermineMoveLocation_Choose LongMatchWorld (SampleCharacter\<lparr>CarriedObject := Addr 60\<rparr>) 9999999
     (CarrierBot_weighing\<lparr>AIState := (AIState CarrierBot_weighing)\<lparr>DesiredMoveLocation := ZeroVector\<rparr>\<rparr>)
   = CarrierBot_weighing"
  by (simp add: DetermineMoveLocation_Choose_def DetermineMoveLocation_Holding_def
        DetermineMoveLocation_Chase_def DetermineMoveLocation_Offense_def
        DetermineMoveLocation_StayAtHome_def DetermineMoveLocation_Target_def
        DetermineMoveLocation_FlagOverride_def DetermineMoveLocation_Cap_def
        SetMoveTarget_def CarrierBot_weighing_def SampleBot_def Let_def)

lemma Carrier_move:
  "DetermineMoveLocation LongMatchWorld
     (CarrierBot\<lparr>AIState := (AIState CarrierBot)\<lparr>CurrentTask := EAIStates_LookingForEnemy\<rparr>\<rparr>)
   = CarrierBot_weighing"
proof -
  let ?s = "CarrierBot\<lparr>AIState := (AIState CarrierBot)\<lparr>CurrentTask := EAIStates_LookingForEnemy\<rparr>\<rparr>"
  have p: "ParentCharacter ?s = Addr 0" by (simp add: CarrierBot_def SampleBot_def)
  have e: "\<not> (BotType (BotConfig ?s) = EBotTypes_Offense
            \<and> RouteState (AIState ?s) = EAIRouteState_MovingToRouteStart)"
    by (simp add: CarrierBot_def SampleBot_def)
  have d: "DistanceToTarget LongMatchWorld (SampleCharacter\<lparr>CarriedObject := Addr 60\<rparr>)
             (CurrentTarget (AIState ?s)) = 9999999"
    by (simp add: DistanceToTarget_def CarrierBot_def SampleBot_def)
  have m: "MoveTargetType (AIState ?s) = MoveTargetType (AIState CarrierBot_weighing)"
    by (simp add: CarrierBot_def CarrierBot_weighing_def SampleBot_def)
  show ?thesis
    unfolding DetermineMoveLocation_unfold [OF p e] LongMatch_parent d Carrier_refresh Carrier_choose
    using m by simp
qed


lemma Carrier_weighing_sel:
  "BotType (BotConfig CarrierBot_weighing) = EBotTypes_StayAtHome"
  "bBotDebugMode CarrierBot_weighing = False"
  "CurrentTarget (AIState CarrierBot_weighing) = nullptr"
  "TimeOfLastLookForEnemy CarrierBot_weighing = 0"
  "TimeOfLastMovementTargetChange CarrierBot_weighing = 0"
  "DesiredMoveLocation (AIState CarrierBot_weighing) = \<lparr>X = 5000, Y = 0, Z = 0\<rparr>"
  "MoveTargetType (AIState CarrierBot_weighing) = EAIMoveTargetTypes_FriendlyStand"
  "RecentlySeenTargets CarrierBot_weighing = []"
  "bIsHoldingFlag (AIState CarrierBot_weighing) = True"
  "bFriendlyFlagHome (GameState CarrierBot_weighing) = True"
  "bFriendlyFlagHeld (GameState CarrierBot_weighing) = False"
  "bEnemyFlagHeld (GameState CarrierBot_weighing) = True"
  "CurrentTask (AIState CarrierBot_weighing) = EAIStates_LookingForEnemy"
  by (simp_all add: CarrierBot_weighing_def SampleBot_def)

lemma Carrier_sel:
  "ParentCharacter CarrierBot = Addr 0"
  "bIsDead CarrierBot = False"
  "BotType (BotConfig CarrierBot) = EBotTypes_StayAtHome"
  "bPendingWeaponFire (AIState CarrierBot) = False"
  "CurrentTask (AIState CarrierBot) = EAIStates_MoveToTarget"
  "TimeOfTaskStart CarrierBot = 1990"
  by (simp_all add: CarrierBot_def SampleBot_def)

lemma Carrier_weigh:
  "DetermineCurrentTask_Weigh LongMatchWorld (\<lambda>i. 0) (SampleCharacter\<lparr>CarriedObject := Addr 60\<rparr>)
     EAIStates_MoveToTarget 10
     (CarrierBot\<lparr>AIState := (AIState CarrierBot)\<lparr>CurrentTask := EAIStates_LookingForEnemy\<rparr>\<rparr>)
   = Weighed CarrierBot_weighing
       [(EAIStates_MoveToTarget, 9001), (EAIStates_LookingForEnemy, 10000)] 5000"
proof -
  have a: "ActorLocation (SampleCharacter\<lparr>CarriedObject := Addr 60\<rparr>) = \<lparr>X = 0, Y = 0, Z = 0\<rparr>"
    by (simp add: SampleCharacter_def ZeroVector_def)
  show ?thesis
    unfolding DetermineCurrentTask_Weigh_def
    by (simp add: Carrier_sel Carrier_move Carrier_weighing_sel a Carrier_dist LongMatch_parent
          DetermineCurrentTask_StayAtHome_def DetermineCurrentTask_Targets_def
          LookForEnemyTaskWeight_def TMap_Add_def Clamp_def Let_def)
qed

lemma Carrier_max:
  "DetermineCurrentTask_Max [(EAIStates_MoveToTarget, 9001), (EAIStates_LookingForEnemy, 10000)]
     (0, EAIStates_LookingForEnemy) = (10000, EAIStates_LookingForEnemy)"
  by (simp add: DetermineCurrentTask_Max_def)

lemma Carrier_commit:
  "DetermineCurrentTask_Commit LongMatchWorld EAIStates_MoveToTarget 5000 CarrierBot_weighing
     [(EAIStates_MoveToTarget, 9001), (EAIStates_LookingForEnemy, 10000)] = CarrierBot_committed"
  unfolding DetermineCurrentTask_Commit_def Let_def Carrier_weighing_sel Carrier_max
  by (simp add: LongMatch_parent CarrierBot_committed_def CarrierBot_weighing_def SampleBot_def)

text \<open>
  Claim C1. A bot that is not a route runner, with no shot pending, that holds the flag
  while the friendly flag is home at the weighting step of a cycle without respawn, should
  commit \<open>MoveToTarget\<close> whatever the other weights are. On the sample input the
  candidate \<open>MoveToTarget\<close> gets the weight \<open>9001\<close> of line 448, the candidate
  \<open>LookingForEnemy\<close> the weight \<open>2000 * 5 = 10000\<close> of line 377, and the cycle commits
  \<open>LookingForEnemy\<close>.
\<close>

theorem DetermineCurrentTask_carrier_failing_input:
  "BotType (BotConfig CarrierBot) \<noteq> EBotTypes_RouteRunner
   \<and> \<not> bPendingWeaponFire (AIState CarrierBot)
   \<and> DetermineCurrentTask_Weigh LongMatchWorld (\<lambda>i. 0) (Characters LongMatchWorld 0)
        (CurrentTask (AIState CarrierBot)) (TimeSeconds LongMatchWorld - TimeOfTaskStart CarrierBot)
        (CarrierBot\<lparr>AIState := (AIState CarrierBot)\<lparr>CurrentTask := EAIStates_LookingForEnemy\<rparr>\<rparr>)
      = Weighed CarrierBot_weighing
          [(EAIStates_MoveToTarget, 9001), (EAIStates_LookingForEnemy, 10000)] 5000
   \<and> bIsHoldingFlag (AIState CarrierBot_weighing)
   \<and> bFriendlyFlagHome (GameState CarrierBot_weighing)
   \<and> DetermineCurrentTask LongMatchWorld (\<lambda>i. 0) CarrierBot = Inr CarrierBot_committed
   \<and> CurrentTask (AIState CarrierBot_committed) = EAIStates_LookingForEnemy"
proof -
  have c: "Controller (SampleCharacter\<lparr>CarriedObject := Addr 60\<rparr>) = AAIPlayerController"
    by (simp add: SampleCharacter_def)
  have d: "DetermineCurrentTask LongMatchWorld (\<lambda>i. 0) CarrierBot = Inr CarrierBot_committed"
    unfolding DetermineCurrentTask_def
    by (simp add: Carrier_sel LongMatch_parent c Carrier_weigh Carrier_commit Let_def)
  have e: "CurrentTask (AIState CarrierBot_committed) = EAIStates_LookingForEnemy"
    by (simp add: CarrierBot_committed_def)
  show ?thesis
    using d e by (simp add: Carrier_sel LongMatch_parent Carrier_weigh Carrier_weighing_sel)
qed

theorem DetermineCurrentTask_carrier_failing_input_witness:
  "DetermineCurrentTask LongMatchWorld (\<lambda>i. 0) CarrierBot = Inr CarrierBot_committed
   \<and> CurrentTask (AIState CarrierBot_committed) \<noteq> EAIStates_MoveToTarget"
  using DetermineCurrentTask_carrier_failing_input by simp

end
